theory Spec2Isabelle
  imports Main "HOL-Library.Word" "HOL-Library.Signed_Division"
begin

unbundle bit_operations_syntax

section \<open>Value types\<close>

text \<open>
  The header \<^verbatim>\<open>value.h\<close> is not among the sources; the enumeration below is
  modelled from the specification and from the uses in \<^verbatim>\<open>value.c\<close>,
  \<^verbatim>\<open>parse.c\<close> and \<^verbatim>\<open>cli.c\<close>: ten scalar types, listed in the order of the
  rows of the method table \<^verbatim>\<open>value_ops\<close>, the value 0 that
  \<^verbatim>\<open>value_type_from_substring\<close> returns for an unknown name (\<open>VOID\<close>), and the
  pointer flag \<^verbatim>\<open>PTR\<close> set on a pointee type (\<open>PTR U16\<close> is \<^verbatim>\<open>U16PTR\<close>).

  \<^verbatim>\<open>SINT\<close> and \<^verbatim>\<open>UINT\<close> are enumerators of their own: the switch of
  \<^verbatim>\<open>value_type_to_string\<close> has \<^verbatim>\<open>case SINT: return "sint"\<close> and
  \<^verbatim>\<open>case UINT: return "uint"\<close> beside \<^verbatim>\<open>case S32\<close> and \<^verbatim>\<open>case U32\<close>, and C admits
  no two equal case labels. They are the tags of the families "signed integer" and
  "unsigned integer" of the specification, with no width; \<^verbatim>\<open>parse.c\<close> assigns them
  to the nodes of literals and \<^verbatim>\<open>SINT\<close> to relational, equality and conditional
  nodes. No function of \<^verbatim>\<open>value.c\<close> gives a value one of them.
\<close>

datatype value_type =
  VOID | SINT | UINT | S8 | U8 | S16 | U16 | S32 | U32 | S64 | U64 | F32 | F64 | PTR value_type

text \<open>
  Modelled from the spec: the flag tests \<^verbatim>\<open>type & INT\<close>, \<^verbatim>\<open>type & FPU\<close> and
  \<^verbatim>\<open>type & PTR\<close> (the flag constants are declared in the missing header).
  The families are "signed integer (INT&signed), unsigned integer (INT&unsigned),
  floating (FPU)", so a family tag of the integers passes the test of \<^verbatim>\<open>INT\<close> as
  its members do; a pointer type is the pointee's tag with the pointer bit set.
\<close>

fun type_INT :: "value_type \<Rightarrow> bool" where
  "type_INT SINT = True"
| "type_INT UINT = True"
| "type_INT S8 = True"
| "type_INT U8 = True"
| "type_INT S16 = True"
| "type_INT U16 = True"
| "type_INT S32 = True"
| "type_INT U32 = True"
| "type_INT S64 = True"
| "type_INT U64 = True"
| "type_INT (PTR t) = type_INT t"
| "type_INT _ = False"

fun type_FPU :: "value_type \<Rightarrow> bool" where
  "type_FPU F32 = True"
| "type_FPU F64 = True"
| "type_FPU (PTR t) = type_FPU t"
| "type_FPU _ = False"

fun type_PTR :: "value_type \<Rightarrow> bool" where
  "type_PTR (PTR t) = True"
| "type_PTR _ = False"

text \<open>
  Modelled from the spec: \<^verbatim>\<open>value_type_sizeof\<close> (a macro of the missing header):
  "the stored bit width always matches the tag". \<^verbatim>\<open>cli.c\<close> never asks for the
  size of a pointer type itself, it substitutes the address type first, so no size is
  given to \<open>PTR t\<close> and \<open>VOID\<close> here, and none to the family tags, which have no
  width.
\<close>

fun value_type_sizeof :: "value_type \<Rightarrow> nat" where
  "value_type_sizeof S8 = 1"
| "value_type_sizeof U8 = 1"
| "value_type_sizeof S16 = 2"
| "value_type_sizeof U16 = 2"
| "value_type_sizeof S32 = 4"
| "value_type_sizeof U32 = 4"
| "value_type_sizeof S64 = 8"
| "value_type_sizeof U64 = 8"
| "value_type_sizeof F32 = 4"
| "value_type_sizeof F64 = 8"
| "value_type_sizeof _ = 0"

text \<open>
  The order of the promotion lattice, as a rank: for a scalar type the position of its
  row in \<^verbatim>\<open>value_ops\<close>, after the two family tags. Wider integers rank higher, at
  equal width the unsigned type ranks higher, and the floating types rank above every
  integer type. The specification orders the types of a family by width and says
  nothing of the family tags, which have none: they rank below the types that have a
  width, the unsigned one above the signed one. Nothing proved below depends on where
  they rank, only on a tag being the higher of itself and itself.
\<close>

fun type_rank :: "value_type \<Rightarrow> nat" where
  "type_rank VOID = 0"
| "type_rank SINT = 1"
| "type_rank UINT = 2"
| "type_rank S8 = 3"
| "type_rank U8 = 4"
| "type_rank S16 = 5"
| "type_rank U16 = 6"
| "type_rank S32 = 7"
| "type_rank U32 = 8"
| "type_rank S64 = 9"
| "type_rank U64 = 10"
| "type_rank F32 = 11"
| "type_rank F64 = 12"
| "type_rank (PTR t) = 13 + type_rank t"

text \<open>The ten scalar types.\<close>

definition scalar_types :: "value_type list" where
  "scalar_types = [S8, U8, S16, U16, S32, U32, S64, U64, F32, F64]"

text \<open>
  Modelled from the spec: the macro \<^verbatim>\<open>HIGHER_TYPE\<close> of the missing header, "the
  dominant type under the promotion lattice (wider > narrower; float > int; unsigned >
  signed at equal width)".
\<close>

definition HIGHER_TYPE :: "value_type \<Rightarrow> value_type \<Rightarrow> value_type" where
  "HIGHER_TYPE a b = (if type_rank a < type_rank b then b else a)"

section \<open>Values\<close>

text \<open>
  \<^verbatim>\<open>struct value\<close> is a type tag and a \<^verbatim>\<open>union value_data\<close> whose members
  \<^verbatim>\<open>s8 \<dots> f64\<close> all start at offset 0. The union is modelled as its eight bytes of
  storage, read as a little-endian 64-bit word (the program reads the memory of
  processes of the machine it runs on through \<^verbatim>\<open>/proc\<close>): a member of \<open>n\<close> bytes is
  the \<open>n\<close> low-order bytes, and writing a member leaves the other bytes as they were.
  Floating members are kept as their bit patterns.
\<close>

record "value" =
  type :: value_type
  data :: "64 word"

definition get8 :: "64 word \<Rightarrow> 8 word" where "get8 d = ucast d"
definition get16 :: "64 word \<Rightarrow> 16 word" where "get16 d = ucast d"
definition get32 :: "64 word \<Rightarrow> 32 word" where "get32 d = ucast d"

definition put8 :: "64 word \<Rightarrow> 8 word \<Rightarrow> 64 word" where
  "put8 d x = (d AND NOT 0xFF) OR ucast x"
definition put16 :: "64 word \<Rightarrow> 16 word \<Rightarrow> 64 word" where
  "put16 d x = (d AND NOT 0xFFFF) OR ucast x"
definition put32 :: "64 word \<Rightarrow> 32 word \<Rightarrow> 64 word" where
  "put32 d x = (d AND NOT 0xFFFFFFFF) OR ucast x"

text \<open>\<^verbatim>\<open>value_init_s8 \<dots> value_init_f64\<close>: set the tag and store one member.\<close>

definition value_init_s8 :: "value \<Rightarrow> 8 word \<Rightarrow> value" where
  "value_init_s8 dest x = dest\<lparr>type := S8, data := put8 (data dest) x\<rparr>"
definition value_init_u8 :: "value \<Rightarrow> 8 word \<Rightarrow> value" where
  "value_init_u8 dest x = dest\<lparr>type := U8, data := put8 (data dest) x\<rparr>"
definition value_init_s16 :: "value \<Rightarrow> 16 word \<Rightarrow> value" where
  "value_init_s16 dest x = dest\<lparr>type := S16, data := put16 (data dest) x\<rparr>"
definition value_init_u16 :: "value \<Rightarrow> 16 word \<Rightarrow> value" where
  "value_init_u16 dest x = dest\<lparr>type := U16, data := put16 (data dest) x\<rparr>"
definition value_init_s32 :: "value \<Rightarrow> 32 word \<Rightarrow> value" where
  "value_init_s32 dest x = dest\<lparr>type := S32, data := put32 (data dest) x\<rparr>"
definition value_init_u32 :: "value \<Rightarrow> 32 word \<Rightarrow> value" where
  "value_init_u32 dest x = dest\<lparr>type := U32, data := put32 (data dest) x\<rparr>"
definition value_init_s64 :: "value \<Rightarrow> 64 word \<Rightarrow> value" where
  "value_init_s64 dest x = dest\<lparr>type := S64, data := x\<rparr>"
definition value_init_u64 :: "value \<Rightarrow> 64 word \<Rightarrow> value" where
  "value_init_u64 dest x = dest\<lparr>type := U64, data := x\<rparr>"
definition value_init_f32 :: "value \<Rightarrow> 32 word \<Rightarrow> value" where
  "value_init_f32 dest x = dest\<lparr>type := F32, data := put32 (data dest) x\<rparr>"
definition value_init_f64 :: "value \<Rightarrow> 64 word \<Rightarrow> value" where
  "value_init_f64 dest x = dest\<lparr>type := F64, data := x\<rparr>"

text \<open>
  Modelled from the spec: \<^verbatim>\<open>value_sizeof\<close> (a macro of the missing header), the size
  of the member that the tag of a value names.
\<close>

definition value_sizeof :: "value \<Rightarrow> nat" where
  "value_sizeof v = value_type_sizeof (type v)"

text \<open>\<^verbatim>\<open>((char *)&dest->data)[i]\<close>: byte \<open>i\<close> of the union's storage.\<close>

definition data_byte :: "value \<Rightarrow> nat \<Rightarrow> 8 word" where
  "data_byte dest i = ucast (drop_bit (8 * i) (data dest))"

text \<open>
  \<^verbatim>\<open>value_is_zero\<close>: the loop \<^verbatim>\<open>for (i = 0, j = value_sizeof(dest); i < j; i++)\<close>
  returns 0 at the first non-zero byte and 1 when it runs out.
\<close>

function value_is_zero_loop :: "value \<Rightarrow> nat \<Rightarrow> nat \<Rightarrow> int" where
  "value_is_zero_loop dest i j =
     (if i < j
      then (if data_byte dest i \<noteq> 0 then 0 else value_is_zero_loop dest (i + 1) j)
      else 1)"
  by pat_completeness auto
termination
  by (relation "measure (\<lambda>(dest, i, j). j - i)") auto

declare value_is_zero_loop.simps [simp del]

definition value_is_zero :: "value \<Rightarrow> int" where
  "value_is_zero dest = value_is_zero_loop dest 0 (value_sizeof dest)"

text \<open>
  The bit patterns of the IEEE 754 negative zero: only the sign bit is set.
\<close>

definition f32_negative_zero :: "32 word" where
  "f32_negative_zero = 0x80000000"

definition f64_negative_zero :: "64 word" where
  "f64_negative_zero = 0x8000000000000000"

subsection \<open>Type names\<close>

text \<open>
  \<^verbatim>\<open>memcmp(str, "s8", len) == 0\<close>: the first \<open>len\<close> bytes at \<open>str\<close> equal the first
  \<open>len\<close> bytes of the literal, whose storage is its characters and the terminating
  NUL. With \<open>len\<close> beyond that storage the C call reads past the literal; the model
  then reports a mismatch, as the comparison does in practice at the NUL or before.
\<close>

definition memcmp_eq :: "string \<Rightarrow> string \<Rightarrow> nat \<Rightarrow> bool" where
  "memcmp_eq str lit len = (take len str = take len (lit @ [CHR 0x00]) \<and> len \<le> length str)"

definition value_type_from_substring :: "string \<Rightarrow> nat \<Rightarrow> value_type" where
  "value_type_from_substring str len =
     (if memcmp_eq str ''s8'' len then S8
      else if memcmp_eq str ''s16'' len then S16
      else if memcmp_eq str ''s32'' len then S32
      else if memcmp_eq str ''s64'' len then S64
      else if memcmp_eq str ''u8'' len then U8
      else if memcmp_eq str ''u16'' len then U16
      else if memcmp_eq str ''u32'' len then U32
      else if memcmp_eq str ''u64'' len then U64
      else if memcmp_eq str ''f32'' len then F32
      else if memcmp_eq str ''f64'' len then F64
      else VOID)"

text \<open>\<^verbatim>\<open>value_type_from_string\<close>: \<open>str\<close> is the C string without its NUL.\<close>

definition value_type_from_string :: "string \<Rightarrow> value_type" where
  "value_type_from_string str = value_type_from_substring (str @ [CHR 0x00]) (length str)"

section \<open>The value operations of value.c\<close>

text \<open>
  What a handler does: it returns 0 or 1 and leaves \<open>out\<close> as given here, or it runs
  into an operation to which C gives no result (\<open>Undefined\<close>).
\<close>

datatype outcome = Undefined | Returned int "value"

text \<open>
  Floating-point arithmetic is a parameter of the model: the conversions, the
  operators and the comparisons of \<^verbatim>\<open>float\<close> and \<^verbatim>\<open>double\<close>, on bit patterns.
  \<open>fp32_trunc\<close> and \<open>fp64_trunc\<close> give the integral part of a finite value and
  nothing for a NaN or an infinity. Every theorem below holds for any such \<open>F\<close>.
\<close>

record fpu =
  fp32_of_int :: "int \<Rightarrow> 32 word"
  fp64_of_int :: "int \<Rightarrow> 64 word"
  fp32_trunc :: "32 word \<Rightarrow> int option"
  fp64_trunc :: "64 word \<Rightarrow> int option"
  fp64_of_fp32 :: "32 word \<Rightarrow> 64 word"
  fp32_of_fp64 :: "64 word \<Rightarrow> 32 word"
  fp_neg :: "64 word \<Rightarrow> 64 word"
  fp_add :: "64 word \<Rightarrow> 64 word \<Rightarrow> 64 word"
  fp_sub :: "64 word \<Rightarrow> 64 word \<Rightarrow> 64 word"
  fp_mul :: "64 word \<Rightarrow> 64 word \<Rightarrow> 64 word"
  fp_div :: "64 word \<Rightarrow> 64 word \<Rightarrow> 64 word"
  fp_is_zero :: "64 word \<Rightarrow> bool"
  fp_eq :: "64 word \<Rightarrow> 64 word \<Rightarrow> bool"
  fp_neq :: "64 word \<Rightarrow> 64 word \<Rightarrow> bool"
  fp_lt :: "64 word \<Rightarrow> 64 word \<Rightarrow> bool"
  fp_gt :: "64 word \<Rightarrow> 64 word \<Rightarrow> bool"
  fp_le :: "64 word \<Rightarrow> 64 word \<Rightarrow> bool"
  fp_ge :: "64 word \<Rightarrow> 64 word \<Rightarrow> bool"

subsection \<open>Casts\<close>

text \<open>
  \<^verbatim>\<open>s8_to_s8 \<dots> f64_to_f64\<close>: each passes one member of \<open>this\<close> to the
  \<^verbatim>\<open>value_init_\<close> function of the target type, so the C conversion of the argument
  to the parameter type applies. Between integer types it keeps the low-order bits,
  after sign extension of a signed source and zero extension of an unsigned one.
  From an integer to a floating type it is the conversion of the integer's value. From
  a floating type to an integer type it drops the fraction, and the behaviour is
  undefined when the integral part does not fit the target type.
\<close>

definition s8_to_s8 :: "value \<Rightarrow> value \<Rightarrow> outcome" where
  "s8_to_s8 this out = Returned 1 (value_init_s8 out (scast (get8 (data this))))"

definition s8_to_u8 :: "value \<Rightarrow> value \<Rightarrow> outcome" where
  "s8_to_u8 this out = Returned 1 (value_init_u8 out (scast (get8 (data this))))"

definition s8_to_s16 :: "value \<Rightarrow> value \<Rightarrow> outcome" where
  "s8_to_s16 this out = Returned 1 (value_init_s16 out (scast (get8 (data this))))"

definition s8_to_u16 :: "value \<Rightarrow> value \<Rightarrow> outcome" where
  "s8_to_u16 this out = Returned 1 (value_init_u16 out (scast (get8 (data this))))"

definition s8_to_s32 :: "value \<Rightarrow> value \<Rightarrow> outcome" where
  "s8_to_s32 this out = Returned 1 (value_init_s32 out (scast (get8 (data this))))"

definition s8_to_u32 :: "value \<Rightarrow> value \<Rightarrow> outcome" where
  "s8_to_u32 this out = Returned 1 (value_init_u32 out (scast (get8 (data this))))"

definition s8_to_s64 :: "value \<Rightarrow> value \<Rightarrow> outcome" where
  "s8_to_s64 this out = Returned 1 (value_init_s64 out (scast (get8 (data this))))"

definition s8_to_u64 :: "value \<Rightarrow> value \<Rightarrow> outcome" where
  "s8_to_u64 this out = Returned 1 (value_init_u64 out (scast (get8 (data this))))"

definition s8_to_f32 :: "fpu \<Rightarrow> value \<Rightarrow> value \<Rightarrow> outcome" where
  "s8_to_f32 F this out = Returned 1 (value_init_f32 out (fp32_of_int F (sint (get8 (data this)))))"

definition s8_to_f64 :: "fpu \<Rightarrow> value \<Rightarrow> value \<Rightarrow> outcome" where
  "s8_to_f64 F this out = Returned 1 (value_init_f64 out (fp64_of_int F (sint (get8 (data this)))))"

definition u8_to_s8 :: "value \<Rightarrow> value \<Rightarrow> outcome" where
  "u8_to_s8 this out = Returned 1 (value_init_s8 out (ucast (get8 (data this))))"

definition u8_to_u8 :: "value \<Rightarrow> value \<Rightarrow> outcome" where
  "u8_to_u8 this out = Returned 1 (value_init_u8 out (ucast (get8 (data this))))"

definition u8_to_s16 :: "value \<Rightarrow> value \<Rightarrow> outcome" where
  "u8_to_s16 this out = Returned 1 (value_init_s16 out (ucast (get8 (data this))))"

definition u8_to_u16 :: "value \<Rightarrow> value \<Rightarrow> outcome" where
  "u8_to_u16 this out = Returned 1 (value_init_u16 out (ucast (get8 (data this))))"

definition u8_to_s32 :: "value \<Rightarrow> value \<Rightarrow> outcome" where
  "u8_to_s32 this out = Returned 1 (value_init_s32 out (ucast (get8 (data this))))"

definition u8_to_u32 :: "value \<Rightarrow> value \<Rightarrow> outcome" where
  "u8_to_u32 this out = Returned 1 (value_init_u32 out (ucast (get8 (data this))))"

definition u8_to_s64 :: "value \<Rightarrow> value \<Rightarrow> outcome" where
  "u8_to_s64 this out = Returned 1 (value_init_s64 out (ucast (get8 (data this))))"

definition u8_to_u64 :: "value \<Rightarrow> value \<Rightarrow> outcome" where
  "u8_to_u64 this out = Returned 1 (value_init_u64 out (ucast (get8 (data this))))"

definition u8_to_f32 :: "fpu \<Rightarrow> value \<Rightarrow> value \<Rightarrow> outcome" where
  "u8_to_f32 F this out = Returned 1 (value_init_f32 out (fp32_of_int F (uint (get8 (data this)))))"

definition u8_to_f64 :: "fpu \<Rightarrow> value \<Rightarrow> value \<Rightarrow> outcome" where
  "u8_to_f64 F this out = Returned 1 (value_init_f64 out (fp64_of_int F (uint (get8 (data this)))))"

definition s16_to_s8 :: "value \<Rightarrow> value \<Rightarrow> outcome" where
  "s16_to_s8 this out = Returned 1 (value_init_s8 out (scast (get16 (data this))))"

definition s16_to_u8 :: "value \<Rightarrow> value \<Rightarrow> outcome" where
  "s16_to_u8 this out = Returned 1 (value_init_u8 out (scast (get16 (data this))))"

definition s16_to_s16 :: "value \<Rightarrow> value \<Rightarrow> outcome" where
  "s16_to_s16 this out = Returned 1 (value_init_s16 out (scast (get16 (data this))))"

definition s16_to_u16 :: "value \<Rightarrow> value \<Rightarrow> outcome" where
  "s16_to_u16 this out = Returned 1 (value_init_u16 out (scast (get16 (data this))))"

definition s16_to_s32 :: "value \<Rightarrow> value \<Rightarrow> outcome" where
  "s16_to_s32 this out = Returned 1 (value_init_s32 out (scast (get16 (data this))))"

definition s16_to_u32 :: "value \<Rightarrow> value \<Rightarrow> outcome" where
  "s16_to_u32 this out = Returned 1 (value_init_u32 out (scast (get16 (data this))))"

definition s16_to_s64 :: "value \<Rightarrow> value \<Rightarrow> outcome" where
  "s16_to_s64 this out = Returned 1 (value_init_s64 out (scast (get16 (data this))))"

definition s16_to_u64 :: "value \<Rightarrow> value \<Rightarrow> outcome" where
  "s16_to_u64 this out = Returned 1 (value_init_u64 out (scast (get16 (data this))))"

definition s16_to_f32 :: "fpu \<Rightarrow> value \<Rightarrow> value \<Rightarrow> outcome" where
  "s16_to_f32 F this out = Returned 1 (value_init_f32 out (fp32_of_int F (sint (get16 (data this)))))"

definition s16_to_f64 :: "fpu \<Rightarrow> value \<Rightarrow> value \<Rightarrow> outcome" where
  "s16_to_f64 F this out = Returned 1 (value_init_f64 out (fp64_of_int F (sint (get16 (data this)))))"

definition u16_to_s8 :: "value \<Rightarrow> value \<Rightarrow> outcome" where
  "u16_to_s8 this out = Returned 1 (value_init_s8 out (ucast (get16 (data this))))"

definition u16_to_u8 :: "value \<Rightarrow> value \<Rightarrow> outcome" where
  "u16_to_u8 this out = Returned 1 (value_init_u8 out (ucast (get16 (data this))))"

definition u16_to_s16 :: "value \<Rightarrow> value \<Rightarrow> outcome" where
  "u16_to_s16 this out = Returned 1 (value_init_s16 out (ucast (get16 (data this))))"

definition u16_to_u16 :: "value \<Rightarrow> value \<Rightarrow> outcome" where
  "u16_to_u16 this out = Returned 1 (value_init_u16 out (ucast (get16 (data this))))"

definition u16_to_s32 :: "value \<Rightarrow> value \<Rightarrow> outcome" where
  "u16_to_s32 this out = Returned 1 (value_init_s32 out (ucast (get16 (data this))))"

definition u16_to_u32 :: "value \<Rightarrow> value \<Rightarrow> outcome" where
  "u16_to_u32 this out = Returned 1 (value_init_u32 out (ucast (get16 (data this))))"

definition u16_to_s64 :: "value \<Rightarrow> value \<Rightarrow> outcome" where
  "u16_to_s64 this out = Returned 1 (value_init_s64 out (ucast (get16 (data this))))"

definition u16_to_u64 :: "value \<Rightarrow> value \<Rightarrow> outcome" where
  "u16_to_u64 this out = Returned 1 (value_init_u64 out (ucast (get16 (data this))))"

definition u16_to_f32 :: "fpu \<Rightarrow> value \<Rightarrow> value \<Rightarrow> outcome" where
  "u16_to_f32 F this out = Returned 1 (value_init_f32 out (fp32_of_int F (uint (get16 (data this)))))"

definition u16_to_f64 :: "fpu \<Rightarrow> value \<Rightarrow> value \<Rightarrow> outcome" where
  "u16_to_f64 F this out = Returned 1 (value_init_f64 out (fp64_of_int F (uint (get16 (data this)))))"

definition s32_to_s8 :: "value \<Rightarrow> value \<Rightarrow> outcome" where
  "s32_to_s8 this out = Returned 1 (value_init_s8 out (scast (get32 (data this))))"

definition s32_to_u8 :: "value \<Rightarrow> value \<Rightarrow> outcome" where
  "s32_to_u8 this out = Returned 1 (value_init_u8 out (scast (get32 (data this))))"

definition s32_to_s16 :: "value \<Rightarrow> value \<Rightarrow> outcome" where
  "s32_to_s16 this out = Returned 1 (value_init_s16 out (scast (get32 (data this))))"

definition s32_to_u16 :: "value \<Rightarrow> value \<Rightarrow> outcome" where
  "s32_to_u16 this out = Returned 1 (value_init_u16 out (scast (get32 (data this))))"

definition s32_to_s32 :: "value \<Rightarrow> value \<Rightarrow> outcome" where
  "s32_to_s32 this out = Returned 1 (value_init_s32 out (scast (get32 (data this))))"

definition s32_to_u32 :: "value \<Rightarrow> value \<Rightarrow> outcome" where
  "s32_to_u32 this out = Returned 1 (value_init_u32 out (scast (get32 (data this))))"

definition s32_to_s64 :: "value \<Rightarrow> value \<Rightarrow> outcome" where
  "s32_to_s64 this out = Returned 1 (value_init_s64 out (scast (get32 (data this))))"

definition s32_to_u64 :: "value \<Rightarrow> value \<Rightarrow> outcome" where
  "s32_to_u64 this out = Returned 1 (value_init_u64 out (scast (get32 (data this))))"

definition s32_to_f32 :: "fpu \<Rightarrow> value \<Rightarrow> value \<Rightarrow> outcome" where
  "s32_to_f32 F this out = Returned 1 (value_init_f32 out (fp32_of_int F (sint (get32 (data this)))))"

definition s32_to_f64 :: "fpu \<Rightarrow> value \<Rightarrow> value \<Rightarrow> outcome" where
  "s32_to_f64 F this out = Returned 1 (value_init_f64 out (fp64_of_int F (sint (get32 (data this)))))"

definition u32_to_s8 :: "value \<Rightarrow> value \<Rightarrow> outcome" where
  "u32_to_s8 this out = Returned 1 (value_init_s8 out (ucast (get32 (data this))))"

definition u32_to_u8 :: "value \<Rightarrow> value \<Rightarrow> outcome" where
  "u32_to_u8 this out = Returned 1 (value_init_u8 out (ucast (get32 (data this))))"

definition u32_to_s16 :: "value \<Rightarrow> value \<Rightarrow> outcome" where
  "u32_to_s16 this out = Returned 1 (value_init_s16 out (ucast (get32 (data this))))"

definition u32_to_u16 :: "value \<Rightarrow> value \<Rightarrow> outcome" where
  "u32_to_u16 this out = Returned 1 (value_init_u16 out (ucast (get32 (data this))))"

definition u32_to_s32 :: "value \<Rightarrow> value \<Rightarrow> outcome" where
  "u32_to_s32 this out = Returned 1 (value_init_s32 out (ucast (get32 (data this))))"

definition u32_to_u32 :: "value \<Rightarrow> value \<Rightarrow> outcome" where
  "u32_to_u32 this out = Returned 1 (value_init_u32 out (ucast (get32 (data this))))"

definition u32_to_s64 :: "value \<Rightarrow> value \<Rightarrow> outcome" where
  "u32_to_s64 this out = Returned 1 (value_init_s64 out (ucast (get32 (data this))))"

definition u32_to_u64 :: "value \<Rightarrow> value \<Rightarrow> outcome" where
  "u32_to_u64 this out = Returned 1 (value_init_u64 out (ucast (get32 (data this))))"

definition u32_to_f32 :: "fpu \<Rightarrow> value \<Rightarrow> value \<Rightarrow> outcome" where
  "u32_to_f32 F this out = Returned 1 (value_init_f32 out (fp32_of_int F (uint (get32 (data this)))))"

definition u32_to_f64 :: "fpu \<Rightarrow> value \<Rightarrow> value \<Rightarrow> outcome" where
  "u32_to_f64 F this out = Returned 1 (value_init_f64 out (fp64_of_int F (uint (get32 (data this)))))"

definition s64_to_s8 :: "value \<Rightarrow> value \<Rightarrow> outcome" where
  "s64_to_s8 this out = Returned 1 (value_init_s8 out (scast (data this)))"

definition s64_to_u8 :: "value \<Rightarrow> value \<Rightarrow> outcome" where
  "s64_to_u8 this out = Returned 1 (value_init_u8 out (scast (data this)))"

definition s64_to_s16 :: "value \<Rightarrow> value \<Rightarrow> outcome" where
  "s64_to_s16 this out = Returned 1 (value_init_s16 out (scast (data this)))"

definition s64_to_u16 :: "value \<Rightarrow> value \<Rightarrow> outcome" where
  "s64_to_u16 this out = Returned 1 (value_init_u16 out (scast (data this)))"

definition s64_to_s32 :: "value \<Rightarrow> value \<Rightarrow> outcome" where
  "s64_to_s32 this out = Returned 1 (value_init_s32 out (scast (data this)))"

definition s64_to_u32 :: "value \<Rightarrow> value \<Rightarrow> outcome" where
  "s64_to_u32 this out = Returned 1 (value_init_u32 out (scast (data this)))"

definition s64_to_s64 :: "value \<Rightarrow> value \<Rightarrow> outcome" where
  "s64_to_s64 this out = Returned 1 (value_init_s64 out (scast (data this)))"

definition s64_to_u64 :: "value \<Rightarrow> value \<Rightarrow> outcome" where
  "s64_to_u64 this out = Returned 1 (value_init_u64 out (scast (data this)))"

definition s64_to_f32 :: "fpu \<Rightarrow> value \<Rightarrow> value \<Rightarrow> outcome" where
  "s64_to_f32 F this out = Returned 1 (value_init_f32 out (fp32_of_int F (sint (data this))))"

definition s64_to_f64 :: "fpu \<Rightarrow> value \<Rightarrow> value \<Rightarrow> outcome" where
  "s64_to_f64 F this out = Returned 1 (value_init_f64 out (fp64_of_int F (sint (data this))))"

definition u64_to_s8 :: "value \<Rightarrow> value \<Rightarrow> outcome" where
  "u64_to_s8 this out = Returned 1 (value_init_s8 out (ucast (data this)))"

definition u64_to_u8 :: "value \<Rightarrow> value \<Rightarrow> outcome" where
  "u64_to_u8 this out = Returned 1 (value_init_u8 out (ucast (data this)))"

definition u64_to_s16 :: "value \<Rightarrow> value \<Rightarrow> outcome" where
  "u64_to_s16 this out = Returned 1 (value_init_s16 out (ucast (data this)))"

definition u64_to_u16 :: "value \<Rightarrow> value \<Rightarrow> outcome" where
  "u64_to_u16 this out = Returned 1 (value_init_u16 out (ucast (data this)))"

definition u64_to_s32 :: "value \<Rightarrow> value \<Rightarrow> outcome" where
  "u64_to_s32 this out = Returned 1 (value_init_s32 out (ucast (data this)))"

definition u64_to_u32 :: "value \<Rightarrow> value \<Rightarrow> outcome" where
  "u64_to_u32 this out = Returned 1 (value_init_u32 out (ucast (data this)))"

definition u64_to_s64 :: "value \<Rightarrow> value \<Rightarrow> outcome" where
  "u64_to_s64 this out = Returned 1 (value_init_s64 out (ucast (data this)))"

definition u64_to_u64 :: "value \<Rightarrow> value \<Rightarrow> outcome" where
  "u64_to_u64 this out = Returned 1 (value_init_u64 out (ucast (data this)))"

definition u64_to_f32 :: "fpu \<Rightarrow> value \<Rightarrow> value \<Rightarrow> outcome" where
  "u64_to_f32 F this out = Returned 1 (value_init_f32 out (fp32_of_int F (uint (data this))))"

definition u64_to_f64 :: "fpu \<Rightarrow> value \<Rightarrow> value \<Rightarrow> outcome" where
  "u64_to_f64 F this out = Returned 1 (value_init_f64 out (fp64_of_int F (uint (data this))))"

definition f32_to_s8 :: "fpu \<Rightarrow> value \<Rightarrow> value \<Rightarrow> outcome" where
  "f32_to_s8 F this out =
     (case fp32_trunc F (get32 (data this)) of
        None \<Rightarrow> Undefined
      | Some z \<Rightarrow>
          if - (2 ^ 7) \<le> z \<and> z < 2 ^ 7
          then Returned 1 (value_init_s8 out (word_of_int z))
          else Undefined)"

definition f32_to_u8 :: "fpu \<Rightarrow> value \<Rightarrow> value \<Rightarrow> outcome" where
  "f32_to_u8 F this out =
     (case fp32_trunc F (get32 (data this)) of
        None \<Rightarrow> Undefined
      | Some z \<Rightarrow>
          if 0 \<le> z \<and> z < 2 ^ 8
          then Returned 1 (value_init_u8 out (word_of_int z))
          else Undefined)"

definition f32_to_s16 :: "fpu \<Rightarrow> value \<Rightarrow> value \<Rightarrow> outcome" where
  "f32_to_s16 F this out =
     (case fp32_trunc F (get32 (data this)) of
        None \<Rightarrow> Undefined
      | Some z \<Rightarrow>
          if - (2 ^ 15) \<le> z \<and> z < 2 ^ 15
          then Returned 1 (value_init_s16 out (word_of_int z))
          else Undefined)"

definition f32_to_u16 :: "fpu \<Rightarrow> value \<Rightarrow> value \<Rightarrow> outcome" where
  "f32_to_u16 F this out =
     (case fp32_trunc F (get32 (data this)) of
        None \<Rightarrow> Undefined
      | Some z \<Rightarrow>
          if 0 \<le> z \<and> z < 2 ^ 16
          then Returned 1 (value_init_u16 out (word_of_int z))
          else Undefined)"

definition f32_to_s32 :: "fpu \<Rightarrow> value \<Rightarrow> value \<Rightarrow> outcome" where
  "f32_to_s32 F this out =
     (case fp32_trunc F (get32 (data this)) of
        None \<Rightarrow> Undefined
      | Some z \<Rightarrow>
          if - (2 ^ 31) \<le> z \<and> z < 2 ^ 31
          then Returned 1 (value_init_s32 out (word_of_int z))
          else Undefined)"

definition f32_to_u32 :: "fpu \<Rightarrow> value \<Rightarrow> value \<Rightarrow> outcome" where
  "f32_to_u32 F this out =
     (case fp32_trunc F (get32 (data this)) of
        None \<Rightarrow> Undefined
      | Some z \<Rightarrow>
          if 0 \<le> z \<and> z < 2 ^ 32
          then Returned 1 (value_init_u32 out (word_of_int z))
          else Undefined)"

definition f32_to_s64 :: "fpu \<Rightarrow> value \<Rightarrow> value \<Rightarrow> outcome" where
  "f32_to_s64 F this out =
     (case fp32_trunc F (get32 (data this)) of
        None \<Rightarrow> Undefined
      | Some z \<Rightarrow>
          if - (2 ^ 63) \<le> z \<and> z < 2 ^ 63
          then Returned 1 (value_init_s64 out (word_of_int z))
          else Undefined)"

definition f32_to_u64 :: "fpu \<Rightarrow> value \<Rightarrow> value \<Rightarrow> outcome" where
  "f32_to_u64 F this out =
     (case fp32_trunc F (get32 (data this)) of
        None \<Rightarrow> Undefined
      | Some z \<Rightarrow>
          if 0 \<le> z \<and> z < 2 ^ 64
          then Returned 1 (value_init_u64 out (word_of_int z))
          else Undefined)"

definition f32_to_f32 :: "value \<Rightarrow> value \<Rightarrow> outcome" where
  "f32_to_f32 this out = Returned 1 (value_init_f32 out (get32 (data this)))"

definition f32_to_f64 :: "fpu \<Rightarrow> value \<Rightarrow> value \<Rightarrow> outcome" where
  "f32_to_f64 F this out = Returned 1 (value_init_f64 out (fp64_of_fp32 F (get32 (data this))))"

definition f64_to_s8 :: "fpu \<Rightarrow> value \<Rightarrow> value \<Rightarrow> outcome" where
  "f64_to_s8 F this out =
     (case fp64_trunc F (data this) of
        None \<Rightarrow> Undefined
      | Some z \<Rightarrow>
          if - (2 ^ 7) \<le> z \<and> z < 2 ^ 7
          then Returned 1 (value_init_s8 out (word_of_int z))
          else Undefined)"

definition f64_to_u8 :: "fpu \<Rightarrow> value \<Rightarrow> value \<Rightarrow> outcome" where
  "f64_to_u8 F this out =
     (case fp64_trunc F (data this) of
        None \<Rightarrow> Undefined
      | Some z \<Rightarrow>
          if 0 \<le> z \<and> z < 2 ^ 8
          then Returned 1 (value_init_u8 out (word_of_int z))
          else Undefined)"

definition f64_to_s16 :: "fpu \<Rightarrow> value \<Rightarrow> value \<Rightarrow> outcome" where
  "f64_to_s16 F this out =
     (case fp64_trunc F (data this) of
        None \<Rightarrow> Undefined
      | Some z \<Rightarrow>
          if - (2 ^ 15) \<le> z \<and> z < 2 ^ 15
          then Returned 1 (value_init_s16 out (word_of_int z))
          else Undefined)"

definition f64_to_u16 :: "fpu \<Rightarrow> value \<Rightarrow> value \<Rightarrow> outcome" where
  "f64_to_u16 F this out =
     (case fp64_trunc F (data this) of
        None \<Rightarrow> Undefined
      | Some z \<Rightarrow>
          if 0 \<le> z \<and> z < 2 ^ 16
          then Returned 1 (value_init_u16 out (word_of_int z))
          else Undefined)"

definition f64_to_s32 :: "fpu \<Rightarrow> value \<Rightarrow> value \<Rightarrow> outcome" where
  "f64_to_s32 F this out =
     (case fp64_trunc F (data this) of
        None \<Rightarrow> Undefined
      | Some z \<Rightarrow>
          if - (2 ^ 31) \<le> z \<and> z < 2 ^ 31
          then Returned 1 (value_init_s32 out (word_of_int z))
          else Undefined)"

definition f64_to_u32 :: "fpu \<Rightarrow> value \<Rightarrow> value \<Rightarrow> outcome" where
  "f64_to_u32 F this out =
     (case fp64_trunc F (data this) of
        None \<Rightarrow> Undefined
      | Some z \<Rightarrow>
          if 0 \<le> z \<and> z < 2 ^ 32
          then Returned 1 (value_init_u32 out (word_of_int z))
          else Undefined)"

definition f64_to_s64 :: "fpu \<Rightarrow> value \<Rightarrow> value \<Rightarrow> outcome" where
  "f64_to_s64 F this out =
     (case fp64_trunc F (data this) of
        None \<Rightarrow> Undefined
      | Some z \<Rightarrow>
          if - (2 ^ 63) \<le> z \<and> z < 2 ^ 63
          then Returned 1 (value_init_s64 out (word_of_int z))
          else Undefined)"

definition f64_to_u64 :: "fpu \<Rightarrow> value \<Rightarrow> value \<Rightarrow> outcome" where
  "f64_to_u64 F this out =
     (case fp64_trunc F (data this) of
        None \<Rightarrow> Undefined
      | Some z \<Rightarrow>
          if 0 \<le> z \<and> z < 2 ^ 64
          then Returned 1 (value_init_u64 out (word_of_int z))
          else Undefined)"

definition f64_to_f32 :: "fpu \<Rightarrow> value \<Rightarrow> value \<Rightarrow> outcome" where
  "f64_to_f32 F this out = Returned 1 (value_init_f32 out (fp32_of_fp64 F (data this)))"

definition f64_to_f64 :: "value \<Rightarrow> value \<Rightarrow> outcome" where
  "f64_to_f64 this out = Returned 1 (value_init_f64 out (data this))"

text \<open>
  \<^verbatim>\<open>value_ops(v)->cast_to_s8 \<dots> cast_to_f64\<close>: the cast of the row of \<open>v\<close>'s type.
  The macro \<^verbatim>\<open>value_ops(v)\<close> is declared in the missing header; the table has a row
  for each of the ten scalar types and none for any other tag.
\<close>

definition cast_to_s8 :: "fpu \<Rightarrow> value \<Rightarrow> value \<Rightarrow> outcome" where
  "cast_to_s8 F v out =
     (case type v of
        S8 \<Rightarrow> s8_to_s8 v out
      | U8 \<Rightarrow> u8_to_s8 v out
      | S16 \<Rightarrow> s16_to_s8 v out
      | U16 \<Rightarrow> u16_to_s8 v out
      | S32 \<Rightarrow> s32_to_s8 v out
      | U32 \<Rightarrow> u32_to_s8 v out
      | S64 \<Rightarrow> s64_to_s8 v out
      | U64 \<Rightarrow> u64_to_s8 v out
      | F32 \<Rightarrow> f32_to_s8 F v out
      | F64 \<Rightarrow> f64_to_s8 F v out
      | _ \<Rightarrow> Undefined)"

definition cast_to_u8 :: "fpu \<Rightarrow> value \<Rightarrow> value \<Rightarrow> outcome" where
  "cast_to_u8 F v out =
     (case type v of
        S8 \<Rightarrow> s8_to_u8 v out
      | U8 \<Rightarrow> u8_to_u8 v out
      | S16 \<Rightarrow> s16_to_u8 v out
      | U16 \<Rightarrow> u16_to_u8 v out
      | S32 \<Rightarrow> s32_to_u8 v out
      | U32 \<Rightarrow> u32_to_u8 v out
      | S64 \<Rightarrow> s64_to_u8 v out
      | U64 \<Rightarrow> u64_to_u8 v out
      | F32 \<Rightarrow> f32_to_u8 F v out
      | F64 \<Rightarrow> f64_to_u8 F v out
      | _ \<Rightarrow> Undefined)"

definition cast_to_s16 :: "fpu \<Rightarrow> value \<Rightarrow> value \<Rightarrow> outcome" where
  "cast_to_s16 F v out =
     (case type v of
        S8 \<Rightarrow> s8_to_s16 v out
      | U8 \<Rightarrow> u8_to_s16 v out
      | S16 \<Rightarrow> s16_to_s16 v out
      | U16 \<Rightarrow> u16_to_s16 v out
      | S32 \<Rightarrow> s32_to_s16 v out
      | U32 \<Rightarrow> u32_to_s16 v out
      | S64 \<Rightarrow> s64_to_s16 v out
      | U64 \<Rightarrow> u64_to_s16 v out
      | F32 \<Rightarrow> f32_to_s16 F v out
      | F64 \<Rightarrow> f64_to_s16 F v out
      | _ \<Rightarrow> Undefined)"

definition cast_to_u16 :: "fpu \<Rightarrow> value \<Rightarrow> value \<Rightarrow> outcome" where
  "cast_to_u16 F v out =
     (case type v of
        S8 \<Rightarrow> s8_to_u16 v out
      | U8 \<Rightarrow> u8_to_u16 v out
      | S16 \<Rightarrow> s16_to_u16 v out
      | U16 \<Rightarrow> u16_to_u16 v out
      | S32 \<Rightarrow> s32_to_u16 v out
      | U32 \<Rightarrow> u32_to_u16 v out
      | S64 \<Rightarrow> s64_to_u16 v out
      | U64 \<Rightarrow> u64_to_u16 v out
      | F32 \<Rightarrow> f32_to_u16 F v out
      | F64 \<Rightarrow> f64_to_u16 F v out
      | _ \<Rightarrow> Undefined)"

definition cast_to_s32 :: "fpu \<Rightarrow> value \<Rightarrow> value \<Rightarrow> outcome" where
  "cast_to_s32 F v out =
     (case type v of
        S8 \<Rightarrow> s8_to_s32 v out
      | U8 \<Rightarrow> u8_to_s32 v out
      | S16 \<Rightarrow> s16_to_s32 v out
      | U16 \<Rightarrow> u16_to_s32 v out
      | S32 \<Rightarrow> s32_to_s32 v out
      | U32 \<Rightarrow> u32_to_s32 v out
      | S64 \<Rightarrow> s64_to_s32 v out
      | U64 \<Rightarrow> u64_to_s32 v out
      | F32 \<Rightarrow> f32_to_s32 F v out
      | F64 \<Rightarrow> f64_to_s32 F v out
      | _ \<Rightarrow> Undefined)"

definition cast_to_u32 :: "fpu \<Rightarrow> value \<Rightarrow> value \<Rightarrow> outcome" where
  "cast_to_u32 F v out =
     (case type v of
        S8 \<Rightarrow> s8_to_u32 v out
      | U8 \<Rightarrow> u8_to_u32 v out
      | S16 \<Rightarrow> s16_to_u32 v out
      | U16 \<Rightarrow> u16_to_u32 v out
      | S32 \<Rightarrow> s32_to_u32 v out
      | U32 \<Rightarrow> u32_to_u32 v out
      | S64 \<Rightarrow> s64_to_u32 v out
      | U64 \<Rightarrow> u64_to_u32 v out
      | F32 \<Rightarrow> f32_to_u32 F v out
      | F64 \<Rightarrow> f64_to_u32 F v out
      | _ \<Rightarrow> Undefined)"

definition cast_to_s64 :: "fpu \<Rightarrow> value \<Rightarrow> value \<Rightarrow> outcome" where
  "cast_to_s64 F v out =
     (case type v of
        S8 \<Rightarrow> s8_to_s64 v out
      | U8 \<Rightarrow> u8_to_s64 v out
      | S16 \<Rightarrow> s16_to_s64 v out
      | U16 \<Rightarrow> u16_to_s64 v out
      | S32 \<Rightarrow> s32_to_s64 v out
      | U32 \<Rightarrow> u32_to_s64 v out
      | S64 \<Rightarrow> s64_to_s64 v out
      | U64 \<Rightarrow> u64_to_s64 v out
      | F32 \<Rightarrow> f32_to_s64 F v out
      | F64 \<Rightarrow> f64_to_s64 F v out
      | _ \<Rightarrow> Undefined)"

definition cast_to_u64 :: "fpu \<Rightarrow> value \<Rightarrow> value \<Rightarrow> outcome" where
  "cast_to_u64 F v out =
     (case type v of
        S8 \<Rightarrow> s8_to_u64 v out
      | U8 \<Rightarrow> u8_to_u64 v out
      | S16 \<Rightarrow> s16_to_u64 v out
      | U16 \<Rightarrow> u16_to_u64 v out
      | S32 \<Rightarrow> s32_to_u64 v out
      | U32 \<Rightarrow> u32_to_u64 v out
      | S64 \<Rightarrow> s64_to_u64 v out
      | U64 \<Rightarrow> u64_to_u64 v out
      | F32 \<Rightarrow> f32_to_u64 F v out
      | F64 \<Rightarrow> f64_to_u64 F v out
      | _ \<Rightarrow> Undefined)"

definition cast_to_f32 :: "fpu \<Rightarrow> value \<Rightarrow> value \<Rightarrow> outcome" where
  "cast_to_f32 F v out =
     (case type v of
        S8 \<Rightarrow> s8_to_f32 F v out
      | U8 \<Rightarrow> u8_to_f32 F v out
      | S16 \<Rightarrow> s16_to_f32 F v out
      | U16 \<Rightarrow> u16_to_f32 F v out
      | S32 \<Rightarrow> s32_to_f32 F v out
      | U32 \<Rightarrow> u32_to_f32 F v out
      | S64 \<Rightarrow> s64_to_f32 F v out
      | U64 \<Rightarrow> u64_to_f32 F v out
      | F32 \<Rightarrow> f32_to_f32 v out
      | F64 \<Rightarrow> f64_to_f32 F v out
      | _ \<Rightarrow> Undefined)"

definition cast_to_f64 :: "fpu \<Rightarrow> value \<Rightarrow> value \<Rightarrow> outcome" where
  "cast_to_f64 F v out =
     (case type v of
        S8 \<Rightarrow> s8_to_f64 F v out
      | U8 \<Rightarrow> u8_to_f64 F v out
      | S16 \<Rightarrow> s16_to_f64 F v out
      | U16 \<Rightarrow> u16_to_f64 F v out
      | S32 \<Rightarrow> s32_to_f64 F v out
      | U32 \<Rightarrow> u32_to_f64 F v out
      | S64 \<Rightarrow> s64_to_f64 F v out
      | U64 \<Rightarrow> u64_to_f64 F v out
      | F32 \<Rightarrow> f32_to_f64 F v out
      | F64 \<Rightarrow> f64_to_f64 v out
      | _ \<Rightarrow> Undefined)"

text \<open>\<^verbatim>\<open>s8_assign \<dots> f64_assign\<close>: cast \<open>src\<close> into \<open>this\<close>.\<close>

definition s8_assign :: "fpu \<Rightarrow> value \<Rightarrow> value \<Rightarrow> outcome" where
  "s8_assign F this src = cast_to_s8 F src this"

definition u8_assign :: "fpu \<Rightarrow> value \<Rightarrow> value \<Rightarrow> outcome" where
  "u8_assign F this src = cast_to_u8 F src this"

definition s16_assign :: "fpu \<Rightarrow> value \<Rightarrow> value \<Rightarrow> outcome" where
  "s16_assign F this src = cast_to_s16 F src this"

definition u16_assign :: "fpu \<Rightarrow> value \<Rightarrow> value \<Rightarrow> outcome" where
  "u16_assign F this src = cast_to_u16 F src this"

definition s32_assign :: "fpu \<Rightarrow> value \<Rightarrow> value \<Rightarrow> outcome" where
  "s32_assign F this src = cast_to_s32 F src this"

definition u32_assign :: "fpu \<Rightarrow> value \<Rightarrow> value \<Rightarrow> outcome" where
  "u32_assign F this src = cast_to_u32 F src this"

definition s64_assign :: "fpu \<Rightarrow> value \<Rightarrow> value \<Rightarrow> outcome" where
  "s64_assign F this src = cast_to_s64 F src this"

definition u64_assign :: "fpu \<Rightarrow> value \<Rightarrow> value \<Rightarrow> outcome" where
  "u64_assign F this src = cast_to_u64 F src this"

definition f32_assign :: "fpu \<Rightarrow> value \<Rightarrow> value \<Rightarrow> outcome" where
  "f32_assign F this src = cast_to_f32 F src this"

definition f64_assign :: "fpu \<Rightarrow> value \<Rightarrow> value \<Rightarrow> outcome" where
  "f64_assign F this src = cast_to_f64 F src this"

subsection \<open>Operators of the 32-bit and 64-bit integer types\<close>

text \<open>
  Each handler sets the tag of \<open>out\<close>, stores one member and returns 1. The C operators
  are applied to the members as they stand:
  \<^item> \<^verbatim>\<open>+ - *\<close> and unary \<^verbatim>\<open>-\<close> are modelled with two's complement wrap-around
    (what the machine instructions do; C leaves signed overflow undefined);
  \<^item> \<^verbatim>\<open>/\<close> and \<^verbatim>\<open>%\<close> are written without any test of the divisor: with a zero
    divisor, and for the signed types with the most negative dividend and divisor -1,
    C gives the operation no result (the processor traps), which is \<open>Undefined\<close> here;
    otherwise the quotient truncates towards zero;
  \<^item> a shift whose count is negative or not less than the width is \<open>Undefined\<close>;
    \<^verbatim>\<open>>>\<close> of a signed member is the arithmetic shift;
  \<^item> the relational operators store 0 or 1 in the member \<^verbatim>\<open>s32\<close> and set the tag
    \<open>S32\<close>, whatever the operand type.
\<close>

definition s32_neg :: "value \<Rightarrow> value \<Rightarrow> outcome" where
  "s32_neg op1 out = Returned 1 (out\<lparr>type := S32, data := put32 (data out) (- (get32 (data op1)))\<rparr>)"

definition s32_not :: "value \<Rightarrow> value \<Rightarrow> outcome" where
  "s32_not op1 out = Returned 1 (out\<lparr>type := S32, data := put32 (data out) (if get32 (data op1) = 0 then 1 else 0)\<rparr>)"

definition s32_compl :: "value \<Rightarrow> value \<Rightarrow> outcome" where
  "s32_compl op1 out = Returned 1 (out\<lparr>type := S32, data := put32 (data out) (NOT (get32 (data op1)))\<rparr>)"

definition s32_add :: "value \<Rightarrow> value \<Rightarrow> value \<Rightarrow> outcome" where
  "s32_add op1 op2 out = Returned 1 (out\<lparr>type := S32, data := put32 (data out) (get32 (data op1) + get32 (data op2))\<rparr>)"

definition s32_sub :: "value \<Rightarrow> value \<Rightarrow> value \<Rightarrow> outcome" where
  "s32_sub op1 op2 out = Returned 1 (out\<lparr>type := S32, data := put32 (data out) (get32 (data op1) - get32 (data op2))\<rparr>)"

definition s32_mul :: "value \<Rightarrow> value \<Rightarrow> value \<Rightarrow> outcome" where
  "s32_mul op1 op2 out = Returned 1 (out\<lparr>type := S32, data := put32 (data out) (get32 (data op1) * get32 (data op2))\<rparr>)"

definition s32_div :: "value \<Rightarrow> value \<Rightarrow> value \<Rightarrow> outcome" where
  "s32_div op1 op2 out =
     (if get32 (data op2) = 0 then Undefined
      else if sint (get32 (data op1)) = - (2 ^ 31) \<and> sint (get32 (data op2)) = - 1 then Undefined
      else Returned 1 (out\<lparr>type := S32, data := put32 (data out) (word_of_int (sint (get32 (data op1)) sdiv sint (get32 (data op2))))\<rparr>))"

definition s32_mod :: "value \<Rightarrow> value \<Rightarrow> value \<Rightarrow> outcome" where
  "s32_mod op1 op2 out =
     (if get32 (data op2) = 0 then Undefined
      else if sint (get32 (data op1)) = - (2 ^ 31) \<and> sint (get32 (data op2)) = - 1 then Undefined
      else Returned 1 (out\<lparr>type := S32, data := put32 (data out) (word_of_int (sint (get32 (data op1)) smod sint (get32 (data op2))))\<rparr>))"

definition s32_and :: "value \<Rightarrow> value \<Rightarrow> value \<Rightarrow> outcome" where
  "s32_and op1 op2 out = Returned 1 (out\<lparr>type := S32, data := put32 (data out) (get32 (data op1) AND get32 (data op2))\<rparr>)"

definition s32_xor :: "value \<Rightarrow> value \<Rightarrow> value \<Rightarrow> outcome" where
  "s32_xor op1 op2 out = Returned 1 (out\<lparr>type := S32, data := put32 (data out) (get32 (data op1) XOR get32 (data op2))\<rparr>)"

definition s32_or :: "value \<Rightarrow> value \<Rightarrow> value \<Rightarrow> outcome" where
  "s32_or op1 op2 out = Returned 1 (out\<lparr>type := S32, data := put32 (data out) (get32 (data op1) OR get32 (data op2))\<rparr>)"

definition s32_shl :: "value \<Rightarrow> value \<Rightarrow> value \<Rightarrow> outcome" where
  "s32_shl op1 op2 out =
     (if 0 \<le> sint (get32 (data op2)) \<and> sint (get32 (data op2)) < 32
      then Returned 1 (out\<lparr>type := S32, data := put32 (data out) (push_bit (unat (get32 (data op2))) (get32 (data op1)))\<rparr>)
      else Undefined)"

definition s32_shr :: "value \<Rightarrow> value \<Rightarrow> value \<Rightarrow> outcome" where
  "s32_shr op1 op2 out =
     (if 0 \<le> sint (get32 (data op2)) \<and> sint (get32 (data op2)) < 32
      then Returned 1 (out\<lparr>type := S32, data := put32 (data out) (signed_drop_bit (unat (get32 (data op2))) (get32 (data op1)))\<rparr>)
      else Undefined)"

definition s32_eq :: "value \<Rightarrow> value \<Rightarrow> value \<Rightarrow> outcome" where
  "s32_eq op1 op2 out = Returned 1 (out\<lparr>type := S32, data := put32 (data out) (if get32 (data op1) = get32 (data op2) then 1 else 0)\<rparr>)"

definition s32_neq :: "value \<Rightarrow> value \<Rightarrow> value \<Rightarrow> outcome" where
  "s32_neq op1 op2 out = Returned 1 (out\<lparr>type := S32, data := put32 (data out) (if get32 (data op1) \<noteq> get32 (data op2) then 1 else 0)\<rparr>)"

definition s32_lt :: "value \<Rightarrow> value \<Rightarrow> value \<Rightarrow> outcome" where
  "s32_lt op1 op2 out = Returned 1 (out\<lparr>type := S32, data := put32 (data out) (if sint (get32 (data op1)) < sint (get32 (data op2)) then 1 else 0)\<rparr>)"

definition s32_gt :: "value \<Rightarrow> value \<Rightarrow> value \<Rightarrow> outcome" where
  "s32_gt op1 op2 out = Returned 1 (out\<lparr>type := S32, data := put32 (data out) (if sint (get32 (data op1)) > sint (get32 (data op2)) then 1 else 0)\<rparr>)"

definition s32_le :: "value \<Rightarrow> value \<Rightarrow> value \<Rightarrow> outcome" where
  "s32_le op1 op2 out = Returned 1 (out\<lparr>type := S32, data := put32 (data out) (if sint (get32 (data op1)) \<le> sint (get32 (data op2)) then 1 else 0)\<rparr>)"

definition s32_ge :: "value \<Rightarrow> value \<Rightarrow> value \<Rightarrow> outcome" where
  "s32_ge op1 op2 out = Returned 1 (out\<lparr>type := S32, data := put32 (data out) (if sint (get32 (data op1)) \<ge> sint (get32 (data op2)) then 1 else 0)\<rparr>)"

definition u32_neg :: "value \<Rightarrow> value \<Rightarrow> outcome" where
  "u32_neg op1 out = Returned 1 (out\<lparr>type := U32, data := put32 (data out) (- (get32 (data op1)))\<rparr>)"

definition u32_not :: "value \<Rightarrow> value \<Rightarrow> outcome" where
  "u32_not op1 out = Returned 1 (out\<lparr>type := U32, data := put32 (data out) (if get32 (data op1) = 0 then 1 else 0)\<rparr>)"

definition u32_compl :: "value \<Rightarrow> value \<Rightarrow> outcome" where
  "u32_compl op1 out = Returned 1 (out\<lparr>type := U32, data := put32 (data out) (NOT (get32 (data op1)))\<rparr>)"

definition u32_add :: "value \<Rightarrow> value \<Rightarrow> value \<Rightarrow> outcome" where
  "u32_add op1 op2 out = Returned 1 (out\<lparr>type := U32, data := put32 (data out) (get32 (data op1) + get32 (data op2))\<rparr>)"

definition u32_sub :: "value \<Rightarrow> value \<Rightarrow> value \<Rightarrow> outcome" where
  "u32_sub op1 op2 out = Returned 1 (out\<lparr>type := U32, data := put32 (data out) (get32 (data op1) - get32 (data op2))\<rparr>)"

definition u32_mul :: "value \<Rightarrow> value \<Rightarrow> value \<Rightarrow> outcome" where
  "u32_mul op1 op2 out = Returned 1 (out\<lparr>type := U32, data := put32 (data out) (get32 (data op1) * get32 (data op2))\<rparr>)"

definition u32_div :: "value \<Rightarrow> value \<Rightarrow> value \<Rightarrow> outcome" where
  "u32_div op1 op2 out =
     (if get32 (data op2) = 0 then Undefined
      else Returned 1 (out\<lparr>type := U32, data := put32 (data out) ((get32 (data op1)) div (get32 (data op2)))\<rparr>))"

definition u32_mod :: "value \<Rightarrow> value \<Rightarrow> value \<Rightarrow> outcome" where
  "u32_mod op1 op2 out =
     (if get32 (data op2) = 0 then Undefined
      else Returned 1 (out\<lparr>type := U32, data := put32 (data out) ((get32 (data op1)) mod (get32 (data op2)))\<rparr>))"

definition u32_and :: "value \<Rightarrow> value \<Rightarrow> value \<Rightarrow> outcome" where
  "u32_and op1 op2 out = Returned 1 (out\<lparr>type := U32, data := put32 (data out) (get32 (data op1) AND get32 (data op2))\<rparr>)"

definition u32_xor :: "value \<Rightarrow> value \<Rightarrow> value \<Rightarrow> outcome" where
  "u32_xor op1 op2 out = Returned 1 (out\<lparr>type := U32, data := put32 (data out) (get32 (data op1) XOR get32 (data op2))\<rparr>)"

definition u32_or :: "value \<Rightarrow> value \<Rightarrow> value \<Rightarrow> outcome" where
  "u32_or op1 op2 out = Returned 1 (out\<lparr>type := U32, data := put32 (data out) (get32 (data op1) OR get32 (data op2))\<rparr>)"

definition u32_shl :: "value \<Rightarrow> value \<Rightarrow> value \<Rightarrow> outcome" where
  "u32_shl op1 op2 out =
     (if 0 \<le> uint (get32 (data op2)) \<and> uint (get32 (data op2)) < 32
      then Returned 1 (out\<lparr>type := U32, data := put32 (data out) (push_bit (unat (get32 (data op2))) (get32 (data op1)))\<rparr>)
      else Undefined)"

definition u32_shr :: "value \<Rightarrow> value \<Rightarrow> value \<Rightarrow> outcome" where
  "u32_shr op1 op2 out =
     (if 0 \<le> uint (get32 (data op2)) \<and> uint (get32 (data op2)) < 32
      then Returned 1 (out\<lparr>type := U32, data := put32 (data out) (drop_bit (unat (get32 (data op2))) (get32 (data op1)))\<rparr>)
      else Undefined)"

definition u32_eq :: "value \<Rightarrow> value \<Rightarrow> value \<Rightarrow> outcome" where
  "u32_eq op1 op2 out = Returned 1 (out\<lparr>type := S32, data := put32 (data out) (if get32 (data op1) = get32 (data op2) then 1 else 0)\<rparr>)"

definition u32_neq :: "value \<Rightarrow> value \<Rightarrow> value \<Rightarrow> outcome" where
  "u32_neq op1 op2 out = Returned 1 (out\<lparr>type := S32, data := put32 (data out) (if get32 (data op1) \<noteq> get32 (data op2) then 1 else 0)\<rparr>)"

definition u32_lt :: "value \<Rightarrow> value \<Rightarrow> value \<Rightarrow> outcome" where
  "u32_lt op1 op2 out = Returned 1 (out\<lparr>type := S32, data := put32 (data out) (if uint (get32 (data op1)) < uint (get32 (data op2)) then 1 else 0)\<rparr>)"

definition u32_gt :: "value \<Rightarrow> value \<Rightarrow> value \<Rightarrow> outcome" where
  "u32_gt op1 op2 out = Returned 1 (out\<lparr>type := S32, data := put32 (data out) (if uint (get32 (data op1)) > uint (get32 (data op2)) then 1 else 0)\<rparr>)"

definition u32_le :: "value \<Rightarrow> value \<Rightarrow> value \<Rightarrow> outcome" where
  "u32_le op1 op2 out = Returned 1 (out\<lparr>type := S32, data := put32 (data out) (if uint (get32 (data op1)) \<le> uint (get32 (data op2)) then 1 else 0)\<rparr>)"

definition u32_ge :: "value \<Rightarrow> value \<Rightarrow> value \<Rightarrow> outcome" where
  "u32_ge op1 op2 out = Returned 1 (out\<lparr>type := S32, data := put32 (data out) (if uint (get32 (data op1)) \<ge> uint (get32 (data op2)) then 1 else 0)\<rparr>)"

definition s64_neg :: "value \<Rightarrow> value \<Rightarrow> outcome" where
  "s64_neg op1 out = Returned 1 (out\<lparr>type := S64, data := - (data op1)\<rparr>)"

definition s64_not :: "value \<Rightarrow> value \<Rightarrow> outcome" where
  "s64_not op1 out = Returned 1 (out\<lparr>type := S64, data := if data op1 = 0 then 1 else 0\<rparr>)"

definition s64_compl :: "value \<Rightarrow> value \<Rightarrow> outcome" where
  "s64_compl op1 out = Returned 1 (out\<lparr>type := S64, data := NOT (data op1)\<rparr>)"

definition s64_add :: "value \<Rightarrow> value \<Rightarrow> value \<Rightarrow> outcome" where
  "s64_add op1 op2 out = Returned 1 (out\<lparr>type := S64, data := data op1 + data op2\<rparr>)"

definition s64_sub :: "value \<Rightarrow> value \<Rightarrow> value \<Rightarrow> outcome" where
  "s64_sub op1 op2 out = Returned 1 (out\<lparr>type := S64, data := data op1 - data op2\<rparr>)"

definition s64_mul :: "value \<Rightarrow> value \<Rightarrow> value \<Rightarrow> outcome" where
  "s64_mul op1 op2 out = Returned 1 (out\<lparr>type := S64, data := data op1 * data op2\<rparr>)"

definition s64_div :: "value \<Rightarrow> value \<Rightarrow> value \<Rightarrow> outcome" where
  "s64_div op1 op2 out =
     (if data op2 = 0 then Undefined
      else if sint (data op1) = - (2 ^ 63) \<and> sint (data op2) = - 1 then Undefined
      else Returned 1 (out\<lparr>type := S64, data := word_of_int (sint (data op1) sdiv sint (data op2))\<rparr>))"

definition s64_mod :: "value \<Rightarrow> value \<Rightarrow> value \<Rightarrow> outcome" where
  "s64_mod op1 op2 out =
     (if data op2 = 0 then Undefined
      else if sint (data op1) = - (2 ^ 63) \<and> sint (data op2) = - 1 then Undefined
      else Returned 1 (out\<lparr>type := S64, data := word_of_int (sint (data op1) smod sint (data op2))\<rparr>))"

definition s64_and :: "value \<Rightarrow> value \<Rightarrow> value \<Rightarrow> outcome" where
  "s64_and op1 op2 out = Returned 1 (out\<lparr>type := S64, data := data op1 AND data op2\<rparr>)"

definition s64_xor :: "value \<Rightarrow> value \<Rightarrow> value \<Rightarrow> outcome" where
  "s64_xor op1 op2 out = Returned 1 (out\<lparr>type := S64, data := data op1 XOR data op2\<rparr>)"

definition s64_or :: "value \<Rightarrow> value \<Rightarrow> value \<Rightarrow> outcome" where
  "s64_or op1 op2 out = Returned 1 (out\<lparr>type := S64, data := data op1 OR data op2\<rparr>)"

definition s64_shl :: "value \<Rightarrow> value \<Rightarrow> value \<Rightarrow> outcome" where
  "s64_shl op1 op2 out =
     (if 0 \<le> sint (data op2) \<and> sint (data op2) < 64
      then Returned 1 (out\<lparr>type := S64, data := push_bit (unat (data op2)) (data op1)\<rparr>)
      else Undefined)"

definition s64_shr :: "value \<Rightarrow> value \<Rightarrow> value \<Rightarrow> outcome" where
  "s64_shr op1 op2 out =
     (if 0 \<le> sint (data op2) \<and> sint (data op2) < 64
      then Returned 1 (out\<lparr>type := S64, data := signed_drop_bit (unat (data op2)) (data op1)\<rparr>)
      else Undefined)"

definition s64_eq :: "value \<Rightarrow> value \<Rightarrow> value \<Rightarrow> outcome" where
  "s64_eq op1 op2 out = Returned 1 (out\<lparr>type := S32, data := put32 (data out) (if data op1 = data op2 then 1 else 0)\<rparr>)"

definition s64_neq :: "value \<Rightarrow> value \<Rightarrow> value \<Rightarrow> outcome" where
  "s64_neq op1 op2 out = Returned 1 (out\<lparr>type := S32, data := put32 (data out) (if data op1 \<noteq> data op2 then 1 else 0)\<rparr>)"

definition s64_lt :: "value \<Rightarrow> value \<Rightarrow> value \<Rightarrow> outcome" where
  "s64_lt op1 op2 out = Returned 1 (out\<lparr>type := S32, data := put32 (data out) (if sint (data op1) < sint (data op2) then 1 else 0)\<rparr>)"

definition s64_gt :: "value \<Rightarrow> value \<Rightarrow> value \<Rightarrow> outcome" where
  "s64_gt op1 op2 out = Returned 1 (out\<lparr>type := S32, data := put32 (data out) (if sint (data op1) > sint (data op2) then 1 else 0)\<rparr>)"

definition s64_le :: "value \<Rightarrow> value \<Rightarrow> value \<Rightarrow> outcome" where
  "s64_le op1 op2 out = Returned 1 (out\<lparr>type := S32, data := put32 (data out) (if sint (data op1) \<le> sint (data op2) then 1 else 0)\<rparr>)"

definition s64_ge :: "value \<Rightarrow> value \<Rightarrow> value \<Rightarrow> outcome" where
  "s64_ge op1 op2 out = Returned 1 (out\<lparr>type := S32, data := put32 (data out) (if sint (data op1) \<ge> sint (data op2) then 1 else 0)\<rparr>)"

definition u64_neg :: "value \<Rightarrow> value \<Rightarrow> outcome" where
  "u64_neg op1 out = Returned 1 (out\<lparr>type := U64, data := - (data op1)\<rparr>)"

definition u64_not :: "value \<Rightarrow> value \<Rightarrow> outcome" where
  "u64_not op1 out = Returned 1 (out\<lparr>type := U64, data := if data op1 = 0 then 1 else 0\<rparr>)"

definition u64_compl :: "value \<Rightarrow> value \<Rightarrow> outcome" where
  "u64_compl op1 out = Returned 1 (out\<lparr>type := U64, data := NOT (data op1)\<rparr>)"

definition u64_add :: "value \<Rightarrow> value \<Rightarrow> value \<Rightarrow> outcome" where
  "u64_add op1 op2 out = Returned 1 (out\<lparr>type := U64, data := data op1 + data op2\<rparr>)"

definition u64_sub :: "value \<Rightarrow> value \<Rightarrow> value \<Rightarrow> outcome" where
  "u64_sub op1 op2 out = Returned 1 (out\<lparr>type := U64, data := data op1 - data op2\<rparr>)"

definition u64_mul :: "value \<Rightarrow> value \<Rightarrow> value \<Rightarrow> outcome" where
  "u64_mul op1 op2 out = Returned 1 (out\<lparr>type := U64, data := data op1 * data op2\<rparr>)"

definition u64_div :: "value \<Rightarrow> value \<Rightarrow> value \<Rightarrow> outcome" where
  "u64_div op1 op2 out =
     (if data op2 = 0 then Undefined
      else Returned 1 (out\<lparr>type := U64, data := (data op1) div (data op2)\<rparr>))"

definition u64_mod :: "value \<Rightarrow> value \<Rightarrow> value \<Rightarrow> outcome" where
  "u64_mod op1 op2 out =
     (if data op2 = 0 then Undefined
      else Returned 1 (out\<lparr>type := U64, data := (data op1) mod (data op2)\<rparr>))"

definition u64_and :: "value \<Rightarrow> value \<Rightarrow> value \<Rightarrow> outcome" where
  "u64_and op1 op2 out = Returned 1 (out\<lparr>type := U64, data := data op1 AND data op2\<rparr>)"

definition u64_xor :: "value \<Rightarrow> value \<Rightarrow> value \<Rightarrow> outcome" where
  "u64_xor op1 op2 out = Returned 1 (out\<lparr>type := U64, data := data op1 XOR data op2\<rparr>)"

definition u64_or :: "value \<Rightarrow> value \<Rightarrow> value \<Rightarrow> outcome" where
  "u64_or op1 op2 out = Returned 1 (out\<lparr>type := U64, data := data op1 OR data op2\<rparr>)"

definition u64_shl :: "value \<Rightarrow> value \<Rightarrow> value \<Rightarrow> outcome" where
  "u64_shl op1 op2 out =
     (if 0 \<le> uint (data op2) \<and> uint (data op2) < 64
      then Returned 1 (out\<lparr>type := U64, data := push_bit (unat (data op2)) (data op1)\<rparr>)
      else Undefined)"

definition u64_shr :: "value \<Rightarrow> value \<Rightarrow> value \<Rightarrow> outcome" where
  "u64_shr op1 op2 out =
     (if 0 \<le> uint (data op2) \<and> uint (data op2) < 64
      then Returned 1 (out\<lparr>type := U64, data := drop_bit (unat (data op2)) (data op1)\<rparr>)
      else Undefined)"

definition u64_eq :: "value \<Rightarrow> value \<Rightarrow> value \<Rightarrow> outcome" where
  "u64_eq op1 op2 out = Returned 1 (out\<lparr>type := S32, data := put32 (data out) (if data op1 = data op2 then 1 else 0)\<rparr>)"

definition u64_neq :: "value \<Rightarrow> value \<Rightarrow> value \<Rightarrow> outcome" where
  "u64_neq op1 op2 out = Returned 1 (out\<lparr>type := S32, data := put32 (data out) (if data op1 \<noteq> data op2 then 1 else 0)\<rparr>)"

definition u64_lt :: "value \<Rightarrow> value \<Rightarrow> value \<Rightarrow> outcome" where
  "u64_lt op1 op2 out = Returned 1 (out\<lparr>type := S32, data := put32 (data out) (if uint (data op1) < uint (data op2) then 1 else 0)\<rparr>)"

definition u64_gt :: "value \<Rightarrow> value \<Rightarrow> value \<Rightarrow> outcome" where
  "u64_gt op1 op2 out = Returned 1 (out\<lparr>type := S32, data := put32 (data out) (if uint (data op1) > uint (data op2) then 1 else 0)\<rparr>)"

definition u64_le :: "value \<Rightarrow> value \<Rightarrow> value \<Rightarrow> outcome" where
  "u64_le op1 op2 out = Returned 1 (out\<lparr>type := S32, data := put32 (data out) (if uint (data op1) \<le> uint (data op2) then 1 else 0)\<rparr>)"

definition u64_ge :: "value \<Rightarrow> value \<Rightarrow> value \<Rightarrow> outcome" where
  "u64_ge op1 op2 out = Returned 1 (out\<lparr>type := S32, data := put32 (data out) (if uint (data op1) \<ge> uint (data op2) then 1 else 0)\<rparr>)"

subsection \<open>Operators of f64\<close>

text \<open>
  The arithmetic and the comparisons of \<^verbatim>\<open>double\<close> are the parameter \<open>F\<close>. No
  handler tests an operand: \<^verbatim>\<open>f64_div\<close> divides and returns 1 for every divisor.
\<close>

definition f64_neg :: "fpu \<Rightarrow> value \<Rightarrow> value \<Rightarrow> outcome" where
  "f64_neg F op1 out = Returned 1 (out\<lparr>type := F64, data := fp_neg F (data op1)\<rparr>)"

definition f64_not :: "fpu \<Rightarrow> value \<Rightarrow> value \<Rightarrow> outcome" where
  "f64_not F op1 out =
     Returned 1 (out\<lparr>type := S32, data := put32 (data out) (if fp_is_zero F (data op1) then 1 else 0)\<rparr>)"

definition f64_add :: "fpu \<Rightarrow> value \<Rightarrow> value \<Rightarrow> value \<Rightarrow> outcome" where
  "f64_add F op1 op2 out =
     Returned 1 (out\<lparr>type := F64, data := fp_add F (data op1) (data op2)\<rparr>)"

definition f64_sub :: "fpu \<Rightarrow> value \<Rightarrow> value \<Rightarrow> value \<Rightarrow> outcome" where
  "f64_sub F op1 op2 out =
     Returned 1 (out\<lparr>type := F64, data := fp_sub F (data op1) (data op2)\<rparr>)"

definition f64_mul :: "fpu \<Rightarrow> value \<Rightarrow> value \<Rightarrow> value \<Rightarrow> outcome" where
  "f64_mul F op1 op2 out =
     Returned 1 (out\<lparr>type := F64, data := fp_mul F (data op1) (data op2)\<rparr>)"

definition f64_div :: "fpu \<Rightarrow> value \<Rightarrow> value \<Rightarrow> value \<Rightarrow> outcome" where
  "f64_div F op1 op2 out =
     Returned 1 (out\<lparr>type := F64, data := fp_div F (data op1) (data op2)\<rparr>)"

definition f64_eq :: "fpu \<Rightarrow> value \<Rightarrow> value \<Rightarrow> value \<Rightarrow> outcome" where
  "f64_eq F op1 op2 out =
     Returned 1 (out\<lparr>type := S32,
                    data := put32 (data out) (if fp_eq F (data op1) (data op2) then 1 else 0)\<rparr>)"

definition f64_neq :: "fpu \<Rightarrow> value \<Rightarrow> value \<Rightarrow> value \<Rightarrow> outcome" where
  "f64_neq F op1 op2 out =
     Returned 1 (out\<lparr>type := S32,
                    data := put32 (data out) (if fp_neq F (data op1) (data op2) then 1 else 0)\<rparr>)"

definition f64_lt :: "fpu \<Rightarrow> value \<Rightarrow> value \<Rightarrow> value \<Rightarrow> outcome" where
  "f64_lt F op1 op2 out =
     Returned 1 (out\<lparr>type := S32,
                    data := put32 (data out) (if fp_lt F (data op1) (data op2) then 1 else 0)\<rparr>)"

definition f64_gt :: "fpu \<Rightarrow> value \<Rightarrow> value \<Rightarrow> value \<Rightarrow> outcome" where
  "f64_gt F op1 op2 out =
     Returned 1 (out\<lparr>type := S32,
                    data := put32 (data out) (if fp_gt F (data op1) (data op2) then 1 else 0)\<rparr>)"

definition f64_le :: "fpu \<Rightarrow> value \<Rightarrow> value \<Rightarrow> value \<Rightarrow> outcome" where
  "f64_le F op1 op2 out =
     Returned 1 (out\<lparr>type := S32,
                    data := put32 (data out) (if fp_le F (data op1) (data op2) then 1 else 0)\<rparr>)"

definition f64_ge :: "fpu \<Rightarrow> value \<Rightarrow> value \<Rightarrow> value \<Rightarrow> outcome" where
  "f64_ge F op1 op2 out =
     Returned 1 (out\<lparr>type := S32,
                    data := put32 (data out) (if fp_ge F (data op1) (data op2) then 1 else 0)\<rparr>)"

subsection \<open>Operators of f32\<close>

text \<open>
  Each casts the first operand to f64 into \<open>out\<close> and calls the handler of the row of
  \<open>out\<close> (\<^verbatim>\<open>value_ops(out)->add(out, op2, out)\<close>). Every cast to f64 ends in
  \<^verbatim>\<open>value_init_f64\<close>, so that row is the F64 row. The second operand is passed on as
  it is, and the value the cast returns is not looked at.
\<close>

definition after_cast :: "outcome \<Rightarrow> (value \<Rightarrow> outcome) \<Rightarrow> outcome" where
  "after_cast c k = (case c of Undefined \<Rightarrow> Undefined | Returned r out \<Rightarrow> k out)"

definition f32_neg :: "fpu \<Rightarrow> value \<Rightarrow> value \<Rightarrow> outcome" where
  "f32_neg F op1 out = after_cast (cast_to_f64 F op1 out) (\<lambda>out. f64_neg F out out)"

definition f32_not :: "fpu \<Rightarrow> value \<Rightarrow> value \<Rightarrow> outcome" where
  "f32_not F op1 out = after_cast (cast_to_f64 F op1 out) (\<lambda>out. f64_not F out out)"

definition f32_add :: "fpu \<Rightarrow> value \<Rightarrow> value \<Rightarrow> value \<Rightarrow> outcome" where
  "f32_add F op1 op2 out = after_cast (cast_to_f64 F op1 out) (\<lambda>out. f64_add F out op2 out)"

definition f32_sub :: "fpu \<Rightarrow> value \<Rightarrow> value \<Rightarrow> value \<Rightarrow> outcome" where
  "f32_sub F op1 op2 out = after_cast (cast_to_f64 F op1 out) (\<lambda>out. f64_sub F out op2 out)"

definition f32_mul :: "fpu \<Rightarrow> value \<Rightarrow> value \<Rightarrow> value \<Rightarrow> outcome" where
  "f32_mul F op1 op2 out = after_cast (cast_to_f64 F op1 out) (\<lambda>out. f64_mul F out op2 out)"

definition f32_div :: "fpu \<Rightarrow> value \<Rightarrow> value \<Rightarrow> value \<Rightarrow> outcome" where
  "f32_div F op1 op2 out = after_cast (cast_to_f64 F op1 out) (\<lambda>out. f64_div F out op2 out)"

definition f32_eq :: "fpu \<Rightarrow> value \<Rightarrow> value \<Rightarrow> value \<Rightarrow> outcome" where
  "f32_eq F op1 op2 out = after_cast (cast_to_f64 F op1 out) (\<lambda>out. f64_eq F out op2 out)"

definition f32_neq :: "fpu \<Rightarrow> value \<Rightarrow> value \<Rightarrow> value \<Rightarrow> outcome" where
  "f32_neq F op1 op2 out = after_cast (cast_to_f64 F op1 out) (\<lambda>out. f64_neq F out op2 out)"

definition f32_lt :: "fpu \<Rightarrow> value \<Rightarrow> value \<Rightarrow> value \<Rightarrow> outcome" where
  "f32_lt F op1 op2 out = after_cast (cast_to_f64 F op1 out) (\<lambda>out. f64_lt F out op2 out)"

definition f32_gt :: "fpu \<Rightarrow> value \<Rightarrow> value \<Rightarrow> value \<Rightarrow> outcome" where
  "f32_gt F op1 op2 out = after_cast (cast_to_f64 F op1 out) (\<lambda>out. f64_gt F out op2 out)"

definition f32_le :: "fpu \<Rightarrow> value \<Rightarrow> value \<Rightarrow> value \<Rightarrow> outcome" where
  "f32_le F op1 op2 out = after_cast (cast_to_f64 F op1 out) (\<lambda>out. f64_le F out op2 out)"

definition f32_ge :: "fpu \<Rightarrow> value \<Rightarrow> value \<Rightarrow> value \<Rightarrow> outcome" where
  "f32_ge F op1 op2 out = after_cast (cast_to_f64 F op1 out) (\<lambda>out. f64_ge F out op2 out)"

subsection \<open>Dummy no-operation and promotion methods\<close>

text \<open>
  \<^verbatim>\<open>dummy_nop\<close> and \<^verbatim>\<open>dummy_unop\<close> return 0 ("error") and leave \<open>out\<close> alone. The
  other dummies print a warning, cast the first operand to s32 into \<open>out\<close> and call
  the handler of the row of \<open>out\<close>, which is the S32 row since every cast to s32 ends
  in \<^verbatim>\<open>value_init_s32\<close>.
\<close>

definition dummy_nop :: "value \<Rightarrow> value \<Rightarrow> value \<Rightarrow> outcome" where
  "dummy_nop op1 op2 out = Returned 0 out"

definition dummy_unop :: "value \<Rightarrow> value \<Rightarrow> outcome" where
  "dummy_unop op1 out = Returned 0 out"

definition dummy_neg :: "fpu \<Rightarrow> value \<Rightarrow> value \<Rightarrow> outcome" where
  "dummy_neg F op1 out = after_cast (cast_to_s32 F op1 out) (\<lambda>out. s32_neg out out)"

definition dummy_not :: "fpu \<Rightarrow> value \<Rightarrow> value \<Rightarrow> outcome" where
  "dummy_not F op1 out = after_cast (cast_to_s32 F op1 out) (\<lambda>out. s32_not out out)"

definition dummy_compl :: "fpu \<Rightarrow> value \<Rightarrow> value \<Rightarrow> outcome" where
  "dummy_compl F op1 out = after_cast (cast_to_s32 F op1 out) (\<lambda>out. s32_compl out out)"

definition dummy_add :: "fpu \<Rightarrow> value \<Rightarrow> value \<Rightarrow> value \<Rightarrow> outcome" where
  "dummy_add F op1 op2 out = after_cast (cast_to_s32 F op1 out) (\<lambda>out. s32_add out op2 out)"

definition dummy_sub :: "fpu \<Rightarrow> value \<Rightarrow> value \<Rightarrow> value \<Rightarrow> outcome" where
  "dummy_sub F op1 op2 out = after_cast (cast_to_s32 F op1 out) (\<lambda>out. s32_sub out op2 out)"

definition dummy_mul :: "fpu \<Rightarrow> value \<Rightarrow> value \<Rightarrow> value \<Rightarrow> outcome" where
  "dummy_mul F op1 op2 out = after_cast (cast_to_s32 F op1 out) (\<lambda>out. s32_mul out op2 out)"

definition dummy_div :: "fpu \<Rightarrow> value \<Rightarrow> value \<Rightarrow> value \<Rightarrow> outcome" where
  "dummy_div F op1 op2 out = after_cast (cast_to_s32 F op1 out) (\<lambda>out. s32_div out op2 out)"

definition dummy_mod :: "fpu \<Rightarrow> value \<Rightarrow> value \<Rightarrow> value \<Rightarrow> outcome" where
  "dummy_mod F op1 op2 out = after_cast (cast_to_s32 F op1 out) (\<lambda>out. s32_mod out op2 out)"

definition dummy_and :: "fpu \<Rightarrow> value \<Rightarrow> value \<Rightarrow> value \<Rightarrow> outcome" where
  "dummy_and F op1 op2 out = after_cast (cast_to_s32 F op1 out) (\<lambda>out. s32_and out op2 out)"

definition dummy_xor :: "fpu \<Rightarrow> value \<Rightarrow> value \<Rightarrow> value \<Rightarrow> outcome" where
  "dummy_xor F op1 op2 out = after_cast (cast_to_s32 F op1 out) (\<lambda>out. s32_xor out op2 out)"

definition dummy_or :: "fpu \<Rightarrow> value \<Rightarrow> value \<Rightarrow> value \<Rightarrow> outcome" where
  "dummy_or F op1 op2 out = after_cast (cast_to_s32 F op1 out) (\<lambda>out. s32_or out op2 out)"

definition dummy_shl :: "fpu \<Rightarrow> value \<Rightarrow> value \<Rightarrow> value \<Rightarrow> outcome" where
  "dummy_shl F op1 op2 out = after_cast (cast_to_s32 F op1 out) (\<lambda>out. s32_shl out op2 out)"

definition dummy_shr :: "fpu \<Rightarrow> value \<Rightarrow> value \<Rightarrow> value \<Rightarrow> outcome" where
  "dummy_shr F op1 op2 out = after_cast (cast_to_s32 F op1 out) (\<lambda>out. s32_shr out op2 out)"

definition dummy_eq :: "fpu \<Rightarrow> value \<Rightarrow> value \<Rightarrow> value \<Rightarrow> outcome" where
  "dummy_eq F op1 op2 out = after_cast (cast_to_s32 F op1 out) (\<lambda>out. s32_eq out op2 out)"

definition dummy_neq :: "fpu \<Rightarrow> value \<Rightarrow> value \<Rightarrow> value \<Rightarrow> outcome" where
  "dummy_neq F op1 op2 out = after_cast (cast_to_s32 F op1 out) (\<lambda>out. s32_neq out op2 out)"

definition dummy_lt :: "fpu \<Rightarrow> value \<Rightarrow> value \<Rightarrow> value \<Rightarrow> outcome" where
  "dummy_lt F op1 op2 out = after_cast (cast_to_s32 F op1 out) (\<lambda>out. s32_lt out op2 out)"

definition dummy_gt :: "fpu \<Rightarrow> value \<Rightarrow> value \<Rightarrow> value \<Rightarrow> outcome" where
  "dummy_gt F op1 op2 out = after_cast (cast_to_s32 F op1 out) (\<lambda>out. s32_gt out op2 out)"

definition dummy_le :: "fpu \<Rightarrow> value \<Rightarrow> value \<Rightarrow> value \<Rightarrow> outcome" where
  "dummy_le F op1 op2 out = after_cast (cast_to_s32 F op1 out) (\<lambda>out. s32_le out op2 out)"

definition dummy_ge :: "fpu \<Rightarrow> value \<Rightarrow> value \<Rightarrow> value \<Rightarrow> outcome" where
  "dummy_ge F op1 op2 out = after_cast (cast_to_s32 F op1 out) (\<lambda>out. s32_ge out op2 out)"

subsection \<open>Method tables\<close>

text \<open>
  \<^verbatim>\<open>struct value_operations\<close> (its declaration is in the missing header; the fields are
  named as the handlers use them, the casts without their prefix \<^verbatim>\<open>cast_\<close> and the
  operators with the prefix \<open>op_\<close>), and the table
  \<^verbatim>\<open>value_ops\<close> row by row as \<^verbatim>\<open>value.c\<close> initialises it.
\<close>

type_synonym unary_method = "value \<Rightarrow> value \<Rightarrow> outcome"
type_synonym binary_method = "value \<Rightarrow> value \<Rightarrow> value \<Rightarrow> outcome"

record value_operations =
  to_s8 :: unary_method
  to_u8 :: unary_method
  to_s16 :: unary_method
  to_u16 :: unary_method
  to_s32 :: unary_method
  to_u32 :: unary_method
  to_s64 :: unary_method
  to_u64 :: unary_method
  to_f32 :: unary_method
  to_f64 :: unary_method
  assign :: unary_method
  op_neg :: unary_method
  op_not :: unary_method
  op_compl :: unary_method
  op_add :: binary_method
  op_sub :: binary_method
  op_mul :: binary_method
  op_div :: binary_method
  op_mod :: binary_method
  op_and :: binary_method
  op_xor :: binary_method
  op_or :: binary_method
  op_shl :: binary_method
  op_shr :: binary_method
  op_eq :: binary_method
  op_neq :: binary_method
  op_lt :: binary_method
  op_gt :: binary_method
  op_le :: binary_method
  op_ge :: binary_method

definition value_ops_S8 :: "fpu \<Rightarrow> value_operations" where
  "value_ops_S8 F =
     \<lparr>to_s8 = s8_to_s8,
       to_u8 = s8_to_u8,
       to_s16 = s8_to_s16,
       to_u16 = s8_to_u16,
       to_s32 = s8_to_s32,
       to_u32 = s8_to_u32,
       to_s64 = s8_to_s64,
       to_u64 = s8_to_u64,
       to_f32 = s8_to_f32 F,
       to_f64 = s8_to_f64 F,
       assign = s8_assign F,
       op_neg = dummy_neg F,
       op_not = dummy_not F,
       op_compl = dummy_compl F,
       op_add = dummy_add F,
       op_sub = dummy_sub F,
       op_mul = dummy_mul F,
       op_div = dummy_div F,
       op_mod = dummy_mod F,
       op_and = dummy_and F,
       op_xor = dummy_xor F,
       op_or = dummy_or F,
       op_shl = dummy_shl F,
       op_shr = dummy_shr F,
       op_eq = dummy_eq F,
       op_neq = dummy_neq F,
       op_lt = dummy_lt F,
       op_gt = dummy_gt F,
       op_le = dummy_le F,
       op_ge = dummy_ge F\<rparr>"

definition value_ops_U8 :: "fpu \<Rightarrow> value_operations" where
  "value_ops_U8 F =
     \<lparr>to_s8 = u8_to_s8,
       to_u8 = u8_to_u8,
       to_s16 = u8_to_s16,
       to_u16 = u8_to_u16,
       to_s32 = u8_to_s32,
       to_u32 = u8_to_u32,
       to_s64 = u8_to_s64,
       to_u64 = u8_to_u64,
       to_f32 = u8_to_f32 F,
       to_f64 = u8_to_f64 F,
       assign = u8_assign F,
       op_neg = dummy_neg F,
       op_not = dummy_not F,
       op_compl = dummy_compl F,
       op_add = dummy_add F,
       op_sub = dummy_sub F,
       op_mul = dummy_mul F,
       op_div = dummy_div F,
       op_mod = dummy_mod F,
       op_and = dummy_and F,
       op_xor = dummy_xor F,
       op_or = dummy_or F,
       op_shl = dummy_shl F,
       op_shr = dummy_shr F,
       op_eq = dummy_eq F,
       op_neq = dummy_neq F,
       op_lt = dummy_lt F,
       op_gt = dummy_gt F,
       op_le = dummy_le F,
       op_ge = dummy_ge F\<rparr>"

definition value_ops_S16 :: "fpu \<Rightarrow> value_operations" where
  "value_ops_S16 F =
     \<lparr>to_s8 = s16_to_s8,
       to_u8 = s16_to_u8,
       to_s16 = s16_to_s16,
       to_u16 = s16_to_u16,
       to_s32 = s16_to_s32,
       to_u32 = s16_to_u32,
       to_s64 = s16_to_s64,
       to_u64 = s16_to_u64,
       to_f32 = s16_to_f32 F,
       to_f64 = s16_to_f64 F,
       assign = s16_assign F,
       op_neg = dummy_neg F,
       op_not = dummy_not F,
       op_compl = dummy_compl F,
       op_add = dummy_add F,
       op_sub = dummy_sub F,
       op_mul = dummy_mul F,
       op_div = dummy_div F,
       op_mod = dummy_mod F,
       op_and = dummy_and F,
       op_xor = dummy_xor F,
       op_or = dummy_or F,
       op_shl = dummy_shl F,
       op_shr = dummy_shr F,
       op_eq = dummy_eq F,
       op_neq = dummy_neq F,
       op_lt = dummy_lt F,
       op_gt = dummy_gt F,
       op_le = dummy_le F,
       op_ge = dummy_ge F\<rparr>"

definition value_ops_U16 :: "fpu \<Rightarrow> value_operations" where
  "value_ops_U16 F =
     \<lparr>to_s8 = u16_to_s8,
       to_u8 = u16_to_u8,
       to_s16 = u16_to_s16,
       to_u16 = u16_to_u16,
       to_s32 = u16_to_s32,
       to_u32 = u16_to_u32,
       to_s64 = u16_to_s64,
       to_u64 = u16_to_u64,
       to_f32 = u16_to_f32 F,
       to_f64 = u16_to_f64 F,
       assign = u16_assign F,
       op_neg = dummy_neg F,
       op_not = dummy_not F,
       op_compl = dummy_compl F,
       op_add = dummy_add F,
       op_sub = dummy_sub F,
       op_mul = dummy_mul F,
       op_div = dummy_div F,
       op_mod = dummy_mod F,
       op_and = dummy_and F,
       op_xor = dummy_xor F,
       op_or = dummy_or F,
       op_shl = dummy_shl F,
       op_shr = dummy_shr F,
       op_eq = dummy_eq F,
       op_neq = dummy_neq F,
       op_lt = dummy_lt F,
       op_gt = dummy_gt F,
       op_le = dummy_le F,
       op_ge = dummy_ge F\<rparr>"

definition value_ops_S32 :: "fpu \<Rightarrow> value_operations" where
  "value_ops_S32 F =
     \<lparr>to_s8 = s32_to_s8,
       to_u8 = s32_to_u8,
       to_s16 = s32_to_s16,
       to_u16 = s32_to_u16,
       to_s32 = s32_to_s32,
       to_u32 = s32_to_u32,
       to_s64 = s32_to_s64,
       to_u64 = s32_to_u64,
       to_f32 = s32_to_f32 F,
       to_f64 = s32_to_f64 F,
       assign = s32_assign F,
       op_neg = s32_neg,
       op_not = s32_not,
       op_compl = s32_compl,
       op_add = s32_add,
       op_sub = s32_sub,
       op_mul = s32_mul,
       op_div = s32_div,
       op_mod = s32_mod,
       op_and = s32_and,
       op_xor = s32_xor,
       op_or = s32_or,
       op_shl = s32_shl,
       op_shr = s32_shr,
       op_eq = s32_eq,
       op_neq = s32_neq,
       op_lt = s32_lt,
       op_gt = s32_gt,
       op_le = s32_le,
       op_ge = s32_ge\<rparr>"

definition value_ops_U32 :: "fpu \<Rightarrow> value_operations" where
  "value_ops_U32 F =
     \<lparr>to_s8 = u32_to_s8,
       to_u8 = u32_to_u8,
       to_s16 = u32_to_s16,
       to_u16 = u32_to_u16,
       to_s32 = u32_to_s32,
       to_u32 = u32_to_u32,
       to_s64 = u32_to_s64,
       to_u64 = u32_to_u64,
       to_f32 = u32_to_f32 F,
       to_f64 = u32_to_f64 F,
       assign = u32_assign F,
       op_neg = u32_neg,
       op_not = u32_not,
       op_compl = u32_compl,
       op_add = u32_add,
       op_sub = u32_sub,
       op_mul = u32_mul,
       op_div = u32_div,
       op_mod = u32_mod,
       op_and = u32_and,
       op_xor = u32_xor,
       op_or = u32_or,
       op_shl = u32_shl,
       op_shr = u32_shr,
       op_eq = u32_eq,
       op_neq = u32_neq,
       op_lt = u32_lt,
       op_gt = u32_gt,
       op_le = u32_le,
       op_ge = u32_ge\<rparr>"

definition value_ops_S64 :: "fpu \<Rightarrow> value_operations" where
  "value_ops_S64 F =
     \<lparr>to_s8 = s64_to_s8,
       to_u8 = s64_to_u8,
       to_s16 = s64_to_s16,
       to_u16 = s64_to_u16,
       to_s32 = s64_to_s32,
       to_u32 = s64_to_u32,
       to_s64 = s64_to_s64,
       to_u64 = s64_to_u64,
       to_f32 = s64_to_f32 F,
       to_f64 = s64_to_f64 F,
       assign = s64_assign F,
       op_neg = s64_neg,
       op_not = s64_not,
       op_compl = s64_compl,
       op_add = s64_add,
       op_sub = s64_sub,
       op_mul = s64_mul,
       op_div = s64_div,
       op_mod = s64_mod,
       op_and = s64_and,
       op_xor = s64_xor,
       op_or = s64_or,
       op_shl = s64_shl,
       op_shr = s64_shr,
       op_eq = s64_eq,
       op_neq = s64_neq,
       op_lt = s64_lt,
       op_gt = s64_gt,
       op_le = s64_le,
       op_ge = s64_ge\<rparr>"

definition value_ops_U64 :: "fpu \<Rightarrow> value_operations" where
  "value_ops_U64 F =
     \<lparr>to_s8 = u64_to_s8,
       to_u8 = u64_to_u8,
       to_s16 = u64_to_s16,
       to_u16 = u64_to_u16,
       to_s32 = u64_to_s32,
       to_u32 = u64_to_u32,
       to_s64 = u64_to_s64,
       to_u64 = u64_to_u64,
       to_f32 = u64_to_f32 F,
       to_f64 = u64_to_f64 F,
       assign = u64_assign F,
       op_neg = u64_neg,
       op_not = u64_not,
       op_compl = u64_compl,
       op_add = u64_add,
       op_sub = u64_sub,
       op_mul = u64_mul,
       op_div = u64_div,
       op_mod = u64_mod,
       op_and = u64_and,
       op_xor = u64_xor,
       op_or = u64_or,
       op_shl = u64_shl,
       op_shr = u64_shr,
       op_eq = u64_eq,
       op_neq = u64_neq,
       op_lt = u64_lt,
       op_gt = u64_gt,
       op_le = u64_le,
       op_ge = u64_ge\<rparr>"

definition value_ops_F32 :: "fpu \<Rightarrow> value_operations" where
  "value_ops_F32 F =
     \<lparr>to_s8 = f32_to_s8 F,
       to_u8 = f32_to_u8 F,
       to_s16 = f32_to_s16 F,
       to_u16 = f32_to_u16 F,
       to_s32 = f32_to_s32 F,
       to_u32 = f32_to_u32 F,
       to_s64 = f32_to_s64 F,
       to_u64 = f32_to_u64 F,
       to_f32 = f32_to_f32,
       to_f64 = f32_to_f64 F,
       assign = f32_assign F,
       op_neg = f32_neg F,
       op_not = f32_not F,
       op_compl = dummy_unop,
       op_add = f32_add F,
       op_sub = f32_sub F,
       op_mul = f32_mul F,
       op_div = f32_div F,
       op_mod = dummy_mod F,
       op_and = dummy_nop,
       op_xor = dummy_nop,
       op_or = dummy_nop,
       op_shl = dummy_nop,
       op_shr = dummy_nop,
       op_eq = f32_eq F,
       op_neq = f32_neq F,
       op_lt = f32_lt F,
       op_gt = f32_gt F,
       op_le = f32_le F,
       op_ge = f32_ge F\<rparr>"

definition value_ops_F64 :: "fpu \<Rightarrow> value_operations" where
  "value_ops_F64 F =
     \<lparr>to_s8 = f64_to_s8 F,
       to_u8 = f64_to_u8 F,
       to_s16 = f64_to_s16 F,
       to_u16 = f64_to_u16 F,
       to_s32 = f64_to_s32 F,
       to_u32 = f64_to_u32 F,
       to_s64 = f64_to_s64 F,
       to_u64 = f64_to_u64 F,
       to_f32 = f64_to_f32 F,
       to_f64 = f64_to_f64,
       assign = f64_assign F,
       op_neg = f64_neg F,
       op_not = f64_not F,
       op_compl = dummy_unop,
       op_add = f64_add F,
       op_sub = f64_sub F,
       op_mul = f64_mul F,
       op_div = f64_div F,
       op_mod = dummy_mod F,
       op_and = dummy_nop,
       op_xor = dummy_nop,
       op_or = dummy_nop,
       op_shl = dummy_nop,
       op_shr = dummy_nop,
       op_eq = f64_eq F,
       op_neq = f64_neq F,
       op_lt = f64_lt F,
       op_gt = f64_gt F,
       op_le = f64_le F,
       op_ge = f64_ge F\<rparr>"

definition value_ops :: "fpu \<Rightarrow> value_type \<Rightarrow> value_operations option" where
  "value_ops F t =
     (case t of
        S8 \<Rightarrow> Some (value_ops_S8 F)
      | U8 \<Rightarrow> Some (value_ops_U8 F)
      | S16 \<Rightarrow> Some (value_ops_S16 F)
      | U16 \<Rightarrow> Some (value_ops_U16 F)
      | S32 \<Rightarrow> Some (value_ops_S32 F)
      | U32 \<Rightarrow> Some (value_ops_U32 F)
      | S64 \<Rightarrow> Some (value_ops_S64 F)
      | U64 \<Rightarrow> Some (value_ops_U64 F)
      | F32 \<Rightarrow> Some (value_ops_F32 F)
      | F64 \<Rightarrow> Some (value_ops_F64 F)
      | _ \<Rightarrow> None)"

section \<open>Abstract syntax trees (ast.c)\<close>

text \<open>
  \<^verbatim>\<open>struct ast\<close> has a node type and a value type; \<^verbatim>\<open>struct ast_value\<close> adds a
  value, \<^verbatim>\<open>struct ast_var\<close> a symbol of the symbol table, \<^verbatim>\<open>struct ast_unary\<close> a
  child and \<^verbatim>\<open>struct ast_binary\<close> two. The header \<^verbatim>\<open>ast.h\<close> is missing; the node
  types are those of the tables of \<^verbatim>\<open>ast.c\<close> and \<^verbatim>\<open>opt.c\<close> and of \<^verbatim>\<open>parse.c\<close>
  (\<open>AST_USUB\<close> is the \<^verbatim>\<open>AST_NEG\<close> of \<^verbatim>\<open>ast.c\<close>).
\<close>

datatype ast_type =
    AST_VALUE | AST_VAR
  | AST_CAST | AST_DEREF | AST_UADD | AST_USUB | AST_NOT | AST_COMPL
  | AST_ADD | AST_SUB | AST_MUL | AST_DIV | AST_MOD
  | AST_AND | AST_XOR | AST_OR | AST_SHL | AST_SHR
  | AST_EQ | AST_NEQ | AST_LT | AST_GT | AST_LE | AST_GE
  | AST_AND_COND | AST_OR_COND

datatype ast =
    Ast_value value_type "value"
  | Ast_var value_type nat
  | Ast_unary ast_type value_type ast
  | Ast_binary ast_type value_type ast ast

fun node_type :: "ast \<Rightarrow> ast_type" where
  "node_type (Ast_value vt v) = AST_VALUE"
| "node_type (Ast_var vt i) = AST_VAR"
| "node_type (Ast_unary nt vt c) = nt"
| "node_type (Ast_binary nt vt l r) = nt"

fun ast_value_type :: "ast \<Rightarrow> value_type" where
  "ast_value_type (Ast_value vt v) = vt"
| "ast_value_type (Ast_var vt i) = vt"
| "ast_value_type (Ast_unary nt vt c) = vt"
| "ast_value_type (Ast_binary nt vt l r) = vt"

text \<open>The assignment \<^verbatim>\<open>ast->value_type = t\<close>.\<close>

fun set_value_type :: "ast \<Rightarrow> value_type \<Rightarrow> ast" where
  "set_value_type (Ast_value vt v) t = Ast_value t v"
| "set_value_type (Ast_var vt i) t = Ast_var t i"
| "set_value_type (Ast_unary nt vt c) t = Ast_unary nt t c"
| "set_value_type (Ast_binary nt vt l r) t = Ast_binary nt t l r"

text \<open>
  A symbol of the symbol table (\<^verbatim>\<open>symbol.h\<close> is missing): a name and a typed storage
  cell, here with its current contents. A variable node holds the index of its symbol.
\<close>

record symbol =
  name :: string
  sym_value :: "value"

text \<open>
  The allocation functions of \<^verbatim>\<open>ast.c\<close>; \<^verbatim>\<open>malloc\<close> is taken to succeed.
  \<^verbatim>\<open>ast_unary_new\<close> and \<^verbatim>\<open>ast_binary_new\<close> (the \<^verbatim>\<open>ast_unop_new\<close> and
  \<^verbatim>\<open>ast_binop_new\<close> of \<^verbatim>\<open>parse.c\<close> and \<^verbatim>\<open>opt.c\<close>) leave the value type unset:
  every caller assigns it next, and \<open>VOID\<close> stands for the unset field until then.
\<close>

definition ast_value_new :: "value \<Rightarrow> ast" where
  "ast_value_new v = Ast_value (type v) v"

definition ast_var_new :: "symbol list \<Rightarrow> nat \<Rightarrow> ast" where
  "ast_var_new symtab i = Ast_var (type (sym_value (symtab ! i))) i"

definition ast_cast_new :: "value_type \<Rightarrow> ast \<Rightarrow> ast" where
  "ast_cast_new vt child = Ast_unary AST_CAST vt child"

definition ast_deref_new :: "ast \<Rightarrow> value_type \<Rightarrow> ast" where
  "ast_deref_new child vt = Ast_unary AST_DEREF vt child"

definition ast_unary_new :: "ast_type \<Rightarrow> ast \<Rightarrow> ast" where
  "ast_unary_new nt child = Ast_unary nt VOID child"

definition ast_binary_new :: "ast_type \<Rightarrow> ast \<Rightarrow> ast \<Rightarrow> ast" where
  "ast_binary_new nt left right = Ast_binary nt VOID left right"

section \<open>Evaluation and constant folding (opt.c)\<close>

text \<open>
  \<^verbatim>\<open>eval.c\<close> is not among the sources. The evaluator is modelled from the
  specification, with the arithmetic of a node as a parameter \<open>E\<close>: what a unary or
  binary node of a given node type and declared value type yields on the values of its
  children, promotion and dispatch through the method table included, or nothing when
  the evaluation fails.
\<close>

record evaluation =
  eval_unary :: "ast_type \<Rightarrow> value_type \<Rightarrow> value \<Rightarrow> value option"
  eval_binary :: "ast_type \<Rightarrow> value_type \<Rightarrow> value \<Rightarrow> value \<Rightarrow> value option"

definition zero_value :: "value" where
  "zero_value = \<lparr>type = VOID, data = 0\<rparr>"

text \<open>
  Modelled from the spec: \<^verbatim>\<open>ast_evaluate\<close> (\<^verbatim>\<open>eval.c\<close> is missing). "Post-order
  traversal"; a literal yields its value and a variable the contents of its symbol;
  "short-circuit operators do not evaluate their right child if the left settles the
  outcome", their result is an s32 truth value, and truthiness is \<^verbatim>\<open>value_is_zero\<close>;
  "the evaluator signals failure with a boolean; no partial value is returned".
\<close>

fun ast_evaluate :: "evaluation \<Rightarrow> symbol list \<Rightarrow> ast \<Rightarrow> value option" where
  "ast_evaluate E symtab (Ast_value vt v) = Some v"
| "ast_evaluate E symtab (Ast_var vt i) =
     (if i < length symtab then Some (sym_value (symtab ! i)) else None)"
| "ast_evaluate E symtab (Ast_unary nt vt c) =
     (case ast_evaluate E symtab c of
        None \<Rightarrow> None
      | Some v \<Rightarrow> eval_unary E nt vt v)"
| "ast_evaluate E symtab (Ast_binary nt vt l r) =
     (case ast_evaluate E symtab l of
        None \<Rightarrow> None
      | Some lv \<Rightarrow>
          if nt = AST_AND_COND \<and> value_is_zero lv = 1
          then Some (value_init_s32 zero_value 0)
          else if nt = AST_OR_COND \<and> value_is_zero lv \<noteq> 1
          then Some (value_init_s32 zero_value 1)
          else (case ast_evaluate E symtab r of
                  None \<Rightarrow> None
                | Some rv \<Rightarrow>
                    if nt = AST_AND_COND \<or> nt = AST_OR_COND
                    then Some (value_init_s32 zero_value (if value_is_zero rv = 1 then 0 else 1))
                    else eval_binary E nt vt lv rv))"

text \<open>
  Modelled from the spec: \<^verbatim>\<open>ast_is_constant\<close> (a macro of the missing \<^verbatim>\<open>ast.h\<close>);
  the optimizer applies it to children it has already optimized, "any subtree whose
  leaves are all literals is evaluated and replaced by a literal".
\<close>

definition ast_is_constant :: "ast \<Rightarrow> bool" where
  "ast_is_constant n = (node_type n = AST_VALUE)"

text \<open>
  \<^verbatim>\<open>ast_optimize\<close> calls the entry of \<^verbatim>\<open>ast_optimize_funcs\<close> for the node type:
  \<^verbatim>\<open>ast_value_optimize\<close>, \<^verbatim>\<open>ast_var_optimize\<close>, and \<^verbatim>\<open>ast_unop_optimize\<close> and
  \<^verbatim>\<open>ast_binop_optimize\<close> for every unary and binary node type.
\<close>

fun ast_optimize :: "evaluation \<Rightarrow> symbol list \<Rightarrow> ast \<Rightarrow> ast" where
  "ast_optimize E symtab (Ast_value vt v) = set_value_type (ast_value_new v) vt"
| "ast_optimize E symtab (Ast_var vt i) = ast_var_new symtab i"
| "ast_optimize E symtab (Ast_unary nt vt c) =
     (let child = ast_optimize E symtab c;
          ast = set_value_type (ast_unary_new nt child) vt
      in if ast_is_constant child
         then (case ast_evaluate E symtab ast of
                 Some v \<Rightarrow> ast_value_new v
               | None \<Rightarrow> ast)
         else ast)"
| "ast_optimize E symtab (Ast_binary nt vt l r) =
     (let left = ast_optimize E symtab l;
          right = ast_optimize E symtab r;
          ast = set_value_type (ast_binary_new nt left right) vt
      in if ast_is_constant left \<and> ast_is_constant right
         then (case ast_evaluate E symtab ast of
                 Some v \<Rightarrow> ast_value_new v
               | None \<Rightarrow> ast)
         else ast)"

text \<open>A closed expression: no variable and no dereference.\<close>

fun closed :: "ast \<Rightarrow> bool" where
  "closed (Ast_value vt v) = True"
| "closed (Ast_var vt i) = False"
| "closed (Ast_unary nt vt c) = (nt \<noteq> AST_DEREF \<and> closed c)"
| "closed (Ast_binary nt vt l r) = (closed l \<and> closed r)"

text \<open>
  An instance of the parameter \<open>E\<close>, for examples: the handler of the row of the
  (left) operand, called with \<open>out\<close> zeroed; a cast node calls the cast of the
  operand's row to the declared type. A handler that returns 0, or whose behaviour is
  undefined, makes the evaluation fail.
\<close>

definition outcome_value :: "outcome \<Rightarrow> value option" where
  "outcome_value r = (case r of Returned c out \<Rightarrow> if c = 0 then None else Some out | Undefined \<Rightarrow> None)"

definition row_cast :: "value_operations \<Rightarrow> value_type \<Rightarrow> (value \<Rightarrow> value \<Rightarrow> outcome) option" where
  "row_cast ops t =
     (case t of
        S8 \<Rightarrow> Some (to_s8 ops) | U8 \<Rightarrow> Some (to_u8 ops)
      | S16 \<Rightarrow> Some (to_s16 ops) | U16 \<Rightarrow> Some (to_u16 ops)
      | S32 \<Rightarrow> Some (to_s32 ops) | U32 \<Rightarrow> Some (to_u32 ops)
      | S64 \<Rightarrow> Some (to_s64 ops) | U64 \<Rightarrow> Some (to_u64 ops)
      | F32 \<Rightarrow> Some (to_f32 ops) | F64 \<Rightarrow> Some (to_f64 ops)
      | _ \<Rightarrow> None)"

definition row_unary :: "value_operations \<Rightarrow> ast_type \<Rightarrow> (value \<Rightarrow> value \<Rightarrow> outcome) option" where
  "row_unary ops nt =
     (case nt of
        AST_USUB \<Rightarrow> Some (op_neg ops) | AST_NOT \<Rightarrow> Some (op_not ops)
      | AST_COMPL \<Rightarrow> Some (op_compl ops)
      | _ \<Rightarrow> None)"

definition row_binary ::
  "value_operations \<Rightarrow> ast_type \<Rightarrow> (value \<Rightarrow> value \<Rightarrow> value \<Rightarrow> outcome) option" where
  "row_binary ops nt =
     (case nt of
        AST_ADD \<Rightarrow> Some (op_add ops) | AST_SUB \<Rightarrow> Some (op_sub ops)
      | AST_MUL \<Rightarrow> Some (op_mul ops) | AST_DIV \<Rightarrow> Some (op_div ops)
      | AST_MOD \<Rightarrow> Some (op_mod ops)
      | AST_AND \<Rightarrow> Some (op_and ops) | AST_XOR \<Rightarrow> Some (op_xor ops)
      | AST_OR \<Rightarrow> Some (op_or ops)
      | AST_SHL \<Rightarrow> Some (op_shl ops) | AST_SHR \<Rightarrow> Some (op_shr ops)
      | AST_EQ \<Rightarrow> Some (op_eq ops) | AST_NEQ \<Rightarrow> Some (op_neq ops)
      | AST_LT \<Rightarrow> Some (op_lt ops) | AST_GT \<Rightarrow> Some (op_gt ops)
      | AST_LE \<Rightarrow> Some (op_le ops) | AST_GE \<Rightarrow> Some (op_ge ops)
      | _ \<Rightarrow> None)"

definition table_evaluation :: "fpu \<Rightarrow> evaluation" where
  "table_evaluation F =
     \<lparr>eval_unary = (\<lambda>nt vt v.
        case value_ops F (type v) of
          None \<Rightarrow> None
        | Some ops \<Rightarrow>
            (case (if nt = AST_CAST then row_cast ops vt else row_unary ops nt) of
               None \<Rightarrow> None
             | Some h \<Rightarrow> outcome_value (h v zero_value))),
      eval_binary = (\<lambda>nt vt lv rv.
        case value_ops F (type lv) of
          None \<Rightarrow> None
        | Some ops \<Rightarrow>
            (case row_binary ops nt of
               None \<Rightarrow> None
             | Some h \<Rightarrow> outcome_value (h lv rv zero_value)))\<rparr>"

section \<open>The parser (parse.c)\<close>

text \<open>
  \<^verbatim>\<open>lex.c\<close> and \<^verbatim>\<open>lex.h\<close> are missing. A token is its type and the member of
  \<^verbatim>\<open>value\<close> that goes with it (\<^verbatim>\<open>integer\<close>, \<^verbatim>\<open>fp\<close> or the identifier's name, whose
  length is the \<^verbatim>\<open>len\<close> of the source); the token types are those \<^verbatim>\<open>parse.c\<close> names.
\<close>

datatype lex_token_type =
    LEX_EOL | LEX_IDENTIFIER | LEX_INTEGER | LEX_UINTEGER | LEX_FLOATING_POINT
  | LEX_LEFT_PARENTHESE | LEX_RIGHT_PARENTHESE
  | LEX_ADD | LEX_SUB | LEX_MUL | LEX_DIV | LEX_MOD
  | LEX_AND | LEX_XOR | LEX_OR | LEX_SHL | LEX_SHR
  | LEX_NOT | LEX_COMPL
  | LEX_EQ | LEX_NEQ | LEX_LT | LEX_GT | LEX_LE | LEX_GE
  | LEX_AND_COND | LEX_OR_COND

record lex_token =
  token_type :: lex_token_type
  tok_integer :: "64 word"
  tok_fp :: "64 word"
  tok_identifier :: string

text \<open>A token of a type that carries no value.\<close>

definition token :: "lex_token_type \<Rightarrow> lex_token" where
  "token t = \<lparr>token_type = t, tok_integer = 0, tok_fp = 0, tok_identifier = []\<rparr>"

text \<open>
  Modelled from the spec: \<^verbatim>\<open>lexer\<close> (\<^verbatim>\<open>lex.c\<close> is missing), which "produces a lazy
  sequence of tokens" from the input string. The rest of the input is modelled as the
  tokens the lexer will deliver from it, \<open>None\<close> where it meets malformed input and
  returns 0; at the end of the input it delivers end-of-line, again and again.
\<close>

fun lexer :: "lex_token option list \<Rightarrow> bool \<times> lex_token option list \<times> lex_token" where
  "lexer [] = (True, [], token LEX_EOL)"
| "lexer (Some t # rest) = (True, rest, t)"
| "lexer (None # rest) = (False, rest, token LEX_EOL)"

text \<open>
  Modelled from the spec: \<^verbatim>\<open>lex_to_ast_type\<close> (missing), the node type of an operator
  token. \<^verbatim>\<open>parse.c\<close> calls it on operator tokens only.
\<close>

fun lex_to_ast_type :: "lex_token_type \<Rightarrow> ast_type" where
  "lex_to_ast_type LEX_ADD = AST_ADD"
| "lex_to_ast_type LEX_SUB = AST_SUB"
| "lex_to_ast_type LEX_MUL = AST_MUL"
| "lex_to_ast_type LEX_DIV = AST_DIV"
| "lex_to_ast_type LEX_MOD = AST_MOD"
| "lex_to_ast_type LEX_AND = AST_AND"
| "lex_to_ast_type LEX_XOR = AST_XOR"
| "lex_to_ast_type LEX_OR = AST_OR"
| "lex_to_ast_type LEX_SHL = AST_SHL"
| "lex_to_ast_type LEX_SHR = AST_SHR"
| "lex_to_ast_type LEX_NOT = AST_NOT"
| "lex_to_ast_type LEX_COMPL = AST_COMPL"
| "lex_to_ast_type LEX_EQ = AST_EQ"
| "lex_to_ast_type LEX_NEQ = AST_NEQ"
| "lex_to_ast_type LEX_LT = AST_LT"
| "lex_to_ast_type LEX_GT = AST_GT"
| "lex_to_ast_type LEX_LE = AST_LE"
| "lex_to_ast_type LEX_GE = AST_GE"
| "lex_to_ast_type LEX_AND_COND = AST_AND_COND"
| "lex_to_ast_type LEX_OR_COND = AST_OR_COND"
| "lex_to_ast_type _ = AST_VALUE"

text \<open>
  \<^verbatim>\<open>struct parser\<close>. \<open>input\<close> is the field \<^verbatim>\<open>in\<close>; \<open>symbol\<close> and \<open>accepted\<close> are
  the two tokens the pointers of the same names point to; \<^verbatim>\<open>quiet\<close> only silences the
  messages.
\<close>

record parser =
  input :: "lex_token option list"
  symtab :: "symbol list option"
  errors :: nat
  symbol :: lex_token
  accepted :: lex_token

definition parse_error :: "parser \<Rightarrow> parser" where
  "parse_error p = p\<lparr>errors := errors p + 1\<rparr>"

text \<open>
  \<^verbatim>\<open>next_symbol\<close>: when the lexer fails, count an error and read on until end-of-line
  (\<^verbatim>\<open>do { lexer(&p->in, p->symbol); } while (p->symbol->type != LEX_EOL)\<close>).
\<close>

fun flush_to_eol :: "lex_token option list \<Rightarrow> lex_token option list" where
  "flush_to_eol [] = []"
| "flush_to_eol (Some t # rest) = (if token_type t = LEX_EOL then rest else flush_to_eol rest)"
| "flush_to_eol (None # rest) = flush_to_eol rest"

definition next_symbol :: "parser \<Rightarrow> bool \<times> parser" where
  "next_symbol p =
     (case lexer (input p) of
        (ok, rest, t) \<Rightarrow>
          if \<not> ok
          then (False, (parse_error p)\<lparr>input := flush_to_eol rest, symbol := token LEX_EOL\<rparr>)
          else (True, p\<lparr>input := rest, symbol := t\<rparr>))"

text \<open>
  \<^verbatim>\<open>accept\<close>: when the symbol has the type asked for it becomes the accepted token and
  the next symbol is read; the result is then that of \<^verbatim>\<open>next_symbol\<close>.
\<close>

definition accept :: "parser \<Rightarrow> lex_token_type \<Rightarrow> bool \<times> parser" where
  "accept p s =
     (if token_type (symbol p) \<noteq> s then (False, p)
      else next_symbol (p\<lparr>accepted := symbol p\<rparr>))"


text \<open>
  \<^verbatim>\<open>accept(p, a) || accept(p, b)\<close> and its longer forms: the second call runs, on the
  parser as the first one left it, only when the first returned 0.
\<close>

definition accept2 :: "parser \<Rightarrow> lex_token_type \<Rightarrow> lex_token_type \<Rightarrow> bool \<times> parser" where
  "accept2 p a b = (case accept p a of (True, p1) \<Rightarrow> (True, p1) | (False, p1) \<Rightarrow> accept p1 b)"

definition accept3 :: "parser \<Rightarrow> lex_token_type \<Rightarrow> lex_token_type \<Rightarrow> lex_token_type \<Rightarrow> bool \<times> parser" where
  "accept3 p a b c = (case accept p a of (True, p1) \<Rightarrow> (True, p1) | (False, p1) \<Rightarrow> accept2 p1 b c)"

definition accept4 :: "parser \<Rightarrow> lex_token_type \<Rightarrow> lex_token_type \<Rightarrow> lex_token_type \<Rightarrow> lex_token_type \<Rightarrow> bool \<times> parser" where
  "accept4 p a b c d = (case accept p a of (True, p1) \<Rightarrow> (True, p1) | (False, p1) \<Rightarrow> accept3 p1 b c d)"

definition expect :: "parser \<Rightarrow> lex_token_type \<Rightarrow> bool \<times> parser" where
  "expect p s = (case accept p s of (True, p1) \<Rightarrow> (True, p1) | (False, p1) \<Rightarrow> (False, parse_error p1))"

text \<open>
  Modelled from the spec: the constant \<^verbatim>\<open>DOUBLE\<close> of the missing header, the type
  \<^verbatim>\<open>parse.c\<close> gives to the node of a floating literal. Unlike \<^verbatim>\<open>SINT\<close> and
  \<^verbatim>\<open>UINT\<close> it has no case of its own in \<^verbatim>\<open>value_type_to_string\<close>; it is taken to
  be the tag of the C type \<^verbatim>\<open>double\<close>, the f64 of the specification's ten scalar
  types.
\<close>

definition DOUBLE :: value_type where "DOUBLE = F64"

text \<open>The test \<^verbatim>\<open>type & (INT|FPU)\<close>.\<close>

definition type_numeric :: "value_type \<Rightarrow> bool" where
  "type_numeric t = (type_INT t \<or> type_FPU t)"

subsection \<open>The type checks of the productions\<close>

text \<open>
  Each production, once it has parsed its operands, checks their types, builds the
  node and assigns its value type, or reports an error and yields no node. These are
  the ends of the loop bodies of the productions, one definition for each; the three
  bitwise productions \<^verbatim>\<open>or_expression\<close>, \<^verbatim>\<open>xor_expression\<close> and \<^verbatim>\<open>and_expression\<close>
  differ in the node type only and share one.
\<close>

definition conditional_expression_node :: "ast_type \<Rightarrow> ast \<Rightarrow> ast option \<Rightarrow> ast option" where
  "conditional_expression_node t left right =
     (case right of
        Some r \<Rightarrow> Some (set_value_type (ast_binary_new t left r) SINT)
      | None \<Rightarrow> None)"

definition bitwise_expression_node ::
  "ast_type \<Rightarrow> ast \<Rightarrow> ast \<Rightarrow> parser \<Rightarrow> ast option \<times> parser" where
  "bitwise_expression_node t left right p =
     (if type_INT (ast_value_type left) \<and> type_INT (ast_value_type right)
      then (Some (set_value_type (ast_binary_new t left right)
                    (HIGHER_TYPE (ast_value_type left) (ast_value_type right))), p)
      else (None, parse_error p))"

definition equality_expression_node ::
  "ast_type \<Rightarrow> ast \<Rightarrow> ast \<Rightarrow> parser \<Rightarrow> ast option \<times> parser" where
  "equality_expression_node t left right p =
     (if type_numeric (ast_value_type left) \<and> type_numeric (ast_value_type right)
      then (Some (set_value_type (ast_binary_new t left right) SINT), p)
      else (None, parse_error p))"

definition relational_expression_node ::
  "ast_type \<Rightarrow> ast \<Rightarrow> ast \<Rightarrow> parser \<Rightarrow> ast option \<times> parser" where
  "relational_expression_node t left right p =
     (if type_numeric (ast_value_type left) \<and> type_numeric (ast_value_type right)
      then (Some (set_value_type (ast_binary_new t left right) SINT), p)
      else (None, parse_error p))"

definition shift_expression_node ::
  "ast_type \<Rightarrow> ast \<Rightarrow> ast \<Rightarrow> parser \<Rightarrow> ast option \<times> parser" where
  "shift_expression_node t left right p =
     (if type_INT (ast_value_type left) \<and> type_INT (ast_value_type right)
      then (Some (set_value_type (ast_binary_new t left right) (ast_value_type left)), p)
      else (None, parse_error p))"

definition addsub_expression_node ::
  "ast_type \<Rightarrow> ast \<Rightarrow> ast \<Rightarrow> parser \<Rightarrow> ast option \<times> parser" where
  "addsub_expression_node t left right p =
     (if type_numeric (ast_value_type left) \<and> type_numeric (ast_value_type right)
      then (Some (set_value_type (ast_binary_new t left right)
                    (HIGHER_TYPE (ast_value_type left) (ast_value_type right))), p)
      else (None, parse_error p))"

definition muldiv_expression_node ::
  "ast_type \<Rightarrow> ast \<Rightarrow> ast \<Rightarrow> parser \<Rightarrow> ast option \<times> parser" where
  "muldiv_expression_node t left right p =
     (let valid_types = (if t = AST_MOD then type_INT else type_numeric)
      in if valid_types (ast_value_type left) \<and> valid_types (ast_value_type right)
         then (Some (set_value_type (ast_binary_new t left right)
                       (HIGHER_TYPE (ast_value_type left) (ast_value_type right))), p)
         else (None, parse_error p))"

definition unary_expression_node :: "ast_type \<Rightarrow> ast \<Rightarrow> parser \<Rightarrow> ast option \<times> parser" where
  "unary_expression_node t child p =
     (let root =
        (if t = AST_ADD \<or> t = AST_SUB
         then (if type_numeric (ast_value_type child)
               then Some (set_value_type
                            (ast_unary_new (if t = AST_ADD then AST_UADD else AST_USUB) child)
                            (ast_value_type child))
               else None)
         else (if type_INT (ast_value_type child)
               then Some (set_value_type (ast_unary_new t child) (ast_value_type child))
               else None))
      in case root of None \<Rightarrow> (None, parse_error p) | Some r \<Rightarrow> (Some r, p))"

text \<open>
  Cast recognition in \<^verbatim>\<open>cast_expression\<close>: with the symbol at a left parenthesis, peek
  two tokens; when they are an identifier of fewer than 15 characters and a right
  parenthesis, the identifier is handed to \<^verbatim>\<open>value_type_from_string\<close>. \<open>cast_peek\<close>
  is the type found, \<open>VOID\<close> (zero) when there is none; \<open>cast_accept\<close> is
  \<^verbatim>\<open>accept(p, LEX_LEFT_PARENTHESE) && accept(p, LEX_IDENTIFIER) && accept(p, LEX_RIGHT_PARENTHESE)\<close>.
\<close>

definition cast_peek :: "parser \<Rightarrow> value_type" where
  "cast_peek p =
     (if token_type (symbol p) = LEX_LEFT_PARENTHESE
      then (case lexer (input p) of
              (ok0, pin0, peek0) \<Rightarrow>
                (case lexer pin0 of
                   (ok1, pin1, peek1) \<Rightarrow>
                     if ok0 \<and> ok1 \<and> token_type peek0 = LEX_IDENTIFIER
                        \<and> token_type peek1 = LEX_RIGHT_PARENTHESE
                        \<and> length (tok_identifier peek0) < 15
                     then value_type_from_string (tok_identifier peek0)
                     else VOID))
      else VOID)"

definition cast_accept :: "parser \<Rightarrow> bool \<times> parser" where
  "cast_accept p =
     (case accept p LEX_LEFT_PARENTHESE of
        (False, p1) \<Rightarrow> (False, p1)
      | (True, p1) \<Rightarrow>
          (case accept p1 LEX_IDENTIFIER of
             (False, p2) \<Rightarrow> (False, p2)
           | (True, p2) \<Rightarrow> accept p2 LEX_RIGHT_PARENTHESE))"

text \<open>
  Modelled from the spec: \<^verbatim>\<open>symbol_table_nlookup\<close> (\<^verbatim>\<open>symbol.c\<close> is missing), "lookup
  by prefix+length" of a name in a table whose keys are unique; it yields the index
  of the symbol.
\<close>

fun symbol_table_nlookup :: "symbol list \<Rightarrow> string \<Rightarrow> nat \<Rightarrow> nat option" where
  "symbol_table_nlookup [] nm i = None"
| "symbol_table_nlookup (s # ss) nm i =
     (if name s = nm then Some i else symbol_table_nlookup ss nm (i + 1))"

text \<open>
  Modelled from the spec: \<^verbatim>\<open>ast_int_new\<close>, \<^verbatim>\<open>ast_uint_new\<close> and \<^verbatim>\<open>ast_float_new\<close>
  (missing from \<^verbatim>\<open>ast.c\<close>): a literal node holding the value of the token, as an
  s32, a u32 or an f64 (\<open>1 + 2 * 3\<close> evaluates to "value 7, type s32"). The tag of
  the node is the one \<^verbatim>\<open>factor\<close> assigns next.
\<close>

definition ast_int_new :: "64 word \<Rightarrow> ast" where
  "ast_int_new i = ast_value_new (value_init_s32 zero_value (ucast i))"
definition ast_uint_new :: "64 word \<Rightarrow> ast" where
  "ast_uint_new i = ast_value_new (value_init_u32 zero_value (ucast i))"
definition ast_float_new :: "64 word \<Rightarrow> ast" where
  "ast_float_new x = ast_value_new (value_init_f64 zero_value x)"

text \<open>The identifier branch of \<^verbatim>\<open>factor\<close>, after the identifier is accepted.\<close>

definition factor_identifier :: "parser \<Rightarrow> ast option \<times> parser" where
  "factor_identifier p =
     (case symtab p of
        None \<Rightarrow> (None, parse_error p)
      | Some tab \<Rightarrow>
          (case symbol_table_nlookup tab (tok_identifier (accepted p)) 0 of
             None \<Rightarrow> (None, parse_error p)
           | Some i \<Rightarrow>
               (Some (set_value_type (ast_var_new tab i) (type (sym_value (tab ! i)))), p)))"

subsection \<open>The productions\<close>

text \<open>
  A production returns its node, or none, and the parser as it leaves it. The
  productions call each other in a cycle (\<^verbatim>\<open>factor\<close> calls \<^verbatim>\<open>expression\<close> for a
  parenthesised expression, \<^verbatim>\<open>cast_expression\<close> and \<^verbatim>\<open>unary_expression\<close> call
  \<^verbatim>\<open>cast_expression\<close>), so each takes the production it calls upwards as an argument
  and a bound \<open>n\<close> on the depth of calls and on the iterations of each loop; a
  production that runs out of it yields \<open>None\<close>. Each loop is a function of its own,
  named after its production; the loops of the three bitwise productions, alike but
  for the token and the node type, are \<open>bitwise_loop\<close>.
\<close>

type_synonym production = "(ast option \<times> parser) option"

definition factor :: "(parser \<Rightarrow> production) \<Rightarrow> parser \<Rightarrow> production" where
  "factor expression p =
     (case accept p LEX_IDENTIFIER of
        (True, p1) \<Rightarrow> Some (factor_identifier p1)
      | (False, p1) \<Rightarrow>
     (case accept p1 LEX_INTEGER of
        (True, p2) \<Rightarrow>
          Some (Some (set_value_type (ast_int_new (tok_integer (accepted p2))) SINT), p2)
      | (False, p2) \<Rightarrow>
     (case accept p2 LEX_UINTEGER of
        (True, p3) \<Rightarrow>
          Some (Some (set_value_type (ast_uint_new (tok_integer (accepted p3))) UINT), p3)
      | (False, p3) \<Rightarrow>
     (case accept p3 LEX_FLOATING_POINT of
        (True, p4) \<Rightarrow>
          Some (Some (set_value_type (ast_float_new (tok_fp (accepted p4))) DOUBLE), p4)
      | (False, p4) \<Rightarrow>
     (case accept p4 LEX_LEFT_PARENTHESE of
        (True, p5) \<Rightarrow>
          (case expression p5 of
             None \<Rightarrow> None
           | Some (root, p6) \<Rightarrow> Some (root, snd (expect p6 LEX_RIGHT_PARENTHESE)))
      | (False, p5) \<Rightarrow> Some (None, parse_error p5))))))"

definition unary_expression ::
  "(parser \<Rightarrow> production) \<Rightarrow> (parser \<Rightarrow> production) \<Rightarrow> parser \<Rightarrow> production" where
  "unary_expression cast_expression expression p =
     (case accept4 p LEX_ADD LEX_SUB LEX_NOT LEX_COMPL of
        (True, p1) \<Rightarrow>
          (case cast_expression p1 of
             None \<Rightarrow> None
           | Some (None, p2) \<Rightarrow> Some (None, p2)
           | Some (Some child, p2) \<Rightarrow>
               Some (unary_expression_node
                       (lex_to_ast_type (token_type (accepted p1))) child p2))
      | (False, p1) \<Rightarrow> factor expression p1)"

primrec cast_expression :: "(parser \<Rightarrow> production) \<Rightarrow> nat \<Rightarrow> parser \<Rightarrow> production" where
  "cast_expression expression 0 p = None"
| "cast_expression expression (Suc n) p =
     (if cast_peek p \<noteq> VOID
      then (case cast_accept p of
              (True, p1) \<Rightarrow>
                (case cast_expression expression n p1 of
                   None \<Rightarrow> None
                 | Some (None, p2) \<Rightarrow> Some (None, p2)
                 | Some (Some child, p2) \<Rightarrow> Some (Some (ast_cast_new (cast_peek p) child), p2))
            | (False, p1) \<Rightarrow> unary_expression (cast_expression expression n) expression p1)
      else unary_expression (cast_expression expression n) expression p)"

primrec muldiv_loop ::
  "(parser \<Rightarrow> production) \<Rightarrow> nat \<Rightarrow> ast option \<Rightarrow> parser \<Rightarrow> production" where
  "muldiv_loop cast_expr 0 root p = None"
| "muldiv_loop cast_expr (Suc n) root p =
     (case root of
        None \<Rightarrow> Some (None, p)
      | Some left \<Rightarrow>
          (case accept3 p LEX_MUL LEX_DIV LEX_MOD of
             (False, p1) \<Rightarrow> Some (root, p1)
           | (True, p1) \<Rightarrow>
               (case cast_expr p1 of
                  None \<Rightarrow> None
                | Some (None, p2) \<Rightarrow> Some (None, p2)
                | Some (Some right, p2) \<Rightarrow>
                    (case muldiv_expression_node
                            (lex_to_ast_type (token_type (accepted p1))) left right p2 of
                       (root', p3) \<Rightarrow> muldiv_loop cast_expr n root' p3))))"

definition muldiv_expression :: "(parser \<Rightarrow> production) \<Rightarrow> nat \<Rightarrow> parser \<Rightarrow> production" where
  "muldiv_expression expression n p =
     (case cast_expression expression n p of
        None \<Rightarrow> None
      | Some (root, p1) \<Rightarrow> muldiv_loop (cast_expression expression n) n root p1)"

primrec addsub_loop ::
  "(parser \<Rightarrow> production) \<Rightarrow> nat \<Rightarrow> ast option \<Rightarrow> parser \<Rightarrow> production" where
  "addsub_loop muldiv_expr 0 root p = None"
| "addsub_loop muldiv_expr (Suc n) root p =
     (case root of
        None \<Rightarrow> Some (None, p)
      | Some left \<Rightarrow>
          (case accept2 p LEX_ADD LEX_SUB of
             (False, p1) \<Rightarrow> Some (root, p1)
           | (True, p1) \<Rightarrow>
               (case muldiv_expr p1 of
                  None \<Rightarrow> None
                | Some (None, p2) \<Rightarrow> Some (None, p2)
                | Some (Some right, p2) \<Rightarrow>
                    (case addsub_expression_node
                            (lex_to_ast_type (token_type (accepted p1))) left right p2 of
                       (root', p3) \<Rightarrow> addsub_loop muldiv_expr n root' p3))))"

definition addsub_expression :: "(parser \<Rightarrow> production) \<Rightarrow> nat \<Rightarrow> parser \<Rightarrow> production" where
  "addsub_expression expression n p =
     (case muldiv_expression expression n p of
        None \<Rightarrow> None
      | Some (root, p1) \<Rightarrow> addsub_loop (muldiv_expression expression n) n root p1)"

primrec shift_loop ::
  "(parser \<Rightarrow> production) \<Rightarrow> nat \<Rightarrow> ast option \<Rightarrow> parser \<Rightarrow> production" where
  "shift_loop addsub_expr 0 root p = None"
| "shift_loop addsub_expr (Suc n) root p =
     (case root of
        None \<Rightarrow> Some (None, p)
      | Some left \<Rightarrow>
          (case accept2 p LEX_SHL LEX_SHR of
             (False, p1) \<Rightarrow> Some (root, p1)
           | (True, p1) \<Rightarrow>
               (case addsub_expr p1 of
                  None \<Rightarrow> None
                | Some (None, p2) \<Rightarrow> Some (None, p2)
                | Some (Some right, p2) \<Rightarrow>
                    (case shift_expression_node
                            (lex_to_ast_type (token_type (accepted p1))) left right p2 of
                       (root', p3) \<Rightarrow> shift_loop addsub_expr n root' p3))))"

definition shift_expression :: "(parser \<Rightarrow> production) \<Rightarrow> nat \<Rightarrow> parser \<Rightarrow> production" where
  "shift_expression expression n p =
     (case addsub_expression expression n p of
        None \<Rightarrow> None
      | Some (root, p1) \<Rightarrow> shift_loop (addsub_expression expression n) n root p1)"

definition relational_expression :: "(parser \<Rightarrow> production) \<Rightarrow> nat \<Rightarrow> parser \<Rightarrow> production" where
  "relational_expression expression n p =
     (case shift_expression expression n p of
        None \<Rightarrow> None
      | Some (None, p1) \<Rightarrow> Some (None, p1)
      | Some (Some left, p1) \<Rightarrow>
          (case accept4 p1 LEX_LT LEX_GT LEX_LE LEX_GE of
             (False, p2) \<Rightarrow> Some (Some left, p2)
           | (True, p2) \<Rightarrow>
               (case shift_expression expression n p2 of
                  None \<Rightarrow> None
                | Some (None, p3) \<Rightarrow> Some (None, p3)
                | Some (Some right, p3) \<Rightarrow>
                    Some (relational_expression_node
                            (lex_to_ast_type (token_type (accepted p2))) left right p3))))"

definition equality_expression :: "(parser \<Rightarrow> production) \<Rightarrow> nat \<Rightarrow> parser \<Rightarrow> production" where
  "equality_expression expression n p =
     (case relational_expression expression n p of
        None \<Rightarrow> None
      | Some (None, p1) \<Rightarrow> Some (None, p1)
      | Some (Some left, p1) \<Rightarrow>
          (case accept2 p1 LEX_EQ LEX_NEQ of
             (False, p2) \<Rightarrow> Some (Some left, p2)
           | (True, p2) \<Rightarrow>
               (case relational_expression expression n p2 of
                  None \<Rightarrow> None
                | Some (None, p3) \<Rightarrow> Some (None, p3)
                | Some (Some right, p3) \<Rightarrow>
                    Some (equality_expression_node
                            (lex_to_ast_type (token_type (accepted p2))) left right p3))))"

primrec bitwise_loop ::
  "lex_token_type \<Rightarrow> ast_type \<Rightarrow> (parser \<Rightarrow> production) \<Rightarrow> nat \<Rightarrow> ast option \<Rightarrow> parser
     \<Rightarrow> production" where
  "bitwise_loop tok t sub 0 root p = None"
| "bitwise_loop tok t sub (Suc n) root p =
     (case root of
        None \<Rightarrow> Some (None, p)
      | Some left \<Rightarrow>
          (case accept p tok of
             (False, p1) \<Rightarrow> Some (root, p1)
           | (True, p1) \<Rightarrow>
               (case sub p1 of
                  None \<Rightarrow> None
                | Some (None, p2) \<Rightarrow> Some (None, p2)
                | Some (Some right, p2) \<Rightarrow>
                    (case bitwise_expression_node t left right p2 of
                       (root', p3) \<Rightarrow> bitwise_loop tok t sub n root' p3))))"

definition and_expression :: "(parser \<Rightarrow> production) \<Rightarrow> nat \<Rightarrow> parser \<Rightarrow> production" where
  "and_expression expression n p =
     (case equality_expression expression n p of
        None \<Rightarrow> None
      | Some (root, p1) \<Rightarrow>
          bitwise_loop LEX_AND AST_AND (equality_expression expression n) n root p1)"

definition xor_expression :: "(parser \<Rightarrow> production) \<Rightarrow> nat \<Rightarrow> parser \<Rightarrow> production" where
  "xor_expression expression n p =
     (case and_expression expression n p of
        None \<Rightarrow> None
      | Some (root, p1) \<Rightarrow>
          bitwise_loop LEX_XOR AST_XOR (and_expression expression n) n root p1)"

definition or_expression :: "(parser \<Rightarrow> production) \<Rightarrow> nat \<Rightarrow> parser \<Rightarrow> production" where
  "or_expression expression n p =
     (case xor_expression expression n p of
        None \<Rightarrow> None
      | Some (root, p1) \<Rightarrow>
          bitwise_loop LEX_OR AST_OR (xor_expression expression n) n root p1)"

primrec conditional_loop ::
  "(parser \<Rightarrow> production) \<Rightarrow> nat \<Rightarrow> ast option \<Rightarrow> parser \<Rightarrow> production" where
  "conditional_loop or_expr 0 root p = None"
| "conditional_loop or_expr (Suc n) root p =
     (case root of
        None \<Rightarrow> Some (None, p)
      | Some left \<Rightarrow>
          (case accept2 p LEX_AND_COND LEX_OR_COND of
             (False, p1) \<Rightarrow> Some (root, p1)
           | (True, p1) \<Rightarrow>
               (case or_expr p1 of
                  None \<Rightarrow> None
                | Some (right, p2) \<Rightarrow>
                    conditional_loop or_expr n
                      (conditional_expression_node
                         (lex_to_ast_type (token_type (accepted p1))) left right) p2)))"

definition conditional_expression :: "(parser \<Rightarrow> production) \<Rightarrow> nat \<Rightarrow> parser \<Rightarrow> production" where
  "conditional_expression expression n p =
     (case or_expression expression n p of
        None \<Rightarrow> None
      | Some (root, p1) \<Rightarrow> conditional_loop (or_expression expression n) n root p1)"

primrec expression :: "nat \<Rightarrow> parser \<Rightarrow> production" where
  "expression 0 p = None"
| "expression (Suc n) p =
     (if token_type (symbol p) = LEX_EOL then Some (None, p)
      else conditional_expression (expression n) n p)"

text \<open>
  \<^verbatim>\<open>parse_expression\<close>: the loop \<^verbatim>\<open>do { next_symbol(&p); } while (p.symbol->type != LEX_EOL)\<close>
  after "EOL expected", and the function itself, which returns the error count; the
  tree is deleted when there are errors.
\<close>

function skip_to_eol :: "parser \<Rightarrow> parser" where
  "skip_to_eol p =
     (case next_symbol p of
        (ok, p1) \<Rightarrow> if token_type (symbol p1) \<noteq> LEX_EOL then skip_to_eol p1 else p1)"
  by pat_completeness auto
termination
  apply (relation "measure (\<lambda>p. length (input p))")
   apply simp
  subgoal for p
    by (cases "input p" rule: lexer.cases)
       (auto simp: next_symbol_def parse_error_def token_def split: if_splits)
  done

definition parser_init :: "lex_token option list \<Rightarrow> symbol list option \<Rightarrow> parser" where
  "parser_init inp tab =
     \<lparr>input = inp, symtab = tab, errors = 0, symbol = token LEX_EOL, accepted = token LEX_EOL\<rparr>"

definition parse_expression ::
  "nat \<Rightarrow> lex_token option list \<Rightarrow> symbol list option \<Rightarrow> (nat \<times> ast option) option" where
  "parse_expression fuel inp tab =
     (case expression fuel (snd (next_symbol (parser_init inp tab))) of
        None \<Rightarrow> None
      | Some (out, p) \<Rightarrow>
          (let p' = (if token_type (symbol p) \<noteq> LEX_EOL then skip_to_eol (parse_error p)
                     else if out = None then parse_error p
                     else p)
           in Some (errors p', if errors p' > 0 then None else out)))"

section \<open>The command line (cli.c)\<close>

subsection \<open>Value expressions\<close>

text \<open>
  \<^verbatim>\<open>accept_value\<close>, from the parsed tree on: \<open>parsed\<close> is what
  \<^verbatim>\<open>parse_expression(&parser, start)\<close> returned (this parser interface and the
  evaluator are not among the sources, so the tree and \<^verbatim>\<open>ast_evaluate\<close> are
  arguments), and the result is the value stored in \<open>out\<close> when the function returns
  1. The bookkeeping of the input position is left out, and \<^verbatim>\<open>malloc\<close> is taken to
  succeed.
\<close>

definition accept_value_tree :: "value_type \<Rightarrow> ast \<Rightarrow> ast" where
  "accept_value_tree vt ast =
     (let ast1 = (case ast of
                    Ast_unary nt t child \<Rightarrow> if nt = AST_CAST \<and> type_PTR t then child else ast
                  | _ \<Rightarrow> ast)
      in if ast_value_type ast1 \<noteq> vt then ast_cast_new vt ast1 else ast1)"

definition accept_value :: "(ast \<Rightarrow> value option) \<Rightarrow> value_type \<Rightarrow> ast option \<Rightarrow> value option" where
  "accept_value evaluate vt parsed =
     (case parsed of
        None \<Rightarrow> None
      | Some ast \<Rightarrow> evaluate (accept_value_tree vt ast))"

subsection \<open>Commands and the break lease\<close>

text \<open>
  The context \<^verbatim>\<open>struct ramfuck\<close>, as far as the lease goes: the counter
  \<^verbatim>\<open>ctx->breaks\<close> and the return code of the last command.
\<close>

record ramfuck =
  breaks :: nat
  rc :: int

text \<open>
  Modelled from the spec: \<^verbatim>\<open>ramfuck_break\<close> and \<^verbatim>\<open>ramfuck_continue\<close>
  (\<^verbatim>\<open>ramfuck.c\<close> is missing). "If the target was running, it is suspended at the start
  and resumed at the end; nested leases count references and only the outermost resume
  actually resumes": the target is suspended exactly while the counter is not zero.
\<close>

definition ramfuck_break :: "ramfuck \<Rightarrow> ramfuck" where
  "ramfuck_break ctx = ctx\<lparr>breaks := breaks ctx + 1\<rparr>"

definition ramfuck_continue :: "ramfuck \<Rightarrow> ramfuck" where
  "ramfuck_continue ctx = (if breaks ctx = 0 then ctx else ctx\<lparr>breaks := breaks ctx - 1\<rparr>)"

definition target_suspended :: "ramfuck \<Rightarrow> bool" where
  "target_suspended ctx = (0 < breaks ctx)"

text \<open>
  What a command meets on its way, as far as its control flow depends on it: the code
  of a \<^verbatim>\<open>return\<close> it takes before it calls the parser, if it takes one; what the
  parser returned (\<open>None\<close> for no tree, else whether the expression has a dereference,
  \<^verbatim>\<open>parser.has_deref\<close>); and whether each later step succeeded.
\<close>

record run =
  early_return :: "int option"
  parsed :: "bool option"
  evaluated :: bool
  optimized :: bool
  evaluated_opt :: bool
  same_type :: bool
  same_value :: bool
  written :: bool
  cancelled :: bool

text \<open>
  \<^verbatim>\<open>if (parser.has_deref) ramfuck_break(ctx)\<close> and
  \<^verbatim>\<open>if (parser.has_deref) ramfuck_continue(ctx)\<close>.
\<close>

definition lease :: "bool \<Rightarrow> ramfuck \<Rightarrow> ramfuck" where
  "lease has_deref ctx = (if has_deref then ramfuck_break ctx else ctx)"

definition release :: "bool \<Rightarrow> ramfuck \<Rightarrow> ramfuck" where
  "release has_deref ctx = (if has_deref then ramfuck_continue ctx else ctx)"

text \<open>
  \<^verbatim>\<open>do_eval\<close>: the result is the return code and the context. It has no return
  before the parser.
\<close>

definition do_eval :: "ramfuck \<Rightarrow> run \<Rightarrow> int \<times> ramfuck" where
  "do_eval ctx r =
     (case parsed r of
        None \<Rightarrow> (1, ctx)
      | Some has_deref \<Rightarrow>
          (let ctx1 = lease has_deref ctx;
               ok = evaluated r;
               ctx2 = release has_deref ctx1
           in (if ok then 0 else 2, ctx2)))"

text \<open>
  \<^verbatim>\<open>do_explain\<close>: codes 1 (no expression) and 2 (no symbol table) are set before the
  parser is called; from the lease on every branch sets \<open>rc\<close> and falls through to
  the release.
\<close>

definition do_explain :: "ramfuck \<Rightarrow> run \<Rightarrow> int \<times> ramfuck" where
  "do_explain ctx r =
     (case early_return r of
        Some code \<Rightarrow> (code, ctx)
      | None \<Rightarrow>
          (case parsed r of
             None \<Rightarrow> (3, ctx)
           | Some has_deref \<Rightarrow>
               (let ctx1 = lease has_deref ctx;
                    code = (if evaluated r
                            then (if optimized r
                                  then (if evaluated_opt r
                                        then (if same_type r
                                              then (if same_value r then 0 else 8)
                                              else 7)
                                        else 6)
                                  else 5)
                            else 4);
                    ctx2 = release has_deref ctx1
                in (code, ctx2))))"

text \<open>
  \<^verbatim>\<open>do_list\<close>: it returns 1 for trailing characters and 0 for an empty hit list
  before it takes the lease, which it takes whether or not the hits are read through
  a dereference. The loop over the hits reads and prints, and leaves its body with
  \<^verbatim>\<open>continue\<close> only, so the release after it is always reached.
\<close>

definition do_list :: "ramfuck \<Rightarrow> run \<Rightarrow> int \<times> ramfuck" where
  "do_list ctx r =
     (case early_return r of
        Some code \<Rightarrow> (code, ctx)
      | None \<Rightarrow> (0, ramfuck_continue (ramfuck_break ctx)))"

text \<open>
  \<^verbatim>\<open>do_poke\<close>: the returns 1 to 10 come before the parser is called and 11 follows
  a parse error (12, a failed allocation, is left out); the lease spans the evaluation
  only, and 13 and 14 come after its release.
\<close>

definition do_poke :: "ramfuck \<Rightarrow> run \<Rightarrow> int \<times> ramfuck" where
  "do_poke ctx r =
     (case early_return r of
        Some code \<Rightarrow> (code, ctx)
      | None \<Rightarrow>
          (case parsed r of
             None \<Rightarrow> (11, ctx)
           | Some has_deref \<Rightarrow>
               (let ctx1 = lease has_deref ctx;
                    ok = evaluated r;
                    ctx2 = release has_deref ctx1
                in if \<not> ok then (13, ctx2)
                   else if \<not> written r then (14, ctx2)
                   else (0, ctx2))))"

text \<open>
  Modelled from the spec: \<^verbatim>\<open>search\<close> and \<^verbatim>\<open>filter\<close> (\<^verbatim>\<open>search.c\<close> is missing), as
  \<^verbatim>\<open>do_search\<close> and \<^verbatim>\<open>do_filter\<close> call them. "1. Suspend the target. 2. For each
  memory region \<dots> 3. Resume the target"; a failed read or predicate evaluation is not
  fatal; on cancellation "the in-progress pass returns no result, the break lease is
  released". A predicate that does not parse gives no pass at all. The result says
  whether there is a new hit list.
\<close>

definition search :: "ramfuck \<Rightarrow> run \<Rightarrow> bool \<times> ramfuck" where
  "search ctx r =
     (case parsed r of
        None \<Rightarrow> (False, ctx)
      | Some has_deref \<Rightarrow>
          (let ctx1 = ramfuck_break ctx;
               ctx2 = ramfuck_continue ctx1
           in (\<not> cancelled r, ctx2)))"

definition filter_hits :: "ramfuck \<Rightarrow> run \<Rightarrow> bool \<times> ramfuck" where
  "filter_hits ctx r =
     (case parsed r of
        None \<Rightarrow> (False, ctx)
      | Some has_deref \<Rightarrow>
          (let ctx1 = ramfuck_break ctx;
               ctx2 = ramfuck_continue ctx1
           in (\<not> cancelled r, ctx2)))"

text \<open>
  \<^verbatim>\<open>do_search\<close> and \<^verbatim>\<open>do_filter\<close>: codes 1 and 2 come before the pass, 3 when it
  gives no new hit list.
\<close>

definition do_search :: "ramfuck \<Rightarrow> run \<Rightarrow> int \<times> ramfuck" where
  "do_search ctx r =
     (case early_return r of
        Some code \<Rightarrow> (code, ctx)
      | None \<Rightarrow>
          (case search ctx r of
             (False, ctx1) \<Rightarrow> (3, ctx1)
           | (True, ctx1) \<Rightarrow> (0, ctx1)))"

definition do_filter :: "ramfuck \<Rightarrow> run \<Rightarrow> int \<times> ramfuck" where
  "do_filter ctx r =
     (case early_return r of
        Some code \<Rightarrow> (code, ctx)
      | None \<Rightarrow>
          (case filter_hits ctx r of
             (False, ctx1) \<Rightarrow> (3, ctx1)
           | (True, ctx1) \<Rightarrow> (0, ctx1)))"

text \<open>The core commands, and \<^verbatim>\<open>cli_execute_line\<close> for them: it stores the return code.\<close>

datatype command = Eval | Explain | Poke | List | Search | Filter

definition cli_execute_line :: "ramfuck \<Rightarrow> command \<times> run \<Rightarrow> ramfuck" where
  "cli_execute_line ctx c =
     (case (case fst c of
              Eval \<Rightarrow> do_eval ctx (snd c)
            | Explain \<Rightarrow> do_explain ctx (snd c)
            | Poke \<Rightarrow> do_poke ctx (snd c)
            | List \<Rightarrow> do_list ctx (snd c)
            | Search \<Rightarrow> do_search ctx (snd c)
            | Filter \<Rightarrow> do_filter ctx (snd c)) of
        (code, ctx1) \<Rightarrow> ctx1\<lparr>rc := code\<rparr>)"

definition cli_execute :: "ramfuck \<Rightarrow> (command \<times> run) list \<Rightarrow> ramfuck" where
  "cli_execute ctx cs = foldl cli_execute_line ctx cs"

section \<open>Values and inputs of the examples\<close>

definition s32_value :: "32 word \<Rightarrow> value" where
  "s32_value x = value_init_s32 zero_value x"

definition u32_value :: "32 word \<Rightarrow> value" where
  "u32_value x = value_init_u32 zero_value x"

definition f64_value :: "64 word \<Rightarrow> value" where
  "f64_value x = value_init_f64 zero_value x"

text \<open>Tokens, as the lexer delivers them.\<close>

definition tok :: "lex_token_type \<Rightarrow> lex_token option" where
  "tok t = Some (token t)"

definition tok_id :: "string \<Rightarrow> lex_token option" where
  "tok_id s = Some ((token LEX_IDENTIFIER)\<lparr>tok_identifier := s\<rparr>)"

definition tok_int :: "64 word \<Rightarrow> lex_token option" where
  "tok_int i = Some ((token LEX_INTEGER)\<lparr>tok_integer := i\<rparr>)"

definition tok_uint :: "64 word \<Rightarrow> lex_token option" where
  "tok_uint i = Some ((token LEX_UINTEGER)\<lparr>tok_integer := i\<rparr>)"

definition tok_fp :: "64 word \<Rightarrow> lex_token option" where
  "tok_fp x = Some ((token LEX_FLOATING_POINT)\<lparr>tok_fp := x\<rparr>)"

text \<open>A symbol table with one symbol, \<open>x\<close> of type u8.\<close>

definition x_symtab :: "symbol list" where
  "x_symtab = [\<lparr>name = ''x'', sym_value = value_init_u8 zero_value 200\<rparr>]"

text \<open>A symbol table with two symbols, \<open>a\<close> and \<open>b\<close>, with the given cells.\<close>

definition ab_symtab :: "value \<Rightarrow> value \<Rightarrow> symbol list" where
  "ab_symtab a b = [\<lparr>name = ''a'', sym_value = a\<rparr>, \<lparr>name = ''b'', sym_value = b\<rparr>]"

text \<open>
  The expressions \<open>a op b\<close> and \<open>op a\<close> over that table, parsed with a bound of 20 on
  the depth of the calls.
\<close>

definition parse_binary :: "lex_token_type \<Rightarrow> value \<Rightarrow> value \<Rightarrow> (nat \<times> ast option) option" where
  "parse_binary op a b =
     parse_expression 20 [tok_id ''a'', tok op, tok_id ''b''] (Some (ab_symtab a b))"

definition parse_unary :: "lex_token_type \<Rightarrow> value \<Rightarrow> (nat \<times> ast option) option" where
  "parse_unary op a = parse_expression 20 [tok op, tok_id ''a''] (Some (ab_symtab a a))"

text \<open>The scalar type names, and the nonempty strict prefixes of a string.\<close>

definition type_names :: "string list" where
  "type_names =
     [''s8'', ''s16'', ''s32'', ''s64'', ''u8'', ''u16'', ''u32'', ''u64'', ''f32'', ''f64'']"

definition nonempty_strict_prefixes :: "string \<Rightarrow> string list" where
  "nonempty_strict_prefixes s = map (\<lambda>k. take k s) [1..<length s]"

text \<open>A handler returned 0, its report of an error.\<close>

definition returned_zero :: "outcome \<Rightarrow> bool" where
  "returned_zero r = (case r of Returned c out \<Rightarrow> c = 0 | Undefined \<Rightarrow> False)"

subsection \<open>Reading and writing members of the union\<close>

lemma mask_consts:
  "(0xFF :: 64 word) = mask 8" "(0xFFFF :: 64 word) = mask 16"
  "(0xFFFFFFFF :: 64 word) = mask 32"
  by (simp_all add: mask_eq_exp_minus_1)

lemma get8_put8 [simp]: "get8 (put8 d x) = x"
  unfolding get8_def put8_def mask_consts
  by (rule bit_word_eqI) (auto simp: bit_simps)

lemma get16_put16 [simp]: "get16 (put16 d x) = x"
  unfolding get16_def put16_def mask_consts
  by (rule bit_word_eqI) (auto simp: bit_simps)

lemma get32_put32 [simp]: "get32 (put32 d x) = x"
  unfolding get32_def put32_def mask_consts
  by (rule bit_word_eqI) (auto simp: bit_simps)

lemma byte_put32:
  "i < 4 \<Longrightarrow> (ucast (drop_bit (8 * i) (put32 d x)) :: 8 word) = ucast (drop_bit (8 * i) x)"
  unfolding put32_def mask_consts
  by (rule bit_word_eqI) (auto simp: bit_simps)

subsection \<open>The rows of the method table\<close>

lemma value_ops_cases:
  assumes "value_ops F t = Some ops"
  obtains "t = S8" "ops = value_ops_S8 F" | "t = U8" "ops = value_ops_U8 F"
    | "t = S16" "ops = value_ops_S16 F" | "t = U16" "ops = value_ops_U16 F"
    | "t = S32" "ops = value_ops_S32 F" | "t = U32" "ops = value_ops_U32 F"
    | "t = S64" "ops = value_ops_S64 F" | "t = U64" "ops = value_ops_U64 F"
    | "t = F32" "ops = value_ops_F32 F" | "t = F64" "ops = value_ops_F64 F"
  using assms by (cases t) (auto simp: value_ops_def)

lemmas parser_defs =
  parse_expression_def parser_init_def next_symbol_def accept_def accept2_def accept3_def
  accept4_def expect_def parse_error_def token_def tok_def tok_id_def tok_int_def tok_uint_def
  tok_fp_def conditional_expression_def or_expression_def xor_expression_def
  and_expression_def equality_expression_def relational_expression_def shift_expression_def
  addsub_expression_def muldiv_expression_def unary_expression_def factor_def
  factor_identifier_def cast_peek_def cast_accept_def ab_symtab_def x_symtab_def
  ast_var_new_def ast_binary_new_def ast_unary_new_def ast_cast_new_def numeral_eq_Suc

lemmas value_ops_rows =
  value_ops_S8_def value_ops_U8_def value_ops_S16_def value_ops_U16_def
  value_ops_S32_def value_ops_U32_def value_ops_S64_def value_ops_U64_def
  value_ops_F32_def value_ops_F64_def

section \<open>The types the parser assigns\<close>

text \<open>
  The type checks of the productions, read off as a predicate on trees: a unary plus
  or minus has a numeric operand and its type, a logical not or a complement an integer
  operand and its type; \<open>+ - * /\<close> have numeric operands and the higher of their types,
  \<open>% & ^ |\<close> integer operands and the higher of their types, the shifts integer
  operands and the type of the left one; the relational and equality nodes have numeric
  operands and the tag \<^verbatim>\<open>SINT\<close>, the conditional nodes the tag \<^verbatim>\<open>SINT\<close>. Casts, dereferences and
  leaves are unconstrained.
\<close>

fun well_typed :: "ast \<Rightarrow> bool" where
  "well_typed (Ast_value vt v) = True"
| "well_typed (Ast_var vt i) = True"
| "well_typed (Ast_unary nt vt c) =
     (well_typed c
      \<and> (if nt \<in> {AST_NOT, AST_COMPL}
         then type_INT (ast_value_type c) \<and> vt = ast_value_type c
         else if nt \<in> {AST_UADD, AST_USUB}
         then type_numeric (ast_value_type c) \<and> vt = ast_value_type c
         else True))"
| "well_typed (Ast_binary nt vt l r) =
     (well_typed l \<and> well_typed r
      \<and> (if nt \<in> {AST_ADD, AST_SUB, AST_MUL, AST_DIV}
         then type_numeric (ast_value_type l) \<and> type_numeric (ast_value_type r)
              \<and> vt = HIGHER_TYPE (ast_value_type l) (ast_value_type r)
         else if nt \<in> {AST_MOD, AST_AND, AST_XOR, AST_OR}
         then type_INT (ast_value_type l) \<and> type_INT (ast_value_type r)
              \<and> vt = HIGHER_TYPE (ast_value_type l) (ast_value_type r)
         else if nt \<in> {AST_SHL, AST_SHR}
         then type_INT (ast_value_type l) \<and> type_INT (ast_value_type r)
              \<and> vt = ast_value_type l
         else if nt \<in> {AST_EQ, AST_NEQ, AST_LT, AST_GT, AST_LE, AST_GE}
         then type_numeric (ast_value_type l) \<and> type_numeric (ast_value_type r) \<and> vt = SINT
         else if nt \<in> {AST_AND_COND, AST_OR_COND}
         then vt = SINT
         else True))"

text \<open>A token that was accepted is one of those asked for.\<close>

lemma accept_accepted:
  "accept p s = (True, p1) \<Longrightarrow> token_type (accepted p1) = s"
  by (cases "lexer (input p)")
     (auto simp: accept_def next_symbol_def split: if_splits)

lemma accept2_accepted:
  "accept2 p a b = (True, p1)
   \<Longrightarrow> token_type (accepted p1) = a \<or> token_type (accepted p1) = b"
  by (auto simp: accept2_def split: prod.splits bool.splits dest: accept_accepted)

lemma accept3_accepted:
  "accept3 p a b c = (True, p1)
   \<Longrightarrow> token_type (accepted p1) = a \<or> token_type (accepted p1) = b
       \<or> token_type (accepted p1) = c"
  by (auto simp: accept3_def split: prod.splits bool.splits dest: accept_accepted accept2_accepted)

lemma accept4_accepted:
  "accept4 p a b c d = (True, p1)
   \<Longrightarrow> token_type (accepted p1) = a \<or> token_type (accepted p1) = b
       \<or> token_type (accepted p1) = c \<or> token_type (accepted p1) = d"
  by (auto simp: accept4_def split: prod.splits bool.splits dest: accept_accepted accept3_accepted)

text \<open>The leaves and the unary productions.\<close>

lemma type_INT_numeric: "type_INT t \<Longrightarrow> type_numeric t"
  by (simp add: type_numeric_def)

lemma factor_well_typed:
  assumes "\<And>p root p'. expr p = Some (Some root, p') \<Longrightarrow> well_typed root"
    and "factor expr p = Some (Some root, p')"
  shows "well_typed root"
  using assms(2)
  by (auto simp: factor_def factor_identifier_def ast_int_new_def ast_uint_new_def
        ast_float_new_def ast_value_new_def ast_var_new_def
        split: prod.splits bool.splits option.splits dest: assms(1))

lemma lex_to_ast_type_unary:
  "accept4 p LEX_ADD LEX_SUB LEX_NOT LEX_COMPL = (True, p1)
   \<Longrightarrow> lex_to_ast_type (token_type (accepted p1)) = AST_ADD
       \<or> lex_to_ast_type (token_type (accepted p1)) = AST_SUB
       \<or> lex_to_ast_type (token_type (accepted p1)) = AST_NOT
       \<or> lex_to_ast_type (token_type (accepted p1)) = AST_COMPL"
  by (drule accept4_accepted) auto

lemma unary_node_well_typed:
  assumes "well_typed child"
    and "t = AST_ADD \<or> t = AST_SUB \<or> t = AST_NOT \<or> t = AST_COMPL"
    and "unary_expression_node t child p = (Some root, p')"
  shows "well_typed root"
  using assms
  by (auto simp: unary_expression_node_def ast_unary_new_def Let_def split: if_splits)

lemma unary_well_typed:
  assumes cast: "\<And>p root p'. cast p = Some (Some root, p') \<Longrightarrow> well_typed root"
    and expr: "\<And>p root p'. expr p = Some (Some root, p') \<Longrightarrow> well_typed root"
    and "unary_expression cast expr p = Some (Some root, p')"
  shows "well_typed root"
proof (cases "accept4 p LEX_ADD LEX_SUB LEX_NOT LEX_COMPL")
  case (Pair ok p1)
  show ?thesis
  proof (cases ok)
    case False
    with Pair assms(3) have "factor expr p1 = Some (Some root, p')"
      by (simp add: unary_expression_def)
    then show ?thesis
      by (rule factor_well_typed [rotated]) (erule expr)
  next
    case True
    with Pair have acc: "accept4 p LEX_ADD LEX_SUB LEX_NOT LEX_COMPL = (True, p1)" by simp
    from assms(3) acc obtain child p2 where child: "cast p1 = Some (Some child, p2)"
      by (auto simp: unary_expression_def split: option.splits)
    then have pc: "well_typed child" by (rule cast)
    from assms(3) acc child
    have "unary_expression_node (lex_to_ast_type (token_type (accepted p1))) child p2
            = (Some root, p')"
      by (simp add: unary_expression_def)
    with pc lex_to_ast_type_unary [OF acc] show ?thesis
      by (rule unary_node_well_typed)
  qed
qed

lemma cast_well_typed:
  assumes "\<And>p root p'. expr p = Some (Some root, p') \<Longrightarrow> well_typed root"
  shows "cast_expression expr n p = Some (Some root, p') \<Longrightarrow> well_typed root"
proof (induction n arbitrary: p root p')
  case 0
  then show ?case by simp
next
  case (Suc n)
  have sub: "\<And>p root p'. cast_expression expr n p = Some (Some root, p')
                \<Longrightarrow> well_typed root"
    by (rule Suc.IH)
  from Suc.prems show ?case
    by (auto simp: ast_cast_new_def
        split: prod.splits bool.splits option.splits if_splits
        intro: sub unary_well_typed [OF sub assms])
qed

text \<open>The node each binary production builds.\<close>

lemma muldiv_node_well_typed:
  assumes "well_typed left" and "well_typed right"
    and "t = AST_MUL \<or> t = AST_DIV \<or> t = AST_MOD"
    and "muldiv_expression_node t left right p = (Some root, p')"
  shows "well_typed root"
  using assms
  by (auto simp: muldiv_expression_node_def ast_binary_new_def Let_def type_INT_numeric
        split: if_splits)

lemma addsub_node_well_typed:
  assumes "well_typed left" and "well_typed right"
    and "t = AST_ADD \<or> t = AST_SUB"
    and "addsub_expression_node t left right p = (Some root, p')"
  shows "well_typed root"
  using assms
  by (auto simp: addsub_expression_node_def ast_binary_new_def split: if_splits)

lemma shift_node_well_typed:
  assumes "well_typed left" and "well_typed right"
    and "t = AST_SHL \<or> t = AST_SHR"
    and "shift_expression_node t left right p = (Some root, p')"
  shows "well_typed root"
  using assms
  by (auto simp: shift_expression_node_def ast_binary_new_def split: if_splits)

lemma bitwise_node_well_typed:
  assumes "well_typed left" and "well_typed right"
    and "t = AST_AND \<or> t = AST_XOR \<or> t = AST_OR"
    and "bitwise_expression_node t left right p = (Some root, p')"
  shows "well_typed root"
  using assms
  by (auto simp: bitwise_expression_node_def ast_binary_new_def split: if_splits)

lemma relational_node_well_typed:
  assumes "well_typed left" and "well_typed right"
    and "t = AST_LT \<or> t = AST_GT \<or> t = AST_LE \<or> t = AST_GE"
    and "relational_expression_node t left right p = (Some root, p')"
  shows "well_typed root"
  using assms
  by (auto simp: relational_expression_node_def ast_binary_new_def split: if_splits)

lemma equality_node_well_typed:
  assumes "well_typed left" and "well_typed right"
    and "t = AST_EQ \<or> t = AST_NEQ"
    and "equality_expression_node t left right p = (Some root, p')"
  shows "well_typed root"
  using assms
  by (auto simp: equality_expression_node_def ast_binary_new_def split: if_splits)

lemma lex_to_ast_type_muldiv:
  "accept3 p LEX_MUL LEX_DIV LEX_MOD = (True, p1)
   \<Longrightarrow> lex_to_ast_type (token_type (accepted p1)) = AST_MUL
       \<or> lex_to_ast_type (token_type (accepted p1)) = AST_DIV
       \<or> lex_to_ast_type (token_type (accepted p1)) = AST_MOD"
  by (drule accept3_accepted) auto

lemma lex_to_ast_type_addsub:
  "accept2 p LEX_ADD LEX_SUB = (True, p1)
   \<Longrightarrow> lex_to_ast_type (token_type (accepted p1)) = AST_ADD
       \<or> lex_to_ast_type (token_type (accepted p1)) = AST_SUB"
  by (drule accept2_accepted) auto

lemma lex_to_ast_type_shift:
  "accept2 p LEX_SHL LEX_SHR = (True, p1)
   \<Longrightarrow> lex_to_ast_type (token_type (accepted p1)) = AST_SHL
       \<or> lex_to_ast_type (token_type (accepted p1)) = AST_SHR"
  by (drule accept2_accepted) auto

lemma lex_to_ast_type_relational:
  "accept4 p LEX_LT LEX_GT LEX_LE LEX_GE = (True, p1)
   \<Longrightarrow> lex_to_ast_type (token_type (accepted p1)) = AST_LT
       \<or> lex_to_ast_type (token_type (accepted p1)) = AST_GT
       \<or> lex_to_ast_type (token_type (accepted p1)) = AST_LE
       \<or> lex_to_ast_type (token_type (accepted p1)) = AST_GE"
  by (drule accept4_accepted) auto

lemma lex_to_ast_type_equality:
  "accept2 p LEX_EQ LEX_NEQ = (True, p1)
   \<Longrightarrow> lex_to_ast_type (token_type (accepted p1)) = AST_EQ
       \<or> lex_to_ast_type (token_type (accepted p1)) = AST_NEQ"
  by (drule accept2_accepted) auto

lemma lex_to_ast_type_conditional:
  "accept2 p LEX_AND_COND LEX_OR_COND = (True, p1)
   \<Longrightarrow> lex_to_ast_type (token_type (accepted p1)) = AST_AND_COND
       \<or> lex_to_ast_type (token_type (accepted p1)) = AST_OR_COND"
  by (drule accept2_accepted) auto

text \<open>
  The loops of the left-associative productions keep the invariant, whatever the bound
  on their iterations.
\<close>

lemma muldiv_loop_well_typed:
  assumes sub: "\<And>p root p'. sub p = Some (Some root, p') \<Longrightarrow> well_typed root"
  shows "(case root of Some left \<Rightarrow> well_typed left | None \<Rightarrow> True)
         \<Longrightarrow> muldiv_loop sub n root p = Some (Some r, p') \<Longrightarrow> well_typed r"
proof (induction n arbitrary: root p)
  case 0
  then show ?case by simp
next
  case (Suc n)
  from Suc.prems(2) obtain left where left: "root = Some left"
    by (cases root) auto
  with Suc.prems(1) have pl: "well_typed left" by simp
  show ?case
  proof (cases "accept3 p LEX_MUL LEX_DIV LEX_MOD")
    case (Pair ok p1)
    show ?thesis
    proof (cases ok)
      case False
      with Pair left Suc.prems(2) pl show ?thesis by simp
    next
      case True
      with Pair have acc: "accept3 p LEX_MUL LEX_DIV LEX_MOD = (True, p1)" by simp
      let ?t = "lex_to_ast_type (token_type (accepted p1))"
      from Suc.prems(2) left acc obtain right p2
        where right: "sub p1 = Some (Some right, p2)"
        by (auto split: option.splits)
      then have pr: "well_typed right" by (rule sub)
      obtain root' p3 where node: "muldiv_expression_node ?t left right p2 = (root', p3)"
        by (cases "muldiv_expression_node ?t left right p2")
      have "case root' of Some l \<Rightarrow> well_typed l | None \<Rightarrow> True"
      proof (cases root')
        case None
        then show ?thesis by simp
      next
        case (Some l)
        with node have "muldiv_expression_node ?t left right p2 = (Some l, p3)" by simp
        with pl pr lex_to_ast_type_muldiv [OF acc] have "well_typed l"
          by (rule muldiv_node_well_typed)
        with Some show ?thesis by simp
      qed
      moreover from Suc.prems(2) left acc right node
      have "muldiv_loop sub n root' p3 = Some (Some r, p')"
        by simp
      ultimately show ?thesis by (rule Suc.IH)
    qed
  qed
qed

lemma addsub_loop_well_typed:
  assumes sub: "\<And>p root p'. sub p = Some (Some root, p') \<Longrightarrow> well_typed root"
  shows "(case root of Some left \<Rightarrow> well_typed left | None \<Rightarrow> True)
         \<Longrightarrow> addsub_loop sub n root p = Some (Some r, p') \<Longrightarrow> well_typed r"
proof (induction n arbitrary: root p)
  case 0
  then show ?case by simp
next
  case (Suc n)
  from Suc.prems(2) obtain left where left: "root = Some left"
    by (cases root) auto
  with Suc.prems(1) have pl: "well_typed left" by simp
  show ?case
  proof (cases "accept2 p LEX_ADD LEX_SUB")
    case (Pair ok p1)
    show ?thesis
    proof (cases ok)
      case False
      with Pair left Suc.prems(2) pl show ?thesis by simp
    next
      case True
      with Pair have acc: "accept2 p LEX_ADD LEX_SUB = (True, p1)" by simp
      let ?t = "lex_to_ast_type (token_type (accepted p1))"
      from Suc.prems(2) left acc obtain right p2
        where right: "sub p1 = Some (Some right, p2)"
        by (auto split: option.splits)
      then have pr: "well_typed right" by (rule sub)
      obtain root' p3 where node: "addsub_expression_node ?t left right p2 = (root', p3)"
        by (cases "addsub_expression_node ?t left right p2")
      have "case root' of Some l \<Rightarrow> well_typed l | None \<Rightarrow> True"
      proof (cases root')
        case None
        then show ?thesis by simp
      next
        case (Some l)
        with node have "addsub_expression_node ?t left right p2 = (Some l, p3)" by simp
        with pl pr lex_to_ast_type_addsub [OF acc] have "well_typed l"
          by (rule addsub_node_well_typed)
        with Some show ?thesis by simp
      qed
      moreover from Suc.prems(2) left acc right node
      have "addsub_loop sub n root' p3 = Some (Some r, p')"
        by simp
      ultimately show ?thesis by (rule Suc.IH)
    qed
  qed
qed

lemma shift_loop_well_typed:
  assumes sub: "\<And>p root p'. sub p = Some (Some root, p') \<Longrightarrow> well_typed root"
  shows "(case root of Some left \<Rightarrow> well_typed left | None \<Rightarrow> True)
         \<Longrightarrow> shift_loop sub n root p = Some (Some r, p') \<Longrightarrow> well_typed r"
proof (induction n arbitrary: root p)
  case 0
  then show ?case by simp
next
  case (Suc n)
  from Suc.prems(2) obtain left where left: "root = Some left"
    by (cases root) auto
  with Suc.prems(1) have pl: "well_typed left" by simp
  show ?case
  proof (cases "accept2 p LEX_SHL LEX_SHR")
    case (Pair ok p1)
    show ?thesis
    proof (cases ok)
      case False
      with Pair left Suc.prems(2) pl show ?thesis by simp
    next
      case True
      with Pair have acc: "accept2 p LEX_SHL LEX_SHR = (True, p1)" by simp
      let ?t = "lex_to_ast_type (token_type (accepted p1))"
      from Suc.prems(2) left acc obtain right p2
        where right: "sub p1 = Some (Some right, p2)"
        by (auto split: option.splits)
      then have pr: "well_typed right" by (rule sub)
      obtain root' p3 where node: "shift_expression_node ?t left right p2 = (root', p3)"
        by (cases "shift_expression_node ?t left right p2")
      have "case root' of Some l \<Rightarrow> well_typed l | None \<Rightarrow> True"
      proof (cases root')
        case None
        then show ?thesis by simp
      next
        case (Some l)
        with node have "shift_expression_node ?t left right p2 = (Some l, p3)" by simp
        with pl pr lex_to_ast_type_shift [OF acc] have "well_typed l"
          by (rule shift_node_well_typed)
        with Some show ?thesis by simp
      qed
      moreover from Suc.prems(2) left acc right node
      have "shift_loop sub n root' p3 = Some (Some r, p')"
        by simp
      ultimately show ?thesis by (rule Suc.IH)
    qed
  qed
qed

lemma bitwise_loop_well_typed:
  assumes sub: "\<And>p root p'. sub p = Some (Some root, p') \<Longrightarrow> well_typed root"
    and t: "t = AST_AND \<or> t = AST_XOR \<or> t = AST_OR"
  shows "(case root of Some left \<Rightarrow> well_typed left | None \<Rightarrow> True)
         \<Longrightarrow> bitwise_loop tk t sub n root p = Some (Some r, p') \<Longrightarrow> well_typed r"
proof (induction n arbitrary: root p)
  case 0
  then show ?case by simp
next
  case (Suc n)
  from Suc.prems(2) obtain left where left: "root = Some left"
    by (cases root) auto
  with Suc.prems(1) have pl: "well_typed left" by simp
  show ?case
  proof (cases "accept p tk")
    case (Pair ok p1)
    show ?thesis
    proof (cases ok)
      case False
      with Pair left Suc.prems(2) pl show ?thesis by simp
    next
      case True
      with Pair have acc: "accept p tk = (True, p1)" by simp
      from Suc.prems(2) left acc obtain right p2
        where right: "sub p1 = Some (Some right, p2)"
        by (auto split: option.splits)
      then have pr: "well_typed right" by (rule sub)
      obtain root' p3 where node: "bitwise_expression_node t left right p2 = (root', p3)"
        by (cases "bitwise_expression_node t left right p2")
      have "case root' of Some l \<Rightarrow> well_typed l | None \<Rightarrow> True"
      proof (cases root')
        case None
        then show ?thesis by simp
      next
        case (Some l)
        with node have "bitwise_expression_node t left right p2 = (Some l, p3)" by simp
        with pl pr t have "well_typed l"
          by (rule bitwise_node_well_typed)
        with Some show ?thesis by simp
      qed
      moreover from Suc.prems(2) left acc right node
      have "bitwise_loop tk t sub n root' p3 = Some (Some r, p')"
        by simp
      ultimately show ?thesis by (rule Suc.IH)
    qed
  qed
qed

text \<open>The productions, from the tightest binding upward.\<close>

lemma muldiv_expression_well_typed:
  assumes expr: "\<And>p root p'. expr p = Some (Some root, p') \<Longrightarrow> well_typed root"
    and "muldiv_expression expr n p = Some (Some r, p')"
  shows "well_typed r"
proof -
  have sub: "\<And>p root p'. cast_expression expr n p = Some (Some root, p')
                \<Longrightarrow> well_typed root"
    by (rule cast_well_typed [OF expr])
  from assms(2) obtain root p1 where first: "cast_expression expr n p = Some (root, p1)"
    and rest: "muldiv_loop (cast_expression expr n) n root p1 = Some (Some r, p')"
    by (auto simp: muldiv_expression_def split: option.splits)
  have c: "case root of Some left \<Rightarrow> well_typed left | None \<Rightarrow> True"
    using first by (cases root) (auto intro: sub)
  show ?thesis
    by (rule muldiv_loop_well_typed [OF _ c rest]) (erule sub)
qed

lemma addsub_expression_well_typed:
  assumes expr: "\<And>p root p'. expr p = Some (Some root, p') \<Longrightarrow> well_typed root"
    and "addsub_expression expr n p = Some (Some r, p')"
  shows "well_typed r"
proof -
  have sub: "\<And>p root p'. muldiv_expression expr n p = Some (Some root, p')
                \<Longrightarrow> well_typed root"
    by (rule muldiv_expression_well_typed [OF expr])
  from assms(2) obtain root p1 where first: "muldiv_expression expr n p = Some (root, p1)"
    and rest: "addsub_loop (muldiv_expression expr n) n root p1 = Some (Some r, p')"
    by (auto simp: addsub_expression_def split: option.splits)
  have c: "case root of Some left \<Rightarrow> well_typed left | None \<Rightarrow> True"
    using first by (cases root) (auto intro: sub)
  show ?thesis
    by (rule addsub_loop_well_typed [OF _ c rest]) (erule sub)
qed

lemma shift_expression_well_typed:
  assumes expr: "\<And>p root p'. expr p = Some (Some root, p') \<Longrightarrow> well_typed root"
    and "shift_expression expr n p = Some (Some r, p')"
  shows "well_typed r"
proof -
  have sub: "\<And>p root p'. addsub_expression expr n p = Some (Some root, p')
                \<Longrightarrow> well_typed root"
    by (rule addsub_expression_well_typed [OF expr])
  from assms(2) obtain root p1 where first: "addsub_expression expr n p = Some (root, p1)"
    and rest: "shift_loop (addsub_expression expr n) n root p1 = Some (Some r, p')"
    by (auto simp: shift_expression_def split: option.splits)
  have c: "case root of Some left \<Rightarrow> well_typed left | None \<Rightarrow> True"
    using first by (cases root) (auto intro: sub)
  show ?thesis
    by (rule shift_loop_well_typed [OF _ c rest]) (erule sub)
qed

lemma relational_expression_well_typed:
  assumes expr: "\<And>p root p'. expr p = Some (Some root, p') \<Longrightarrow> well_typed root"
    and "relational_expression expr n p = Some (Some r, p')"
  shows "well_typed r"
proof -
  have sub: "\<And>p root p'. shift_expression expr n p = Some (Some root, p')
                \<Longrightarrow> well_typed root"
    by (rule shift_expression_well_typed [OF expr])
  from assms(2) obtain left p1 where left: "shift_expression expr n p = Some (Some left, p1)"
    by (auto simp: relational_expression_def split: option.splits)
  then have pl: "well_typed left" by (rule sub)
  show ?thesis
  proof (cases "accept4 p1 LEX_LT LEX_GT LEX_LE LEX_GE")
    case (Pair ok p2)
    show ?thesis
    proof (cases ok)
      case False
      with Pair left assms(2) pl show ?thesis
        by (simp add: relational_expression_def)
    next
      case True
      with Pair have acc: "accept4 p1 LEX_LT LEX_GT LEX_LE LEX_GE = (True, p2)" by simp
      from assms(2) left acc obtain right p3
        where right: "shift_expression expr n p2 = Some (Some right, p3)"
        by (auto simp: relational_expression_def split: option.splits)
      then have pr: "well_typed right" by (rule sub)
      from assms(2) left acc right
      have "relational_expression_node (lex_to_ast_type (token_type (accepted p2))) left right p3
              = (Some r, p')"
        by (simp add: relational_expression_def)
      with pl pr lex_to_ast_type_relational [OF acc] show ?thesis
        by (rule relational_node_well_typed)
    qed
  qed
qed

lemma equality_expression_well_typed:
  assumes expr: "\<And>p root p'. expr p = Some (Some root, p') \<Longrightarrow> well_typed root"
    and "equality_expression expr n p = Some (Some r, p')"
  shows "well_typed r"
proof -
  have sub: "\<And>p root p'. relational_expression expr n p = Some (Some root, p')
                \<Longrightarrow> well_typed root"
    by (rule relational_expression_well_typed [OF expr])
  from assms(2) obtain left p1 where left: "relational_expression expr n p = Some (Some left, p1)"
    by (auto simp: equality_expression_def split: option.splits)
  then have pl: "well_typed left" by (rule sub)
  show ?thesis
  proof (cases "accept2 p1 LEX_EQ LEX_NEQ")
    case (Pair ok p2)
    show ?thesis
    proof (cases ok)
      case False
      with Pair left assms(2) pl show ?thesis
        by (simp add: equality_expression_def)
    next
      case True
      with Pair have acc: "accept2 p1 LEX_EQ LEX_NEQ = (True, p2)" by simp
      from assms(2) left acc obtain right p3
        where right: "relational_expression expr n p2 = Some (Some right, p3)"
        by (auto simp: equality_expression_def split: option.splits)
      then have pr: "well_typed right" by (rule sub)
      from assms(2) left acc right
      have "equality_expression_node (lex_to_ast_type (token_type (accepted p2))) left right p3
              = (Some r, p')"
        by (simp add: equality_expression_def)
      with pl pr lex_to_ast_type_equality [OF acc] show ?thesis
        by (rule equality_node_well_typed)
    qed
  qed
qed

lemma and_expression_well_typed:
  assumes expr: "\<And>p root p'. expr p = Some (Some root, p') \<Longrightarrow> well_typed root"
    and "and_expression expr n p = Some (Some r, p')"
  shows "well_typed r"
proof -
  have sub: "\<And>p root p'. equality_expression expr n p = Some (Some root, p')
                \<Longrightarrow> well_typed root"
    by (rule equality_expression_well_typed [OF expr])
  from assms(2) obtain root p1 where first: "equality_expression expr n p = Some (root, p1)"
    and rest: "bitwise_loop LEX_AND AST_AND (equality_expression expr n) n root p1
                 = Some (Some r, p')"
    by (auto simp: and_expression_def split: option.splits)
  have c: "case root of Some left \<Rightarrow> well_typed left | None \<Rightarrow> True"
    using first by (cases root) (auto intro: sub)
  show ?thesis
    by (rule bitwise_loop_well_typed [OF _ _ c rest]) (erule sub, simp)
qed

lemma xor_expression_well_typed:
  assumes expr: "\<And>p root p'. expr p = Some (Some root, p') \<Longrightarrow> well_typed root"
    and "xor_expression expr n p = Some (Some r, p')"
  shows "well_typed r"
proof -
  have sub: "\<And>p root p'. and_expression expr n p = Some (Some root, p')
                \<Longrightarrow> well_typed root"
    by (rule and_expression_well_typed [OF expr])
  from assms(2) obtain root p1 where first: "and_expression expr n p = Some (root, p1)"
    and rest: "bitwise_loop LEX_XOR AST_XOR (and_expression expr n) n root p1
                 = Some (Some r, p')"
    by (auto simp: xor_expression_def split: option.splits)
  have c: "case root of Some left \<Rightarrow> well_typed left | None \<Rightarrow> True"
    using first by (cases root) (auto intro: sub)
  show ?thesis
    by (rule bitwise_loop_well_typed [OF _ _ c rest]) (erule sub, simp)
qed

lemma or_expression_well_typed:
  assumes expr: "\<And>p root p'. expr p = Some (Some root, p') \<Longrightarrow> well_typed root"
    and "or_expression expr n p = Some (Some r, p')"
  shows "well_typed r"
proof -
  have sub: "\<And>p root p'. xor_expression expr n p = Some (Some root, p')
                \<Longrightarrow> well_typed root"
    by (rule xor_expression_well_typed [OF expr])
  from assms(2) obtain root p1 where first: "xor_expression expr n p = Some (root, p1)"
    and rest: "bitwise_loop LEX_OR AST_OR (xor_expression expr n) n root p1
                 = Some (Some r, p')"
    by (auto simp: or_expression_def split: option.splits)
  have c: "case root of Some left \<Rightarrow> well_typed left | None \<Rightarrow> True"
    using first by (cases root) (auto intro: sub)
  show ?thesis
    by (rule bitwise_loop_well_typed [OF _ _ c rest]) (erule sub, simp)
qed

lemma conditional_loop_well_typed:
  assumes sub: "\<And>p root p'. sub p = Some (Some root, p') \<Longrightarrow> well_typed root"
  shows "(case root of Some left \<Rightarrow> well_typed left | None \<Rightarrow> True)
         \<Longrightarrow> conditional_loop sub n root p = Some (Some r, p') \<Longrightarrow> well_typed r"
proof (induction n arbitrary: root p)
  case 0
  then show ?case by simp
next
  case (Suc n)
  from Suc.prems(2) obtain left where left: "root = Some left"
    by (cases root) auto
  with Suc.prems(1) have pl: "well_typed left" by simp
  show ?case
  proof (cases "accept2 p LEX_AND_COND LEX_OR_COND")
    case (Pair ok p1)
    show ?thesis
    proof (cases ok)
      case False
      with Pair left Suc.prems(2) pl show ?thesis by simp
    next
      case True
      with Pair have acc: "accept2 p LEX_AND_COND LEX_OR_COND = (True, p1)" by simp
      let ?t = "lex_to_ast_type (token_type (accepted p1))"
      from Suc.prems(2) left acc obtain right p2 where right: "sub p1 = Some (right, p2)"
        by (auto split: option.splits)
      have "case conditional_expression_node ?t left right of
              Some l \<Rightarrow> well_typed l | None \<Rightarrow> True"
      proof (cases right)
        case None
        then show ?thesis by (simp add: conditional_expression_node_def)
      next
        case (Some x)
        with right have "well_typed x" by (auto intro: sub)
        with Some pl lex_to_ast_type_conditional [OF acc] show ?thesis
          by (auto simp: conditional_expression_node_def ast_binary_new_def)
      qed
      moreover from Suc.prems(2) left acc right
      have "conditional_loop sub n (conditional_expression_node ?t left right) p2
              = Some (Some r, p')"
        by simp
      ultimately show ?thesis by (rule Suc.IH)
    qed
  qed
qed

lemma conditional_expression_well_typed:
  assumes expr: "\<And>p root p'. expr p = Some (Some root, p') \<Longrightarrow> well_typed root"
    and "conditional_expression expr n p = Some (Some r, p')"
  shows "well_typed r"
proof -
  have sub: "\<And>p root p'. or_expression expr n p = Some (Some root, p')
                \<Longrightarrow> well_typed root"
    by (rule or_expression_well_typed [OF expr])
  from assms(2) obtain root p1 where first: "or_expression expr n p = Some (root, p1)"
    and rest: "conditional_loop (or_expression expr n) n root p1 = Some (Some r, p')"
    by (auto simp: conditional_expression_def split: option.splits)
  have c: "case root of Some left \<Rightarrow> well_typed left | None \<Rightarrow> True"
    using first by (cases root) (auto intro: sub)
  show ?thesis
    by (rule conditional_loop_well_typed [OF _ c rest]) (erule sub)
qed

lemma expression_well_typed:
  "expression n p = Some (Some r, p') \<Longrightarrow> well_typed r"
proof (induction n arbitrary: p r p')
  case 0
  then show ?case by simp
next
  case (Suc n)
  have sub: "\<And>p root p'. expression n p = Some (Some root, p') \<Longrightarrow> well_typed root"
    by (rule Suc.IH)
  from Suc.prems have eq: "conditional_expression (expression n) n p = Some (Some r, p')"
    by (simp split: if_splits)
  show ?case
    by (rule conditional_expression_well_typed [OF _ eq]) (erule sub)
qed

text \<open>
  Every tree \<^verbatim>\<open>parse_expression\<close> returns satisfies the predicate in all its nodes,
  and comes with an error count of 0.
\<close>

lemma parse_expression_well_typed:
  assumes "parse_expression n inp tab = Some (e, Some t)"
  shows "well_typed t \<and> e = 0"
proof -
  from assms obtain p
    where "expression n (snd (next_symbol (parser_init inp tab))) = Some (Some t, p)"
    by (auto simp: parse_expression_def Let_def split: option.splits if_splits)
  then have "well_typed t" by (rule expression_well_typed)
  moreover from assms have "e = 0"
    by (auto simp: parse_expression_def Let_def split: option.splits if_splits)
  ultimately show ?thesis by simp
qed

section \<open>The optimizer preserves evaluation\<close>

lemma ast_evaluate_folded:
  "ast_evaluate E tab n = Some v \<Longrightarrow> ast_evaluate E tab (ast_value_new v) = Some v"
  by (simp add: ast_value_new_def)

text \<open>
  Folding goes bottom-up, and a node is evaluated from the values of its children
  only, so replacing a child by a tree of the same value changes nothing above it.
  This holds for every tree over a fixed symbol table.
\<close>

lemma ast_optimize_evaluates_alike:
  "ast_evaluate E tab (ast_optimize E tab n) = ast_evaluate E tab n"
proof (induction n)
  case (Ast_value vt v)
  show ?case by (simp add: ast_value_new_def)
next
  case (Ast_var vt i)
  show ?case by (simp add: ast_var_new_def)
next
  case (Ast_unary nt vt c)
  let ?ast = "Ast_unary nt vt (ast_optimize E tab c)"
  have same: "ast_evaluate E tab ?ast = ast_evaluate E tab (Ast_unary nt vt c)"
    using Ast_unary.IH by simp
  have opt: "ast_optimize E tab (Ast_unary nt vt c)
      = (if ast_is_constant (ast_optimize E tab c)
         then (case ast_evaluate E tab ?ast of Some v \<Rightarrow> ast_value_new v | None \<Rightarrow> ?ast)
         else ?ast)"
    by (simp add: Let_def ast_unary_new_def)
  show ?case
  proof (cases "ast_is_constant (ast_optimize E tab c)")
    case False
    with opt same show ?thesis by simp
  next
    case True
    show ?thesis
    proof (cases "ast_evaluate E tab ?ast")
      case None
      with opt True same show ?thesis by simp
    next
      case (Some v)
      with opt True have "ast_optimize E tab (Ast_unary nt vt c) = ast_value_new v"
        by simp
      with Some same show ?thesis
        by (simp add: ast_value_new_def)
    qed
  qed
next
  case (Ast_binary nt vt l r)
  let ?ast = "Ast_binary nt vt (ast_optimize E tab l) (ast_optimize E tab r)"
  have same: "ast_evaluate E tab ?ast = ast_evaluate E tab (Ast_binary nt vt l r)"
    using Ast_binary.IH by (simp cong: option.case_cong if_cong)
  have opt: "ast_optimize E tab (Ast_binary nt vt l r)
      = (if ast_is_constant (ast_optimize E tab l) \<and> ast_is_constant (ast_optimize E tab r)
         then (case ast_evaluate E tab ?ast of Some v \<Rightarrow> ast_value_new v | None \<Rightarrow> ?ast)
         else ?ast)"
    by (simp add: Let_def ast_binary_new_def)
  show ?case
  proof (cases "ast_is_constant (ast_optimize E tab l)
                \<and> ast_is_constant (ast_optimize E tab r)")
    case False
    with opt same show ?thesis by auto
  next
    case True
    show ?thesis
    proof (cases "ast_evaluate E tab ?ast")
      case None
      with opt True same show ?thesis by simp
    next
      case (Some v)
      with opt True have "ast_optimize E tab (Ast_binary nt vt l r) = ast_value_new v"
        by simp
      with Some same show ?thesis
        by (simp add: ast_value_new_def)
    qed
  qed
qed

text \<open>
  The tree of \<open>1 + 2 * 3\<close>, as the parser builds it: the nodes of the literals have
  the tag \<^verbatim>\<open>SINT\<close> and hold values of type s32, and the nodes of the operators have
  the higher of \<^verbatim>\<open>SINT\<close> and \<^verbatim>\<open>SINT\<close>.
\<close>

definition one_plus_two_times_three :: ast where
  "one_plus_two_times_three =
     Ast_binary AST_ADD SINT (Ast_value SINT (s32_value 1))
       (Ast_binary AST_MUL SINT (Ast_value SINT (s32_value 2)) (Ast_value SINT (s32_value 3)))"

lemma ast_int_new_small:
  "ast_int_new 1 = Ast_value S32 (s32_value 1)" "ast_int_new 2 = Ast_value S32 (s32_value 2)"
  "ast_int_new 3 = Ast_value S32 (s32_value 3)"
  by (simp_all add: ast_int_new_def ast_value_new_def s32_value_def value_init_s32_def)

lemma parse_one_plus_two_times_three:
  "parse_expression 20 [tok_int 1, tok LEX_ADD, tok_int 2, tok LEX_MUL, tok_int 3] None
     = Some (0, Some one_plus_two_times_three)"
  by (simp add: parser_defs one_plus_two_times_three_def addsub_expression_node_def
        muldiv_expression_node_def ast_int_new_small type_numeric_def HIGHER_TYPE_def)

lemma evaluate_one_plus_two_times_three:
  "ast_evaluate (table_evaluation F) [] one_plus_two_times_three = Some (s32_value 7)"
  by (simp add: one_plus_two_times_three_def table_evaluation_def value_ops_def value_ops_rows
        row_binary_def outcome_value_def s32_add_def s32_mul_def s32_value_def
        value_init_s32_def zero_value_def)

lemma optimize_one_plus_two_times_three:
  "ast_optimize (table_evaluation F) [] one_plus_two_times_three = Ast_value S32 (s32_value 7)"
proof -
  have "ast_evaluate (table_evaluation F) []
          (Ast_binary AST_MUL SINT (Ast_value SINT (s32_value 2)) (Ast_value SINT (s32_value 3)))
        = Some (s32_value 6)"
    by (simp add: table_evaluation_def value_ops_def value_ops_rows
          row_binary_def outcome_value_def s32_mul_def s32_value_def
          value_init_s32_def zero_value_def)
  moreover have "ast_evaluate (table_evaluation F) []
          (Ast_binary AST_ADD SINT (Ast_value SINT (s32_value 1)) (Ast_value S32 (s32_value 6)))
        = Some (s32_value 7)"
    by (simp add: table_evaluation_def value_ops_def value_ops_rows
          row_binary_def outcome_value_def s32_add_def s32_value_def
          value_init_s32_def zero_value_def)
  moreover have "type (s32_value 6) = S32" "type (s32_value 7) = S32"
    by (simp_all add: s32_value_def value_init_s32_def)
  ultimately show ?thesis
    by (simp add: one_plus_two_times_three_def Let_def ast_binary_new_def ast_value_new_def
          ast_is_constant_def)
qed

text \<open>
  C1. For every closed expression, evaluating the tree and evaluating the optimized
  tree give the same result: both fail, or both yield the same value, type tag and
  data alike.
\<close>

theorem optimizer_soundness:
  assumes "closed n"
  shows "ast_evaluate E tab (ast_optimize E tab n) = ast_evaluate E tab n"
  by (rule ast_optimize_evaluates_alike)

theorem optimizer_soundness_witness:
  "\<forall>F. parse_expression 20 [tok_int 1, tok LEX_ADD, tok_int 2, tok LEX_MUL, tok_int 3] None
         = Some (0, Some one_plus_two_times_three)
     \<and> closed one_plus_two_times_three
     \<and> ast_optimize (table_evaluation F) [] one_plus_two_times_three
         = Ast_value S32 (s32_value 7)
     \<and> ast_evaluate (table_evaluation F) [] (Ast_value S32 (s32_value 7))
         = ast_evaluate (table_evaluation F) [] one_plus_two_times_three
     \<and> ast_evaluate (table_evaluation F) [] one_plus_two_times_three = Some (s32_value 7)"
proof
  fix F
  have c: "closed one_plus_two_times_three"
    by (simp add: one_plus_two_times_three_def)
  show "parse_expression 20 [tok_int 1, tok LEX_ADD, tok_int 2, tok LEX_MUL, tok_int 3] None
         = Some (0, Some one_plus_two_times_three)
     \<and> closed one_plus_two_times_three
     \<and> ast_optimize (table_evaluation F) [] one_plus_two_times_three
         = Ast_value S32 (s32_value 7)
     \<and> ast_evaluate (table_evaluation F) [] (Ast_value S32 (s32_value 7))
         = ast_evaluate (table_evaluation F) [] one_plus_two_times_three
     \<and> ast_evaluate (table_evaluation F) [] one_plus_two_times_three = Some (s32_value 7)"
    using optimizer_soundness [OF c, of "table_evaluation F" "[]"] c
      optimize_one_plus_two_times_three [of F] evaluate_one_plus_two_times_three [of F]
      parse_one_plus_two_times_three
    by simp
qed

section \<open>The optimizer and the result type\<close>

text \<open>
  The handlers of the method table do not produce the declared type of the node they
  evaluate: the arithmetic handlers of the rows of the 8-bit and 16-bit types produce
  an s32, those of the f32 row an f64.
\<close>

lemma small_rows_promote:
  assumes "t = S8 \<or> t = U8 \<or> t = S16 \<or> t = U16" and "value_ops F t = Some ops"
    and "op_add ops op1 op2 out = Returned c v"
  shows "type v = S32"
proof -
  from assms(1,2) have "op_add ops = dummy_add F"
    by (auto simp: value_ops_def value_ops_rows)
  with assms(3) show ?thesis
    by (auto simp: dummy_add_def after_cast_def s32_add_def split: outcome.splits)
qed

lemma f32_row_promotes:
  assumes "op_add (value_ops_F32 F) op1 op2 out = Returned c v"
  shows "type v = F64"
  using assms
  by (auto simp: value_ops_rows f32_add_def after_cast_def f64_add_def split: outcome.splits)

text \<open>
  Every relational and equality handler of every row gives its result the type s32;
  none gives it the tag \<^verbatim>\<open>SINT\<close> that the parser declares for the node.
\<close>

lemma relational_handlers_yield_s32:
  assumes "value_ops F t = Some ops"
    and "h = op_eq ops \<or> h = op_neq ops \<or> h = op_lt ops \<or> h = op_gt ops
         \<or> h = op_le ops \<or> h = op_ge ops"
    and "h op1 op2 out = Returned c v"
  shows "type v = S32"
  using assms(1)
proof (cases rule: value_ops_cases)
qed (use assms(2,3) in \<open>auto simp: value_ops_rows after_cast_def
          s32_eq_def s32_neq_def s32_lt_def s32_gt_def s32_le_def s32_ge_def
          u32_eq_def u32_neq_def u32_lt_def u32_gt_def u32_le_def u32_ge_def
          s64_eq_def s64_neq_def s64_lt_def s64_gt_def s64_le_def s64_ge_def
          u64_eq_def u64_neq_def u64_lt_def u64_gt_def u64_le_def u64_ge_def
          f64_eq_def f64_neq_def f64_lt_def f64_gt_def f64_le_def f64_ge_def
          f32_eq_def f32_neq_def f32_lt_def f32_gt_def f32_le_def f32_ge_def
          dummy_eq_def dummy_neq_def dummy_lt_def dummy_gt_def dummy_le_def dummy_ge_def
          split: outcome.splits if_splits\<close>)

text \<open>
  The type of the root of the optimized tree, for every evaluator and every tree. A
  literal keeps its declared type: \<^verbatim>\<open>ast_value_optimize\<close> assigns it to the new node.
  A variable node is built anew from its symbol. An operator node that is not folded
  is given the type of the old node. A folded node becomes \<^verbatim>\<open>ast_value_new(&value)\<close>,
  whose type is the type of the value the evaluator produced, and no assignment of
  the declared type follows.
\<close>

lemma ast_optimize_value_type:
  "ast_value_type (ast_optimize E tab n) =
     (case n of
        Ast_value vt v \<Rightarrow> vt
      | Ast_var vt i \<Rightarrow> type (sym_value (tab ! i))
      | Ast_unary nt vt c \<Rightarrow>
          (if ast_is_constant (ast_optimize E tab c)
           then (case ast_evaluate E tab n of Some v \<Rightarrow> type v | None \<Rightarrow> vt)
           else vt)
      | Ast_binary nt vt l r \<Rightarrow>
          (if ast_is_constant (ast_optimize E tab l) \<and> ast_is_constant (ast_optimize E tab r)
           then (case ast_evaluate E tab n of Some v \<Rightarrow> type v | None \<Rightarrow> vt)
           else vt))"
proof (cases n)
  case (Ast_value vt v)
  then show ?thesis by (simp add: ast_value_new_def)
next
  case (Ast_var vt i)
  then show ?thesis by (simp add: ast_var_new_def)
next
  case (Ast_unary nt vt c)
  let ?ast = "Ast_unary nt vt (ast_optimize E tab c)"
  have same: "ast_evaluate E tab ?ast = ast_evaluate E tab n"
    using Ast_unary by (simp add: ast_optimize_evaluates_alike)
  show ?thesis
  proof (cases "ast_evaluate E tab ?ast")
    case None
    with same Ast_unary show ?thesis
      by (simp add: Let_def ast_unary_new_def)
  next
    case (Some v)
    with same have "ast_evaluate E tab n = Some v" by simp
    with Some Ast_unary show ?thesis
      by (simp add: Let_def ast_unary_new_def ast_value_new_def)
  qed
next
  case (Ast_binary nt vt l r)
  let ?ast = "Ast_binary nt vt (ast_optimize E tab l) (ast_optimize E tab r)"
  have same: "ast_evaluate E tab ?ast = ast_evaluate E tab n"
    using Ast_binary by (simp add: ast_optimize_evaluates_alike cong: option.case_cong if_cong)
  show ?thesis
  proof (cases "ast_evaluate E tab ?ast")
    case None
    with same Ast_binary show ?thesis
      by (simp add: Let_def ast_binary_new_def)
  next
    case (Some v)
    with same have "ast_evaluate E tab n = Some v" by simp
    with Some Ast_binary show ?thesis
      by (simp add: Let_def ast_binary_new_def ast_value_new_def)
  qed
qed

text \<open>
  The tree of \<open>1 < 2\<close>, as the parser builds it: a relational node with the tag
  \<^verbatim>\<open>SINT\<close> over two literals.
\<close>

definition one_lt_two :: ast where
  "one_lt_two =
     Ast_binary AST_LT SINT (Ast_value SINT (s32_value 1)) (Ast_value SINT (s32_value 2))"

lemma parse_one_lt_two:
  "parse_expression 20 [tok_int 1, tok LEX_LT, tok_int 2] None = Some (0, Some one_lt_two)"
  by (simp add: parser_defs one_lt_two_def relational_expression_node_def
        ast_int_new_small type_numeric_def)

lemma optimize_one_lt_two:
  "ast_optimize (table_evaluation F) [] one_lt_two = Ast_value S32 (s32_value 1)"
proof -
  have "ast_evaluate (table_evaluation F) [] one_lt_two = Some (s32_value 1)"
    by (simp add: one_lt_two_def table_evaluation_def value_ops_def value_ops_rows
          row_binary_def outcome_value_def s32_lt_def s32_value_def
          value_init_s32_def zero_value_def)
  moreover have "type (s32_value 1) = S32"
    by (simp add: s32_value_def value_init_s32_def)
  ultimately show ?thesis
    by (simp add: one_lt_two_def Let_def ast_binary_new_def ast_value_new_def
          ast_is_constant_def)
qed

text \<open>
  The tree of \<open>(u8)200 + (u8)100\<close>, as the parser builds it: a sum of declared type
  u8, the higher of u8 and u8.
\<close>

definition sum_of_u8 :: ast where
  "sum_of_u8 =
     Ast_binary AST_ADD U8
       (Ast_unary AST_CAST U8 (Ast_value SINT (s32_value 200)))
       (Ast_unary AST_CAST U8 (Ast_value SINT (s32_value 100)))"

lemma ast_int_new_200_100:
  "ast_int_new 200 = Ast_value S32 (s32_value 200)"
  "ast_int_new 100 = Ast_value S32 (s32_value 100)"
  by (simp_all add: ast_int_new_def ast_value_new_def s32_value_def value_init_s32_def)

lemma value_type_from_string_u8: "value_type_from_string ''u8'' = U8"
  by (simp add: value_type_from_string_def value_type_from_substring_def memcmp_eq_def)

lemma parse_sum_of_u8:
  "parse_expression 20
     [tok LEX_LEFT_PARENTHESE, tok_id ''u8'', tok LEX_RIGHT_PARENTHESE, tok_int 200, tok LEX_ADD,
      tok LEX_LEFT_PARENTHESE, tok_id ''u8'', tok LEX_RIGHT_PARENTHESE, tok_int 100] None
   = Some (0, Some sum_of_u8)"
  by (simp add: parser_defs sum_of_u8_def addsub_expression_node_def ast_int_new_200_100
        type_numeric_def HIGHER_TYPE_def value_type_from_string_u8)

lemma optimize_sum_of_u8:
  "ast_optimize (table_evaluation F) [] sum_of_u8 = Ast_value S32 (s32_value 300)"
proof -
  have l: "ast_optimize (table_evaluation F) []
             (Ast_unary AST_CAST U8 (Ast_value SINT (s32_value 200)))
           = Ast_value U8 (value_init_u8 zero_value 200)"
    by (simp add: Let_def ast_unary_new_def ast_value_new_def ast_is_constant_def
          table_evaluation_def value_ops_def value_ops_rows row_cast_def outcome_value_def
          s32_to_u8_def s32_value_def value_init_s32_def value_init_u8_def zero_value_def)
  have r: "ast_optimize (table_evaluation F) []
             (Ast_unary AST_CAST U8 (Ast_value SINT (s32_value 100)))
           = Ast_value U8 (value_init_u8 zero_value 100)"
    by (simp add: Let_def ast_unary_new_def ast_value_new_def ast_is_constant_def
          table_evaluation_def value_ops_def value_ops_rows row_cast_def outcome_value_def
          s32_to_u8_def s32_value_def value_init_s32_def value_init_u8_def zero_value_def)
  have e: "ast_evaluate (table_evaluation F) []
             (Ast_binary AST_ADD U8 (Ast_value U8 (value_init_u8 zero_value 200))
                (Ast_value U8 (value_init_u8 zero_value 100)))
           = Some (s32_value 300)"
    by (simp add: table_evaluation_def value_ops_def value_ops_rows row_binary_def
          outcome_value_def dummy_add_def after_cast_def cast_to_s32_def u8_to_s32_def
          s32_add_def s32_value_def value_init_s32_def value_init_u8_def zero_value_def
          get8_def put8_def get32_def put32_def)
  have t: "type (s32_value 300) = S32"
    by (simp add: s32_value_def value_init_s32_def)
  show ?thesis
    using l r e t
    by (simp add: sum_of_u8_def Let_def ast_binary_new_def ast_value_new_def
          ast_is_constant_def)
qed

text \<open>
  C2. The claim fails on the code. \<^verbatim>\<open>ast_binop_optimize\<close> and \<^verbatim>\<open>ast_unop_optimize\<close>
  assign the declared type to the node they rebuild, as \<^verbatim>\<open>ast_value_optimize\<close> does
  to the literal it copies, but not to the literal that replaces a folded node. The
  expression \<open>1 < 2\<close> parses to a relational node of declared type \<^verbatim>\<open>SINT\<close> and is
  folded to the literal 1 of type s32, the type every relational handler of the method
  table gives its result; \<open>(u8)200 + (u8)100\<close> parses to a sum of declared type u8 and
  is folded to the literal 300 of type s32, which the handler of the u8 row produces.
  The evaluator is the one that dispatches the handlers of \<^verbatim>\<open>value_ops\<close>.
\<close>

theorem folded_literal_loses_declared_type:
  "\<forall>F. parse_expression 20 [tok_int 1, tok LEX_LT, tok_int 2] None = Some (0, Some one_lt_two)
     \<and> ast_value_type one_lt_two = SINT
     \<and> ast_optimize (table_evaluation F) [] one_lt_two = Ast_value S32 (s32_value 1)
     \<and> ast_value_type (ast_optimize (table_evaluation F) [] one_lt_two)
         \<noteq> ast_value_type one_lt_two
     \<and> parse_expression 20
         [tok LEX_LEFT_PARENTHESE, tok_id ''u8'', tok LEX_RIGHT_PARENTHESE, tok_int 200,
          tok LEX_ADD,
          tok LEX_LEFT_PARENTHESE, tok_id ''u8'', tok LEX_RIGHT_PARENTHESE, tok_int 100] None
       = Some (0, Some sum_of_u8)
     \<and> ast_value_type sum_of_u8 = U8
     \<and> ast_optimize (table_evaluation F) [] sum_of_u8 = Ast_value S32 (s32_value 300)
     \<and> ast_value_type (ast_optimize (table_evaluation F) [] sum_of_u8)
         \<noteq> ast_value_type sum_of_u8"
proof
  fix F
  show "parse_expression 20 [tok_int 1, tok LEX_LT, tok_int 2] None = Some (0, Some one_lt_two)
     \<and> ast_value_type one_lt_two = SINT
     \<and> ast_optimize (table_evaluation F) [] one_lt_two = Ast_value S32 (s32_value 1)
     \<and> ast_value_type (ast_optimize (table_evaluation F) [] one_lt_two)
         \<noteq> ast_value_type one_lt_two
     \<and> parse_expression 20
         [tok LEX_LEFT_PARENTHESE, tok_id ''u8'', tok LEX_RIGHT_PARENTHESE, tok_int 200,
          tok LEX_ADD,
          tok LEX_LEFT_PARENTHESE, tok_id ''u8'', tok LEX_RIGHT_PARENTHESE, tok_int 100] None
       = Some (0, Some sum_of_u8)
     \<and> ast_value_type sum_of_u8 = U8
     \<and> ast_optimize (table_evaluation F) [] sum_of_u8 = Ast_value S32 (s32_value 300)
     \<and> ast_value_type (ast_optimize (table_evaluation F) [] sum_of_u8)
         \<noteq> ast_value_type sum_of_u8"
    using parse_one_lt_two optimize_one_lt_two [of F] parse_sum_of_u8 optimize_sum_of_u8 [of F]
    by (simp add: one_lt_two_def sum_of_u8_def)
qed
section \<open>Division and modulo by zero\<close>

lemma after_cast_not_zero:
  "(\<And>v. \<not> returned_zero (k v)) \<Longrightarrow> \<not> returned_zero (after_cast c k)"
  by (cases c) (simp_all add: after_cast_def returned_zero_def)

lemma int_div_not_zero:
  "\<not> returned_zero (s32_div a b out)" "\<not> returned_zero (u32_div a b out)"
  "\<not> returned_zero (s64_div a b out)" "\<not> returned_zero (u64_div a b out)"
  by (simp_all add: s32_div_def u32_div_def s64_div_def u64_div_def returned_zero_def)

lemma int_mod_not_zero:
  "\<not> returned_zero (s32_mod a b out)" "\<not> returned_zero (u32_mod a b out)"
  "\<not> returned_zero (s64_mod a b out)" "\<not> returned_zero (u64_mod a b out)"
  by (simp_all add: s32_mod_def u32_mod_def s64_mod_def u64_mod_def returned_zero_def)

lemma f64_div_not_zero: "\<not> returned_zero (f64_div F a b out)"
  by (simp add: f64_div_def returned_zero_def)

lemma dummy_div_not_zero: "\<not> returned_zero (dummy_div F a b out)"
  unfolding dummy_div_def by (rule after_cast_not_zero) (rule int_div_not_zero)

lemma dummy_mod_not_zero: "\<not> returned_zero (dummy_mod F a b out)"
  unfolding dummy_mod_def by (rule after_cast_not_zero) (rule int_mod_not_zero)

lemma f32_div_not_zero: "\<not> returned_zero (f32_div F a b out)"
  unfolding f32_div_def by (rule after_cast_not_zero) (rule f64_div_not_zero)

lemma div_never_returns_zero:
  assumes "value_ops F t = Some ops"
  shows "\<not> returned_zero (op_div ops op1 op2 out)"
  using assms
  by (rule value_ops_cases)
     (simp_all add: value_ops_rows dummy_div_not_zero f32_div_not_zero
        f64_div_not_zero int_div_not_zero)

lemma mod_never_returns_zero:
  assumes "value_ops F t = Some ops"
  shows "\<not> returned_zero (op_mod ops op1 op2 out)"
  using assms
  by (rule value_ops_cases)
     (simp_all add: value_ops_rows dummy_mod_not_zero int_mod_not_zero)

lemma zero_divisor_undefined:
  assumes "value_ops F t = Some ops"
    and "(t = S32 \<or> t = U32) \<and> get32 (data op2) = 0 \<or> (t = S64 \<or> t = U64) \<and> data op2 = 0"
  shows "op_div ops op1 op2 out = Undefined \<and> op_mod ops op1 op2 out = Undefined"
  using assms
  by (auto simp: value_ops_def value_ops_rows s32_div_def u32_div_def s64_div_def u64_div_def
        s32_mod_def u32_mod_def s64_mod_def u64_mod_def)

text \<open>
  C3, as the claim states it, fails: the handlers divide without looking at the divisor.
  For \<open>1 / 0\<close> on s32 operands the handler of the S32 row runs into the undefined C
  division and reports nothing; for \<open>1.0 / 0.0\<close> the handler of the F64 row divides and
  returns 1 with the quotient.
\<close>

theorem division_by_zero_counterexample:
  "(\<forall>F. op_div (value_ops_S32 F) (s32_value 1) (s32_value 0) zero_value = Undefined)
   \<and> (\<forall>F. op_mod (value_ops_S32 F) (s32_value 1) (s32_value 0) zero_value = Undefined)
   \<and> (\<forall>F. op_div (value_ops_F64 F) (f64_value 0x3FF0000000000000) (f64_value 0) zero_value
          = Returned 1 \<lparr>type = F64, data = fp_div F 0x3FF0000000000000 0\<rparr>)"
  by (simp add: value_ops_rows s32_div_def s32_mod_def f64_div_def s32_value_def f64_value_def
        value_init_s32_def value_init_f64_def zero_value_def)

text \<open>
  C3, amended. No division or modulo handler of any row of \<^verbatim>\<open>value_ops\<close> tests its
  divisor or reports a failure: none ever returns 0. On the rows S32, U32, S64 and U64
  a zero divisor makes the handler run into C's undefined division by zero, so that
  there is neither a value nor a reported error, and \<^verbatim>\<open>f64_div\<close> divides and returns 1
  for every divisor, zero included.
\<close>

theorem division_handlers_never_report_failure:
  assumes "value_ops F t = Some ops"
  shows "\<not> returned_zero (op_div ops op1 op2 out) \<and> \<not> returned_zero (op_mod ops op1 op2 out)
     \<and> (if (t = S32 \<or> t = U32) \<and> get32 (data op2) = 0 \<or> (t = S64 \<or> t = U64) \<and> data op2 = 0
        then op_div ops op1 op2 out = Undefined \<and> op_mod ops op1 op2 out = Undefined
        else True)
     \<and> (if t = F64
        then op_div ops op1 op2 out
             = Returned 1 (out\<lparr>type := F64, data := fp_div F (data op1) (data op2)\<rparr>)
        else True)"
proof -
  have "\<not> returned_zero (op_div ops op1 op2 out)"
    using assms by (rule div_never_returns_zero)
  moreover have "\<not> returned_zero (op_mod ops op1 op2 out)"
    using assms by (rule mod_never_returns_zero)
  moreover have "op_div ops op1 op2 out = Undefined \<and> op_mod ops op1 op2 out = Undefined"
    if "(t = S32 \<or> t = U32) \<and> get32 (data op2) = 0 \<or> (t = S64 \<or> t = U64) \<and> data op2 = 0"
    using assms that by (rule zero_divisor_undefined)
  moreover have "op_div ops op1 op2 out
      = Returned 1 (out\<lparr>type := F64, data := fp_div F (data op1) (data op2)\<rparr>)"
    if "t = F64"
  proof -
    from assms that have "ops = value_ops_F64 F"
      by (simp add: value_ops_def)
    then show ?thesis
      by (simp add: value_ops_rows f64_div_def)
  qed
  ultimately show ?thesis by simp
qed

theorem division_handlers_never_report_failure_witness:
  "\<forall>F. value_ops F S32 = Some (value_ops_S32 F)
     \<and> \<not> returned_zero (op_div (value_ops_S32 F) (s32_value 1) (s32_value 0) zero_value)
     \<and> \<not> returned_zero (op_mod (value_ops_S32 F) (s32_value 1) (s32_value 0) zero_value)
     \<and> op_div (value_ops_S32 F) (s32_value 1) (s32_value 0) zero_value = Undefined
     \<and> op_div (value_ops_S32 F) (s32_value 7) (s32_value (- 2)) zero_value
         = Returned 1 (s32_value (- 3))"
proof
  fix F
  have h: "value_ops F S32 = Some (value_ops_S32 F)"
    by (simp add: value_ops_def)
  have z: "get32 (data (s32_value 0)) = 0"
    by (simp add: s32_value_def value_init_s32_def)
  have q: "op_div (value_ops_S32 F) (s32_value 7) (s32_value (- 2)) zero_value
      = Returned 1 (s32_value (- 3))"
    by (simp add: value_ops_rows s32_div_def s32_value_def value_init_s32_def zero_value_def
          signed_divide_int_def)
  show "value_ops F S32 = Some (value_ops_S32 F)
     \<and> \<not> returned_zero (op_div (value_ops_S32 F) (s32_value 1) (s32_value 0) zero_value)
     \<and> \<not> returned_zero (op_mod (value_ops_S32 F) (s32_value 1) (s32_value 0) zero_value)
     \<and> op_div (value_ops_S32 F) (s32_value 1) (s32_value 0) zero_value = Undefined
     \<and> op_div (value_ops_S32 F) (s32_value 7) (s32_value (- 2)) zero_value
         = Returned 1 (s32_value (- 3))"
    using division_handlers_never_report_failure
            [OF h, of "s32_value 1" "s32_value 0" zero_value] h z q
    by (simp add: returned_zero_def)
qed

section \<open>Floating operands of the bitwise operators and of modulo\<close>

text \<open>
  C4, as the claim states it, fails for \<open>%\<close>: the modulo entry of the rows F32 and F64
  is \<^verbatim>\<open>dummy_mod\<close>, not \<^verbatim>\<open>dummy_nop\<close>. For \<open>5.0 % 0.1\<close>, with a floating-point unit
  that converts the bits of 5.0 to the integer 5, it casts the first operand to s32,
  reads the member \<^verbatim>\<open>s32\<close> of the second (the low half of the bits of 0.1, not zero)
  and returns 1 with the s32 value 5.
\<close>

theorem float_modulo_counterexample:
  "\<forall>F. op_mod (value_ops_F64
                (F\<lparr>fp64_trunc := (\<lambda>x. if x = 0x4014000000000000 then Some 5 else fp64_trunc F x)\<rparr>))
          (f64_value 0x4014000000000000) (f64_value 0x3FB999999999999A) zero_value
        = Returned 1 (s32_value 5)"
  by (simp add: value_ops_rows dummy_mod_def after_cast_def cast_to_s32_def f64_to_s32_def
        s32_mod_def f64_value_def s32_value_def value_init_f64_def value_init_s32_def
        zero_value_def signed_modulo_int_def signed_divide_int_def get32_def put32_def)

text \<open>
  C4, amended. For a floating type, f32 or f64, the handlers of the bitwise operators
  \<open>&\<close>, \<open>|\<close>, \<open>^\<close>, \<open><<\<close>, \<open>>>\<close> and \<open>~\<close> return 0 and leave \<open>out\<close> alone. The modulo
  operator with a floating operand on either side does not reach evaluation: the
  parser's \<^verbatim>\<open>muldiv_expression\<close> reports an error and builds no node.
\<close>

theorem float_bitwise_fails_and_modulo_is_rejected:
  assumes "t = F32 \<or> t = F64" and "value_ops F t = Some ops"
  shows "op_and ops op1 op2 out = Returned 0 out \<and> op_or ops op1 op2 out = Returned 0 out
     \<and> op_xor ops op1 op2 out = Returned 0 out
     \<and> op_shl ops op1 op2 out = Returned 0 out \<and> op_shr ops op1 op2 out = Returned 0 out
     \<and> op_compl ops op1 out = Returned 0 out
     \<and> (if ast_value_type left = t \<or> ast_value_type right = t
        then muldiv_expression_node AST_MOD left right p = (None, parse_error p)
        else True)"
proof -
  have ops: "ops = value_ops_F32 F \<or> ops = value_ops_F64 F"
    using assms by (auto simp: value_ops_def)
  have "\<not> type_INT t"
    using assms(1) by auto
  then have "muldiv_expression_node AST_MOD left right p = (None, parse_error p)"
    if "ast_value_type left = t \<or> ast_value_type right = t"
    using that by (auto simp: muldiv_expression_node_def)
  then show ?thesis
    using ops by (auto simp: value_ops_rows dummy_nop_def dummy_unop_def)
qed

theorem float_bitwise_fails_and_modulo_is_rejected_witness:
  "\<forall>F. op_and (value_ops_F64 F) (f64_value 0x4014000000000000) (f64_value 0x3FB999999999999A)
          zero_value = Returned 0 zero_value
     \<and> op_compl (value_ops_F64 F) (f64_value 0x4014000000000000) zero_value
          = Returned 0 zero_value
     \<and> muldiv_expression_node AST_MOD (ast_float_new 0x4014000000000000) (ast_int_new 2)
          (parser_init [] None)
        = (None, parse_error (parser_init [] None))"
proof
  fix F
  have t: "F64 = F32 \<or> F64 = F64" by simp
  have h: "value_ops F F64 = Some (value_ops_F64 F)"
    by (simp add: value_ops_def)
  have l: "ast_value_type (ast_float_new 0x4014000000000000) = F64"
    by (simp add: ast_float_new_def ast_value_new_def value_init_f64_def)
  show "op_and (value_ops_F64 F) (f64_value 0x4014000000000000) (f64_value 0x3FB999999999999A)
          zero_value = Returned 0 zero_value
     \<and> op_compl (value_ops_F64 F) (f64_value 0x4014000000000000) zero_value
          = Returned 0 zero_value
     \<and> muldiv_expression_node AST_MOD (ast_float_new 0x4014000000000000) (ast_int_new 2)
          (parser_init [] None)
        = (None, parse_error (parser_init [] None))"
    using float_bitwise_fails_and_modulo_is_rejected
            [OF t h, of "f64_value 0x4014000000000000" "f64_value 0x3FB999999999999A"
               zero_value "ast_float_new 0x4014000000000000" "ast_int_new 2"
               "parser_init [] None"] l
    by simp
qed

section \<open>Result types of binary nodes\<close>

text \<open>
  The type checks, whatever the operand subtrees are: with numeric operands the
  additive and multiplicative productions assign \<^verbatim>\<open>HIGHER_TYPE\<close> of the operand types,
  the relational and equality productions the tag \<^verbatim>\<open>SINT\<close>.
\<close>

lemma arithmetic_nodes_get_higher_type:
  assumes "type_numeric (ast_value_type left)" and "type_numeric (ast_value_type right)"
  shows "addsub_expression_node t left right p
           = (Some (Ast_binary t (HIGHER_TYPE (ast_value_type left) (ast_value_type right))
                left right), p)"
    and "t \<noteq> AST_MOD \<Longrightarrow> muldiv_expression_node t left right p
           = (Some (Ast_binary t (HIGHER_TYPE (ast_value_type left) (ast_value_type right))
                left right), p)"
    and "relational_expression_node t left right p = (Some (Ast_binary t SINT left right), p)"
    and "equality_expression_node t left right p = (Some (Ast_binary t SINT left right), p)"
  using assms
  by (simp_all add: addsub_expression_node_def muldiv_expression_node_def
        relational_expression_node_def equality_expression_node_def ast_binary_new_def)

lemma modulo_node_gets_higher_type:
  assumes "type_INT (ast_value_type left)" and "type_INT (ast_value_type right)"
  shows "muldiv_expression_node AST_MOD left right p
           = (Some (Ast_binary AST_MOD (HIGHER_TYPE (ast_value_type left) (ast_value_type right))
                left right), p)"
  using assms by (simp add: muldiv_expression_node_def ast_binary_new_def)

text \<open>
  The shift production is the one that does not promote: its node has the type of
  the left operand.
\<close>

lemma shift_node_gets_left_type:
  assumes "type_INT (ast_value_type left)" and "type_INT (ast_value_type right)"
  shows "shift_expression_node t left right p
           = (Some (Ast_binary t (ast_value_type left) left right), p)"
  using assms by (simp add: shift_expression_node_def ast_binary_new_def)

text \<open>
  The promotion lattice on the ten scalar types: the result is one of the two types; a
  floating operand makes it floating, f64 if either is f64; of two integer types it is
  as wide as the wider, and unsigned if they are equally wide and one is unsigned.
\<close>

lemma HIGHER_TYPE_lattice:
  "HIGHER_TYPE a b = a \<or> HIGHER_TYPE a b = b"
  "HIGHER_TYPE a a = a"
  "a \<in> set scalar_types \<Longrightarrow> b \<in> set scalar_types \<Longrightarrow> type_FPU a \<or> type_FPU b
     \<Longrightarrow> type_FPU (HIGHER_TYPE a b)"
  "a \<in> set scalar_types \<Longrightarrow> b \<in> set scalar_types \<Longrightarrow> type_INT a \<Longrightarrow> type_INT b
     \<Longrightarrow> type_INT (HIGHER_TYPE a b)
         \<and> value_type_sizeof (HIGHER_TYPE a b) = max (value_type_sizeof a) (value_type_sizeof b)"
  "HIGHER_TYPE S8 U8 = U8" "HIGHER_TYPE S16 U16 = U16" "HIGHER_TYPE S32 U32 = U32"
  "HIGHER_TYPE S64 U64 = U64" "HIGHER_TYPE U64 F32 = F32" "HIGHER_TYPE F32 F64 = F64"
proof -
  show "HIGHER_TYPE a b = a \<or> HIGHER_TYPE a b = b" "HIGHER_TYPE a a = a"
    by (simp_all add: HIGHER_TYPE_def)
  show "a \<in> set scalar_types \<Longrightarrow> b \<in> set scalar_types \<Longrightarrow> type_FPU a \<or> type_FPU b
     \<Longrightarrow> type_FPU (HIGHER_TYPE a b)"
    by (cases a; cases b) (simp_all add: HIGHER_TYPE_def scalar_types_def)
  show "a \<in> set scalar_types \<Longrightarrow> b \<in> set scalar_types \<Longrightarrow> type_INT a \<Longrightarrow> type_INT b
     \<Longrightarrow> type_INT (HIGHER_TYPE a b)
         \<and> value_type_sizeof (HIGHER_TYPE a b) = max (value_type_sizeof a) (value_type_sizeof b)"
    by (cases a; cases b) (simp_all add: HIGHER_TYPE_def scalar_types_def)
  show "HIGHER_TYPE S8 U8 = U8" "HIGHER_TYPE S16 U16 = U16" "HIGHER_TYPE S32 U32 = U32"
    "HIGHER_TYPE S64 U64 = U64" "HIGHER_TYPE U64 F32 = F32" "HIGHER_TYPE F32 F64 = F64"
    by (simp_all add: HIGHER_TYPE_def)
qed

text \<open>
  The parser accepts \<open>a op b\<close> for variables \<open>a\<close> and \<open>b\<close> of every pair of numeric
  types and each of \<open>+ - * /\<close>, the relational and the equality operations, and, when
  both types are integer, \<open>%\<close>; the node it returns has the higher of the two types, or
  the tag \<^verbatim>\<open>SINT\<close> for the relational and equality operations.
\<close>

lemma binary_nodes_of_variables:
  assumes "type_numeric (type a)" and "type_numeric (type b)"
    and "op \<in> {LEX_ADD, LEX_SUB, LEX_MUL, LEX_DIV} \<or> op = LEX_MOD \<and> type_INT (type a) \<and> type_INT (type b)
         \<or> op \<in> {LEX_LT, LEX_GT, LEX_LE, LEX_GE, LEX_EQ, LEX_NEQ}"
  shows "parse_binary op a b
     = Some (0, Some (Ast_binary (lex_to_ast_type op)
                        (if op \<in> {LEX_LT, LEX_GT, LEX_LE, LEX_GE, LEX_EQ, LEX_NEQ} then SINT
                         else HIGHER_TYPE (type a) (type b))
                        (Ast_var (type a) 0) (Ast_var (type b) 1)))"
proof -
  have add: "parse_binary LEX_ADD a b
      = Some (0, Some (Ast_binary AST_ADD (HIGHER_TYPE (type a) (type b))
                         (Ast_var (type a) 0) (Ast_var (type b) 1)))"
    using assms(1,2) by (simp add: parse_binary_def parser_defs addsub_expression_node_def)
  have sub: "parse_binary LEX_SUB a b
      = Some (0, Some (Ast_binary AST_SUB (HIGHER_TYPE (type a) (type b))
                         (Ast_var (type a) 0) (Ast_var (type b) 1)))"
    using assms(1,2) by (simp add: parse_binary_def parser_defs addsub_expression_node_def)
  have mul: "parse_binary LEX_MUL a b
      = Some (0, Some (Ast_binary AST_MUL (HIGHER_TYPE (type a) (type b))
                         (Ast_var (type a) 0) (Ast_var (type b) 1)))"
    using assms(1,2) by (simp add: parse_binary_def parser_defs muldiv_expression_node_def)
  have div: "parse_binary LEX_DIV a b
      = Some (0, Some (Ast_binary AST_DIV (HIGHER_TYPE (type a) (type b))
                         (Ast_var (type a) 0) (Ast_var (type b) 1)))"
    using assms(1,2) by (simp add: parse_binary_def parser_defs muldiv_expression_node_def)
  have mod: "parse_binary LEX_MOD a b
      = Some (0, Some (Ast_binary AST_MOD (HIGHER_TYPE (type a) (type b))
                         (Ast_var (type a) 0) (Ast_var (type b) 1)))"
    if "type_INT (type a) \<and> type_INT (type b)"
    using that by (simp add: parse_binary_def parser_defs muldiv_expression_node_def)
  have lt: "parse_binary LEX_LT a b
      = Some (0, Some (Ast_binary AST_LT SINT (Ast_var (type a) 0) (Ast_var (type b) 1)))"
    using assms(1,2)
    by (simp add: parse_binary_def parser_defs relational_expression_node_def)
  have gt: "parse_binary LEX_GT a b
      = Some (0, Some (Ast_binary AST_GT SINT (Ast_var (type a) 0) (Ast_var (type b) 1)))"
    using assms(1,2)
    by (simp add: parse_binary_def parser_defs relational_expression_node_def)
  have le: "parse_binary LEX_LE a b
      = Some (0, Some (Ast_binary AST_LE SINT (Ast_var (type a) 0) (Ast_var (type b) 1)))"
    using assms(1,2)
    by (simp add: parse_binary_def parser_defs relational_expression_node_def)
  have ge: "parse_binary LEX_GE a b
      = Some (0, Some (Ast_binary AST_GE SINT (Ast_var (type a) 0) (Ast_var (type b) 1)))"
    using assms(1,2)
    by (simp add: parse_binary_def parser_defs relational_expression_node_def)
  have eq: "parse_binary LEX_EQ a b
      = Some (0, Some (Ast_binary AST_EQ SINT (Ast_var (type a) 0) (Ast_var (type b) 1)))"
    using assms(1,2)
    by (simp add: parse_binary_def parser_defs equality_expression_node_def)
  have neq: "parse_binary LEX_NEQ a b
      = Some (0, Some (Ast_binary AST_NEQ SINT (Ast_var (type a) 0) (Ast_var (type b) 1)))"
    using assms(1,2)
    by (simp add: parse_binary_def parser_defs equality_expression_node_def)
  from assms(3) show ?thesis
    using add sub mul div mod lt gt le ge eq neq by auto
qed

text \<open>
  The part of the typing of a tree that concerns the arithmetic, relational and
  equality nodes: every node of \<open>+ - * / %\<close> has numeric operands and the higher of
  their types as its own, every relational or equality node has numeric operands and
  the tag \<^verbatim>\<open>SINT\<close>.
\<close>

fun promotion_consistent :: "ast \<Rightarrow> bool" where
  "promotion_consistent (Ast_value vt v) = True"
| "promotion_consistent (Ast_var vt i) = True"
| "promotion_consistent (Ast_unary nt vt c) = promotion_consistent c"
| "promotion_consistent (Ast_binary nt vt l r) =
     (promotion_consistent l \<and> promotion_consistent r
      \<and> (if nt \<in> {AST_ADD, AST_SUB, AST_MUL, AST_DIV, AST_MOD}
         then type_numeric (ast_value_type l) \<and> type_numeric (ast_value_type r)
              \<and> vt = HIGHER_TYPE (ast_value_type l) (ast_value_type r)
         else if nt \<in> {AST_EQ, AST_NEQ, AST_LT, AST_GT, AST_LE, AST_GE}
         then type_numeric (ast_value_type l) \<and> type_numeric (ast_value_type r) \<and> vt = SINT
         else True))"

lemma well_typed_promotion_consistent:
  "well_typed t \<Longrightarrow> promotion_consistent t"
  by (induction t) (auto simp: type_INT_numeric split: if_splits)

text \<open>The tree of \<open>a * b <= a % a != b\<close>, for \<open>a\<close> an s32 and \<open>b\<close> an f64.\<close>

definition product_le_remainder_neq :: ast where
  "product_le_remainder_neq =
     Ast_binary AST_NEQ SINT
       (Ast_binary AST_LE SINT
          (Ast_binary AST_MUL F64 (Ast_var S32 0) (Ast_var F64 1))
          (Ast_binary AST_MOD S32 (Ast_var S32 0) (Ast_var S32 0)))
       (Ast_var F64 1)"

lemma parse_product_le_remainder_neq:
  "parse_expression 20
     [tok_id ''a'', tok LEX_MUL, tok_id ''b'', tok LEX_LE, tok_id ''a'', tok LEX_MOD, tok_id ''a'',
      tok LEX_NEQ, tok_id ''b'']
     (Some (ab_symtab (s32_value 1) (f64_value 0x4014000000000000)))
   = Some (0, Some product_le_remainder_neq)"
  by (simp add: parser_defs product_le_remainder_neq_def muldiv_expression_node_def
        relational_expression_node_def equality_expression_node_def type_numeric_def
        HIGHER_TYPE_def s32_value_def f64_value_def value_init_s32_def value_init_f64_def)

text \<open>
  C5, as the claim states it, fails for the relational and equality operations: the
  node of \<open>a < b\<close> and the node of \<open>a == b\<close>, for two s32 variables, have the tag
  \<^verbatim>\<open>SINT\<close>, which \<^verbatim>\<open>parse.c\<close> assigns and which is not the tag of the type s32
  (\<^verbatim>\<open>value_type_to_string\<close> prints the one as "sint" and the other as "s32").
\<close>

theorem relational_node_counterexample:
  "parse_binary LEX_LT (s32_value 1) (s32_value 2)
     = Some (0, Some (Ast_binary AST_LT SINT (Ast_var S32 0) (Ast_var S32 1)))
   \<and> parse_binary LEX_EQ (s32_value 1) (s32_value 2)
     = Some (0, Some (Ast_binary AST_EQ SINT (Ast_var S32 0) (Ast_var S32 1)))
   \<and> SINT \<noteq> S32"
  by (simp add: parse_binary_def parser_defs relational_expression_node_def
        equality_expression_node_def type_numeric_def s32_value_def value_init_s32_def)

text \<open>
  C5, amended. For every pair of numeric operand types, here the types of the
  variables \<open>a\<close> and \<open>b\<close>, and every binary arithmetic operation that type-checks
  (\<open>+ - * /\<close>, and \<open>%\<close> on integer operands), the parser accepts \<open>a op b\<close> and assigns the
  node the result type \<^verbatim>\<open>HIGHER_TYPE\<close> of the two; for the relational and equality
  operations it accepts \<open>a op b\<close> and assigns the node the tag \<^verbatim>\<open>SINT\<close>. The same
  holds of the operators at any depth, whatever their operands are: in every tree the
  parser returns, every node of \<open>+ - * / %\<close> has operands of numeric types and the type
  \<^verbatim>\<open>HIGHER_TYPE\<close> of the two, and every relational or equality node has operands of
  numeric types and the tag \<^verbatim>\<open>SINT\<close>.
\<close>

theorem arithmetic_nodes_promote_and_relational_nodes_are_sint:
  assumes "type_numeric (type a)" and "type_numeric (type b)"
    and "op \<in> {LEX_ADD, LEX_SUB, LEX_MUL, LEX_DIV}
         \<or> op = LEX_MOD \<and> type_INT (type a) \<and> type_INT (type b)
         \<or> op \<in> {LEX_LT, LEX_GT, LEX_LE, LEX_GE, LEX_EQ, LEX_NEQ}"
  shows "parse_binary op a b
     = Some (0, Some (Ast_binary (lex_to_ast_type op)
                        (if op \<in> {LEX_LT, LEX_GT, LEX_LE, LEX_GE, LEX_EQ, LEX_NEQ} then SINT
                         else HIGHER_TYPE (type a) (type b))
                        (Ast_var (type a) 0) (Ast_var (type b) 1)))
     \<and> (\<forall>n inp tab e t. parse_expression n inp tab = Some (e, Some t)
            \<longrightarrow> promotion_consistent t)"
proof
  show "parse_binary op a b
     = Some (0, Some (Ast_binary (lex_to_ast_type op)
                        (if op \<in> {LEX_LT, LEX_GT, LEX_LE, LEX_GE, LEX_EQ, LEX_NEQ} then SINT
                         else HIGHER_TYPE (type a) (type b))
                        (Ast_var (type a) 0) (Ast_var (type b) 1)))"
    by (rule binary_nodes_of_variables [OF assms])
  show "\<forall>n inp tab e t. parse_expression n inp tab = Some (e, Some t)
          \<longrightarrow> promotion_consistent t"
    using parse_expression_well_typed well_typed_promotion_consistent by blast
qed

theorem arithmetic_nodes_promote_and_relational_nodes_are_sint_witness:
  "parse_binary LEX_MUL (s32_value 1) (f64_value 0x4014000000000000)
       = Some (0, Some (Ast_binary AST_MUL F64 (Ast_var S32 0) (Ast_var F64 1)))
   \<and> parse_binary LEX_MOD (s32_value 1) (u32_value 2)
       = Some (0, Some (Ast_binary AST_MOD U32 (Ast_var S32 0) (Ast_var U32 1)))
   \<and> parse_binary LEX_LE (s32_value 1) (f64_value 0x4014000000000000)
       = Some (0, Some (Ast_binary AST_LE SINT (Ast_var S32 0) (Ast_var F64 1)))
   \<and> parse_binary LEX_EQ (s32_value 1) (f64_value 0x4014000000000000)
       = Some (0, Some (Ast_binary AST_EQ SINT (Ast_var S32 0) (Ast_var F64 1)))
   \<and> parse_binary LEX_NEQ (s32_value 1) (u32_value 2)
       = Some (0, Some (Ast_binary AST_NEQ SINT (Ast_var S32 0) (Ast_var U32 1)))
   \<and> parse_expression 20
       [tok_id ''a'', tok LEX_MUL, tok_id ''b'', tok LEX_LE, tok_id ''a'', tok LEX_MOD,
        tok_id ''a'', tok LEX_NEQ, tok_id ''b'']
       (Some (ab_symtab (s32_value 1) (f64_value 0x4014000000000000)))
     = Some (0, Some product_le_remainder_neq)
   \<and> promotion_consistent product_le_remainder_neq"
proof -
  have a: "type_numeric (type (s32_value 1))"
    by (simp add: s32_value_def value_init_s32_def type_numeric_def)
  have b: "type_numeric (type (f64_value 0x4014000000000000))"
    by (simp add: f64_value_def value_init_f64_def type_numeric_def)
  have c: "type_numeric (type (u32_value 2))"
    by (simp add: u32_value_def value_init_u32_def type_numeric_def)
  have m: "LEX_MUL \<in> {LEX_ADD, LEX_SUB, LEX_MUL, LEX_DIV}
      \<or> LEX_MUL = LEX_MOD \<and> type_INT (type (s32_value 1))
          \<and> type_INT (type (f64_value 0x4014000000000000))
      \<or> LEX_MUL \<in> {LEX_LT, LEX_GT, LEX_LE, LEX_GE, LEX_EQ, LEX_NEQ}"
    by simp
  have r: "LEX_MOD \<in> {LEX_ADD, LEX_SUB, LEX_MUL, LEX_DIV}
      \<or> LEX_MOD = LEX_MOD \<and> type_INT (type (s32_value 1)) \<and> type_INT (type (u32_value 2))
      \<or> LEX_MOD \<in> {LEX_LT, LEX_GT, LEX_LE, LEX_GE, LEX_EQ, LEX_NEQ}"
    by (simp add: s32_value_def u32_value_def value_init_s32_def value_init_u32_def)
  have l: "LEX_LE \<in> {LEX_ADD, LEX_SUB, LEX_MUL, LEX_DIV}
      \<or> LEX_LE = LEX_MOD \<and> type_INT (type (s32_value 1))
          \<and> type_INT (type (f64_value 0x4014000000000000))
      \<or> LEX_LE \<in> {LEX_LT, LEX_GT, LEX_LE, LEX_GE, LEX_EQ, LEX_NEQ}"
    by simp
  have e: "LEX_EQ \<in> {LEX_ADD, LEX_SUB, LEX_MUL, LEX_DIV}
      \<or> LEX_EQ = LEX_MOD \<and> type_INT (type (s32_value 1))
          \<and> type_INT (type (f64_value 0x4014000000000000))
      \<or> LEX_EQ \<in> {LEX_LT, LEX_GT, LEX_LE, LEX_GE, LEX_EQ, LEX_NEQ}"
    by simp
  have q: "LEX_NEQ \<in> {LEX_ADD, LEX_SUB, LEX_MUL, LEX_DIV}
      \<or> LEX_NEQ = LEX_MOD \<and> type_INT (type (s32_value 1)) \<and> type_INT (type (u32_value 2))
      \<or> LEX_NEQ \<in> {LEX_LT, LEX_GT, LEX_LE, LEX_GE, LEX_EQ, LEX_NEQ}"
    by simp
  note main = arithmetic_nodes_promote_and_relational_nodes_are_sint
  have "promotion_consistent product_le_remainder_neq"
    using main [OF a b m] parse_product_le_remainder_neq by blast
  then show ?thesis
    using main [OF a b m] main [OF a c r] main [OF a b l] main [OF a b e] main [OF a c q]
      parse_product_le_remainder_neq
    by (simp add: s32_value_def f64_value_def u32_value_def value_init_s32_def
          value_init_f64_def value_init_u32_def HIGHER_TYPE_def)
qed
section \<open>Unary logical not\<close>

text \<open>
  C6, as the claim states it, fails twice. \<open>!1.5\<close>, with a floating operand, is not
  accepted: the parser counts "invalid operands for unary operator" and then "empty
  input", and returns no tree. \<open>!1u\<close> is accepted, and its node has the operand's tag
  \<^verbatim>\<open>UINT\<close>, not s32.
\<close>

theorem logical_not_counterexample:
  "parse_expression 20 [tok LEX_NOT, tok_fp 0x3FF8000000000000] None = Some (2, None)
   \<and> parse_expression 20 [tok LEX_NOT, tok_uint 1] None
       = Some (0, Some (Ast_unary AST_NOT UINT (Ast_value UINT (u32_value 1))))"
  by (simp add: parser_defs unary_expression_node_def ast_float_new_def ast_uint_new_def
        ast_value_new_def value_init_f64_def value_init_u32_def u32_value_def DOUBLE_def
        zero_value_def put32_def)

text \<open>
  C6, amended. For every operand expression of integer type the type check of the
  unary production accepts logical not and gives the node the type of the operand
  (s32 for an s32 operand only); for an operand of any other type it counts an error
  and builds no node. From end to end, for a variable \<open>a\<close>: the parser accepts \<open>!a\<close>
  with a node of the type of \<open>a\<close> if that type is an integer type, and otherwise
  reports two errors and returns no tree.
\<close>

theorem logical_not_takes_integers_and_keeps_their_type:
  "unary_expression_node AST_NOT child p
     = (if type_INT (ast_value_type child)
        then (Some (Ast_unary AST_NOT (ast_value_type child) child), p)
        else (None, parse_error p))
   \<and> parse_unary LEX_NOT a
     = (if type_INT (type a)
        then Some (0, Some (Ast_unary AST_NOT (type a) (Ast_var (type a) 0)))
        else Some (2, None))"
  by (simp add: parse_unary_def parser_defs unary_expression_node_def ast_unary_new_def)
section \<open>Break leases are balanced\<close>

lemma ramfuck_continue_break: "ramfuck_continue (ramfuck_break ctx) = ctx"
  by (simp add: ramfuck_continue_def ramfuck_break_def)

lemma release_lease: "release d (lease d ctx) = ctx"
  by (simp add: release_def lease_def ramfuck_continue_break)

lemma commands_keep_context:
  "snd (do_eval ctx r) = ctx" "snd (do_explain ctx r) = ctx" "snd (do_poke ctx r) = ctx"
  "snd (do_list ctx r) = ctx" "snd (do_search ctx r) = ctx" "snd (do_filter ctx r) = ctx"
  by (simp_all add: do_eval_def do_explain_def do_poke_def do_list_def do_search_def
        do_filter_def search_def filter_hits_def release_lease ramfuck_continue_break Let_def
        split: option.split bool.split)

lemma cli_execute_line_breaks: "breaks (cli_execute_line ctx c) = breaks ctx"
proof -
  have "snd (case fst c of
              Eval \<Rightarrow> do_eval ctx (snd c)
            | Explain \<Rightarrow> do_explain ctx (snd c)
            | Poke \<Rightarrow> do_poke ctx (snd c)
            | List \<Rightarrow> do_list ctx (snd c)
            | Search \<Rightarrow> do_search ctx (snd c)
            | Filter \<Rightarrow> do_filter ctx (snd c)) = ctx"
    by (cases "fst c") (simp_all add: commands_keep_context)
  then show ?thesis
    by (simp add: cli_execute_line_def case_prod_beta)
qed

lemma cli_execute_breaks: "breaks (cli_execute ctx cs) = breaks ctx"
  unfolding cli_execute_def
  by (induction cs arbitrary: ctx) (simp_all add: cli_execute_line_breaks)

text \<open>
  C7. Each core command returns with the suspend count it was entered with, on every
  path through it, evaluation failure and cancellation included: what it acquired with
  \<^verbatim>\<open>ramfuck_break\<close> it gave back with \<^verbatim>\<open>ramfuck_continue\<close>. So the count, and whether
  the target is suspended, are the same after any sequence of core commands.
\<close>

theorem break_lease_balance:
  "breaks (snd (do_eval ctx r)) = breaks ctx \<and> breaks (snd (do_explain ctx r)) = breaks ctx
   \<and> breaks (snd (do_poke ctx r)) = breaks ctx \<and> breaks (snd (do_list ctx r)) = breaks ctx
   \<and> breaks (snd (do_search ctx r)) = breaks ctx \<and> breaks (snd (do_filter ctx r)) = breaks ctx
   \<and> breaks (cli_execute ctx cs) = breaks ctx
   \<and> target_suspended (cli_execute ctx cs) = target_suspended ctx"
  by (simp add: commands_keep_context cli_execute_breaks target_suspended_def)

section \<open>Prefixes of type names\<close>

text \<open>
  C8. \<^verbatim>\<open>value_type_from_substring\<close> compares only \<open>len\<close> bytes, so every nonempty
  strict prefix of a type name gets the type of the first name it is a prefix of: S8
  for \<open>s\<close>, S32 for \<open>s3\<close>. The same holds through \<^verbatim>\<open>value_type_from_string\<close>, and so the
  cast recognition of the parser finds a type in \<open>(s3)x\<close> and the expression is parsed
  as a cast of \<open>x\<close> to s32.
\<close>

theorem type_name_prefixes_are_types:
  "value_type_from_substring ''s'' 1 = S8 \<and> value_type_from_substring ''s3'' 2 = S32
   \<and> map (\<lambda>s. value_type_from_substring s (length s))
        (concat (map nonempty_strict_prefixes type_names))
      = [S8, S8, S16, S8, S32, S8, S64, U8, U8, U16, U8, U32, U8, U64, F32, F32, F32, F64]
   \<and> value_type_from_string ''s3'' = S32
   \<and> cast_peek ((parser_init [tok_id ''s3'', tok LEX_RIGHT_PARENTHESE, tok_id ''x'']
                   (Some x_symtab))\<lparr>symbol := token LEX_LEFT_PARENTHESE\<rparr>) = S32
   \<and> parse_expression 20
        [tok LEX_LEFT_PARENTHESE, tok_id ''s3'', tok LEX_RIGHT_PARENTHESE, tok_id ''x'']
        (Some x_symtab)
      = Some (0, Some (Ast_unary AST_CAST S32 (Ast_var U8 0)))"
proof -
  have s3: "value_type_from_string ''s3'' = S32"
    by (simp add: value_type_from_string_def value_type_from_substring_def memcmp_eq_def)
  have "value_type_from_substring ''s'' 1 = S8" "value_type_from_substring ''s3'' 2 = S32"
    by (simp_all add: value_type_from_substring_def memcmp_eq_def)
  moreover have "map (\<lambda>s. value_type_from_substring s (length s))
        (concat (map nonempty_strict_prefixes type_names))
      = [S8, S8, S16, S8, S32, S8, S64, U8, U8, U16, U8, U32, U8, U64, F32, F32, F32, F64]"
    by (simp add: type_names_def nonempty_strict_prefixes_def value_type_from_substring_def
          memcmp_eq_def upt_rec)
  moreover have "cast_peek ((parser_init [tok_id ''s3'', tok LEX_RIGHT_PARENTHESE, tok_id ''x'']
                   (Some x_symtab))\<lparr>symbol := token LEX_LEFT_PARENTHESE\<rparr>) = S32"
    by (simp add: cast_peek_def parser_init_def tok_id_def tok_def token_def s3)
  moreover have "parse_expression 20
        [tok LEX_LEFT_PARENTHESE, tok_id ''s3'', tok LEX_RIGHT_PARENTHESE, tok_id ''x'']
        (Some x_symtab)
      = Some (0, Some (Ast_unary AST_CAST S32 (Ast_var U8 0)))"
    by (simp add: parser_defs s3 value_init_u8_def)
  ultimately show ?thesis
    using s3 by simp
qed

section \<open>Truthiness of negative zero\<close>

lemma value_is_zero_loop_nonzero_byte:
  "i \<le> k \<Longrightarrow> k < j \<Longrightarrow> data_byte dest k \<noteq> 0 \<Longrightarrow> value_is_zero_loop dest i j = 0"
proof (induction dest i j rule: value_is_zero_loop.induct)
  case (1 dest i j)
  show ?case
  proof (cases "data_byte dest i \<noteq> 0")
    case True
    with "1.prems" show ?thesis
      by (simp add: value_is_zero_loop.simps [of dest i j])
  next
    case False
    with "1.prems" have "i \<noteq> k" by auto
    with "1.prems" have "i + 1 \<le> k" by simp
    with "1.prems" "1.IH" False have "value_is_zero_loop dest (i + 1) j = 0"
      by simp
    with "1.prems" False show ?thesis
      by (simp add: value_is_zero_loop.simps [of dest i j])
  qed
qed

text \<open>
  C9. \<^verbatim>\<open>value_is_zero\<close> compares raw bytes: for the floating value negative zero, of
  type f32 or f64 and whatever the storage held before, it returns 0, so the value is
  classified as non-zero.
\<close>

theorem value_is_zero_negative_zero:
  "value_is_zero (value_init_f32 dest f32_negative_zero) = 0
   \<and> value_is_zero (value_init_f64 dest f64_negative_zero) = 0"
proof
  have "data_byte (value_init_f32 dest f32_negative_zero) 3 = 0x80"
    using byte_put32 [of 3 "data dest" "0x80000000"]
    by (simp add: data_byte_def value_init_f32_def f32_negative_zero_def)
  then have "data_byte (value_init_f32 dest f32_negative_zero) 3 \<noteq> 0"
    by simp
  then show "value_is_zero (value_init_f32 dest f32_negative_zero) = 0"
    unfolding value_is_zero_def
    by (intro value_is_zero_loop_nonzero_byte [where k = 3])
       (simp_all add: value_sizeof_def value_init_f32_def)
next
  have "data_byte (value_init_f64 dest f64_negative_zero) 7 \<noteq> 0"
    by (simp add: data_byte_def value_init_f64_def f64_negative_zero_def)
  then show "value_is_zero (value_init_f64 dest f64_negative_zero) = 0"
    unfolding value_is_zero_def
    by (intro value_is_zero_loop_nonzero_byte [where k = 7])
       (simp_all add: value_sizeof_def value_init_f64_def)
qed

section \<open>Top-level pointer casts of value expressions\<close>

text \<open>
  C10. When the tree \<^verbatim>\<open>accept_value\<close> parsed is a cast to a pointer type at its root,
  the root is dropped and the function goes on with the child, cast to the requested
  type only if the child's type differs from it. What is evaluated, and so the value,
  does not depend on the pointer type the user wrote.
\<close>

theorem accept_value_drops_pointer_cast:
  "accept_value evaluate vt (Some (Ast_unary AST_CAST (PTR t) child))
     = evaluate (if ast_value_type child \<noteq> vt then ast_cast_new vt child else child)
   \<and> accept_value evaluate vt (Some (Ast_unary AST_CAST (PTR t) child))
     = accept_value evaluate vt (Some (Ast_unary AST_CAST (PTR t') child))"
  by (simp add: accept_value_def accept_value_tree_def)


end
